theory Spec2Isabelle
  imports Main "HOL-Library.Finite_Map"
begin

section \<open>Chat hub service: data model\<close>

text \<open>
  The embedding follows \<^verbatim>\<open>packages/cli/src/modules/chat-hub/chat-hub.service.ts\<close>.
  Identifiers are JavaScript strings; a nullable field is an \<open>option\<close>, with \<open>None\<close>
  for \<^verbatim>\<open>null\<close>/\<^verbatim>\<open>undefined\<close>.
\<close>

type_synonym ChatMessageId = string
type_synonym ChatSessionId = string

datatype ChatHubMessageType = Human | Ai | System | OtherType string

datatype ChatHubMessageStatus = Pending | Running | Success | Error | Cancelled | Waiting

text \<open>\<^verbatim>\<open>IBinaryData\<close>, as far as the service reads it.\<close>

record IBinaryData =
  bin_id :: "string option"
  bin_fileName :: "string option"
  bin_mimeType :: string

text \<open>The execution relation of a message (\<^verbatim>\<open>message.execution\<close>).\<close>

record ExecutionEntity =
  exec_id :: string
  exec_workflowId :: string

text \<open>\<^verbatim>\<open>ChatHubMessage\<close>, the fields the service reads or writes.\<close>

record ChatHubMessage =
  msg_id :: ChatMessageId
  msg_sessionId :: ChatSessionId
  msg_type :: ChatHubMessageType
  msg_content :: string
  msg_previousMessageId :: "ChatMessageId option"
  msg_retryOfMessageId :: "ChatMessageId option"
  msg_revisionOfMessageId :: "ChatMessageId option"
  msg_status :: ChatHubMessageStatus
  msg_executionId :: "int option"
  msg_execution :: "ExecutionEntity option"
  msg_attachments :: "IBinaryData list option"

section \<open>buildMessageHistory\<close>

text \<open>
  JavaScript truthiness of a value of type \<^verbatim>\<open>string | null\<close>: \<^verbatim>\<open>null\<close> and the empty
  string are falsy.
\<close>

definition truthy :: "string option \<Rightarrow> bool" where
  "truthy v = (case v of None \<Rightarrow> False | Some s \<Rightarrow> s \<noteq> [])"

text \<open>
  The table handed to \<^verbatim>\<open>buildMessageHistory\<close> is a plain object, built with
  \<^verbatim>\<open>Object.fromEntries\<close>; its own properties are the finite map. Reading
  \<^verbatim>\<open>messages[id]\<close> finds the own property of that name or else the member that every
  plain object inherits from \<^verbatim>\<open>Object.prototype\<close>. These are the names of the inherited
  members (ECMAScript, Annex B included).
\<close>

definition objectPrototypeMembers :: "string list" where
  "objectPrototypeMembers =
     [''constructor'', ''__defineGetter__'', ''__defineSetter__'', ''hasOwnProperty'',
      ''__lookupGetter__'', ''__lookupSetter__'', ''isPrototypeOf'', ''propertyIsEnumerable'',
      ''toString'', ''valueOf'', ''__proto__'', ''toLocaleString'']"

text \<open>
  What \<^verbatim>\<open>messages[id]\<close> evaluates to when it is not \<^verbatim>\<open>undefined\<close>: a stored message, or
  an inherited member (a function, or the prototype object for \<^verbatim>\<open>__proto__\<close>), named by
  its property name. An inherited member has none of the properties of a message.
\<close>

datatype HistoryEntry = MessageValue ChatHubMessage | InheritedMember string

definition propertyLookup ::
  "(ChatMessageId, ChatHubMessage) fmap \<Rightarrow> string \<Rightarrow> HistoryEntry option" where
  "propertyLookup messages key =
     (case fmlookup messages key of
        Some m \<Rightarrow> Some (MessageValue m)
      | None \<Rightarrow>
          if key \<in> set objectPrototypeMembers then Some (InheritedMember key) else None)"

text \<open>\<^verbatim>\<open>value?.previousMessageId ?? null\<close>\<close>

definition previousMessageIdOf :: "HistoryEntry option \<Rightarrow> ChatMessageId option" where
  "previousMessageIdOf v =
     (case v of
        None \<Rightarrow> None
      | Some (InheritedMember name) \<Rightarrow> None
      | Some (MessageValue m) \<Rightarrow> msg_previousMessageId m)"

text \<open>
  The loop of \<^verbatim>\<open>buildMessageHistory\<close>:
  \<^verbatim>\<open>while (current && !visited.has(current)) {
      historyIds.unshift(current); visited.add(current);
      current = messages[current]?.previousMessageId ?? null; }\<close>
  The state of the loop is \<open>visited\<close>, \<open>historyIds\<close> and \<open>current\<close>.
\<close>

function historyLoop ::
  "(ChatMessageId, ChatHubMessage) fmap \<Rightarrow> ChatMessageId set \<Rightarrow> ChatMessageId list \<Rightarrow>
   ChatMessageId option \<Rightarrow> ChatMessageId list" where
  "historyLoop messages visited historyIds current =
     (case current of
        None \<Rightarrow> historyIds
      | Some c \<Rightarrow>
          if c = [] \<or> c \<in> visited then historyIds
          else historyLoop messages (insert c visited) (c # historyIds)
                 (previousMessageIdOf (propertyLookup messages c)))"
  by pat_completeness auto
termination
proof (relation "measure (\<lambda>(messages, visited, historyIds, current).
          2 * card (fmdom' messages - visited) + (case current of None \<Rightarrow> 0 | Some _ \<Rightarrow> 1))")
  show "wf (measure (\<lambda>(messages, visited, historyIds, current).
          2 * card (fmdom' messages - visited) + (case current of None \<Rightarrow> 0 | Some _ \<Rightarrow> (1::nat))))"
    by simp
next
  fix messages :: "(ChatMessageId, ChatHubMessage) fmap"
    and visited :: "ChatMessageId set" and historyIds :: "ChatMessageId list"
    and current :: "ChatMessageId option" and c :: ChatMessageId
  assume cur: "current = Some c" and fresh: "\<not> (c = [] \<or> c \<in> visited)"
  show "((messages, insert c visited, c # historyIds,
          previousMessageIdOf (propertyLookup messages c)),
         (messages, visited, historyIds, current))
        \<in> measure (\<lambda>(messages, visited, historyIds, current).
          2 * card (fmdom' messages - visited) + (case current of None \<Rightarrow> 0 | Some _ \<Rightarrow> 1))"
  proof (cases "fmlookup messages c")
    case None
    then have "c \<notin> fmdom' messages" by (simp add: fmdom'_notI)
    then have "fmdom' messages - insert c visited = fmdom' messages - visited" by auto
    moreover have "previousMessageIdOf (propertyLookup messages c) = None"
      using None by (simp add: previousMessageIdOf_def propertyLookup_def)
    ultimately show ?thesis using cur by simp
  next
    case (Some m)
    then have mem: "c \<in> fmdom' messages - visited" using fresh by (simp add: fmdom'I)
    have fin: "finite (fmdom' messages - visited)" by simp
    have "card ((fmdom' messages - visited) - {c}) < card (fmdom' messages - visited)"
      using fin mem by (rule card_Diff1_less)
    moreover have "fmdom' messages - insert c visited = (fmdom' messages - visited) - {c}"
      by auto
    ultimately have "card (fmdom' messages - insert c visited) < card (fmdom' messages - visited)"
      by simp
    with cur show ?thesis by (simp split: option.split)
  qed
qed

declare historyLoop.simps [simp del]

text \<open>The identifiers collected by the loop, oldest first (\<^verbatim>\<open>historyIds\<close> after the loop).\<close>

definition historyIds :: "(ChatMessageId, ChatHubMessage) fmap \<Rightarrow> ChatMessageId option \<Rightarrow> ChatMessageId list" where
  "historyIds messages lastMessageId =
     (if \<not> truthy lastMessageId then [] else historyLoop messages {} [] lastMessageId)"

text \<open>
  \<^verbatim>\<open>historyIds.flatMap((id) => messages[id] ?? [])\<close>: an identifier under which nothing is
  found contributes nothing; whatever is found, a stored message or an inherited member,
  becomes an element of the history (neither is an array, so \<^verbatim>\<open>flatMap\<close> keeps it whole).
\<close>

definition buildMessageHistory ::
  "(ChatMessageId, ChatHubMessage) fmap \<Rightarrow> ChatMessageId option \<Rightarrow> HistoryEntry list" where
  "buildMessageHistory messages lastMessageId =
     (if \<not> truthy lastMessageId then []
      else concat (map (\<lambda>i. case propertyLookup messages i of None \<Rightarrow> [] | Some v \<Rightarrow> [v])
                       (historyLoop messages {} [] lastMessageId)))"

text \<open>
  Each identifier but the oldest is reached from the next newer one through
  \<^verbatim>\<open>previousMessageId\<close>.
\<close>

fun parentLinked :: "(ChatMessageId, ChatHubMessage) fmap \<Rightarrow> ChatMessageId list \<Rightarrow> bool" where
  "parentLinked messages (older # newer # rest) =
     ((case fmlookup messages newer of
         None \<Rightarrow> False
       | Some m \<Rightarrow> msg_previousMessageId m = Some older)
      \<and> parentLinked messages (newer # rest))"
| "parentLinked messages [x] = True"
| "parentLinked messages [] = True"

text \<open>
  Why the walk stopped at the oldest identifier: no message is stored under it (a dangling
  link), its message has a falsy parent, or its parent was already visited (a cycle).
\<close>

datatype StopReason = Dangling | NoParent | Revisit

definition stopReason :: "(ChatMessageId, ChatHubMessage) fmap \<Rightarrow> ChatMessageId list \<Rightarrow> StopReason option" where
  "stopReason messages ids =
     (case ids of
        [] \<Rightarrow> None
      | oldest # _ \<Rightarrow>
          (case fmlookup messages oldest of
             None \<Rightarrow> Some Dangling
           | Some m \<Rightarrow>
               if \<not> truthy (msg_previousMessageId m) then Some NoParent
               else if the (msg_previousMessageId m) \<in> set ids then Some Revisit
               else None))"

section \<open>Errors\<close>

text \<open>
  The error classes the service throws, and the errors of its collaborators:
  \<open>TypeError\<close> is the JavaScript runtime's (reading a property of \<^verbatim>\<open>undefined\<close>),
  \<open>ExternalError\<close> stands for whatever a collaborating service throws.
\<close>

datatype error =
    BadRequestError string
  | NotFoundError string
  | UnexpectedError string
  | OperationalError string
  | TypeError string
  | ExternalError string

section \<open>getConversations\<close>

datatype ChatHubProvider = N8n | CustomAgent | LLM string

text \<open>
  \<^verbatim>\<open>ChatHubSession\<close>, the fields the service reads. \<open>ses_messages\<close> is the
  \<^verbatim>\<open>messages\<close> relation, \<open>None\<close> when it is not loaded.
\<close>

record ChatHubSession =
  ses_id :: ChatSessionId
  ses_ownerId :: string
  ses_title :: string
  ses_credentialId :: "string option"
  ses_provider :: ChatHubProvider
  ses_model :: "string option"
  ses_workflowId :: "string option"
  ses_agentId :: "string option"
  ses_agentName :: "string option"
  ses_tools :: "string list"
  ses_messages :: "ChatHubMessage list option"

record 'dto ChatHubConversationsResponse =
  resp_data :: "'dto list"
  resp_nextCursor :: "string option"
  resp_hasMore :: bool

text \<open>
  \<^verbatim>\<open>Array.prototype.slice(0, n)\<close> for an integer \<open>n\<close>: a negative end counts from the
  end of the array.
\<close>

definition slice0 :: "'a list \<Rightarrow> int \<Rightarrow> 'a list" where
  "slice0 xs n = (if n < 0 then take (nat (int (length xs) + n)) xs else take (nat n) xs)"

text \<open>
  \<^verbatim>\<open>getConversations\<close>. The session repository's \<^verbatim>\<open>getManyByUserId\<close> and the
  conversion to a DTO are parameters. \<^verbatim>\<open>data[data.length - 1].id\<close> throws a
  \<^verbatim>\<open>TypeError\<close> on an empty \<^verbatim>\<open>data\<close>.
\<close>

definition getConversations ::
  "(string \<Rightarrow> int \<Rightarrow> string option \<Rightarrow> ChatHubSession list) \<Rightarrow> (ChatHubSession \<Rightarrow> 'dto) \<Rightarrow>
   string \<Rightarrow> int \<Rightarrow> string option \<Rightarrow> error + 'dto ChatHubConversationsResponse" where
  "getConversations getManyByUserId convertSessionEntityToDto userId limit cursor =
     (let sessions = getManyByUserId userId (limit + 1) cursor;
          hasMore = (int (length sessions) > limit);
          data = (if hasMore then slice0 sessions limit else sessions)
      in if hasMore
         then (case data of
                 [] \<Rightarrow> Inl (TypeError ''Cannot read properties of undefined'')
               | _ # _ \<Rightarrow>
                   Inr \<lparr>resp_data = map convertSessionEntityToDto data,
                        resp_nextCursor = Some (ses_id (last data)),
                        resp_hasMore = hasMore\<rparr>)
         else Inr \<lparr>resp_data = map convertSessionEntityToDto data,
                   resp_nextCursor = None,
                   resp_hasMore = hasMore\<rparr>)"

section \<open>reconnectToStream\<close>

record StreamChunk =
  sequenceNumber :: int
  chunk_content :: string

text \<open>The three queries of the stream service that \<^verbatim>\<open>reconnectToStream\<close> calls.\<close>

record ChatStreamService =
  hasActiveStream :: "ChatSessionId \<Rightarrow> bool"
  getCurrentMessageId :: "ChatSessionId \<Rightarrow> ChatMessageId option"
  getPendingChunks :: "ChatSessionId \<Rightarrow> int \<Rightarrow> StreamChunk list"

record ReconnectResult =
  rc_hasActiveStream :: bool
  rc_currentMessageId :: "ChatMessageId option"
  rc_pendingChunks :: "StreamChunk list"
  rc_lastSequenceNumber :: int

definition reconnectToStream :: "ChatStreamService \<Rightarrow> ChatSessionId \<Rightarrow> int \<Rightarrow> ReconnectResult" where
  "reconnectToStream chatStreamService sessionId lastReceivedSequence =
     (let pendingChunks = getPendingChunks chatStreamService sessionId lastReceivedSequence
      in \<lparr>rc_hasActiveStream = hasActiveStream chatStreamService sessionId,
          rc_currentMessageId = getCurrentMessageId chatStreamService sessionId,
          rc_pendingChunks = pendingChunks,
          rc_lastSequenceNumber =
            (if length pendingChunks > 0 then sequenceNumber (last pendingChunks)
             else lastReceivedSequence)\<rparr>)"

text \<open>Example data for the concrete instances below.\<close>

definition exampleMessage ::
  "ChatMessageId \<Rightarrow> ChatHubMessageType \<Rightarrow> string \<Rightarrow> ChatMessageId option \<Rightarrow> ChatHubMessage" where
  "exampleMessage i ty txt prev =
     \<lparr>msg_id = i, msg_sessionId = ''S1'', msg_type = ty, msg_content = txt,
      msg_previousMessageId = prev, msg_retryOfMessageId = None,
      msg_revisionOfMessageId = None, msg_status = Success, msg_executionId = None,
      msg_execution = None, msg_attachments = None\<rparr>"



definition exampleSession :: "ChatSessionId \<Rightarrow> ChatHubProvider \<Rightarrow> ChatHubSession" where
  "exampleSession i p =
     \<lparr>ses_id = i, ses_ownerId = ''U1'', ses_title = ''New Chat'', ses_credentialId = None,
      ses_provider = p, ses_model = None, ses_workflowId = None, ses_agentId = None,
      ses_agentName = None, ses_tools = [], ses_messages = None\<rparr>"

definition exampleStream :: ChatStreamService where
  "exampleStream =
     \<lparr>hasActiveStream = (\<lambda>_. True),
      getCurrentMessageId = (\<lambda>_. Some ''M2''),
      getPendingChunks = (\<lambda>_ since.
         filter (\<lambda>c. since < sequenceNumber c)
           [\<lparr>sequenceNumber = 1, chunk_content = ''a''\<rparr>, \<lparr>sequenceNumber = 2, chunk_content = ''b''\<rparr>,
            \<lparr>sequenceNumber = 3, chunk_content = ''c''\<rparr>])\<rparr>"

definition exampleRepo :: "string \<Rightarrow> int \<Rightarrow> string option \<Rightarrow> ChatHubSession list" where
  "exampleRepo userId n cursor =
     take (nat n) [exampleSession ''S1'' N8n, exampleSession ''S2'' CustomAgent,
                   exampleSession ''S3'' (LLM ''openai'')]"

section \<open>Conversation history for the model\<close>

datatype ContentBlock = TextBlock string | ImageUrlBlock string

datatype MessageRecordType = UserRole | AiRole | SystemRole

datatype MessageContent = PlainText string | Blocks "ContentBlock list"

record MessageRecord =
  rec_type :: MessageRecordType
  rec_message :: MessageContent
  rec_hideFromUI :: bool

text \<open>
  \<^verbatim>\<open>ChatHubAgentKnowledgeItem\<close>: an embedding item (file name, embedding provider) or a
  file with its binary data.
\<close>

datatype ChatHubAgentKnowledgeItem =
    EmbeddingItem "string option" string
  | FileItem IBinaryData

record ChatModelMetadataDto =
  inputModalities :: "string list"

record ChatHubBaseLLMModel =
  llm_provider :: string
  llm_model :: string

text \<open>
  The collaborators of the history builder, which are not part of the service: the
  attachment service (\<^verbatim>\<open>getAsBuffer\<close> followed by \<^verbatim>\<open>toString('utf-8')\<close>, and
  \<^verbatim>\<open>getDataUrl\<close>; either may throw), the models service and the model metadata table.
\<close>

record HistoryEnv =
  getAsBuffer :: "IBinaryData \<Rightarrow> error + string"
  getDataUrl :: "IBinaryData \<Rightarrow> error + string"
  getMimeTypeModality :: "string \<Rightarrow> string"
  getModelMetadata :: "string \<Rightarrow> string \<Rightarrow> ChatModelMetadataDto"

definition newline :: string where
  "newline = [CHR 0x0A]"

definition startsWith :: "string \<Rightarrow> string \<Rightarrow> bool" where
  "startsWith s p = (take (length p) s = p)"

definition isTextFile :: "string \<Rightarrow> bool" where
  "isTextFile mimeType =
     (startsWith mimeType ''text/'' \<or>
      mimeType = ''application/json'' \<or>
      mimeType = ''application/xml'' \<or>
      mimeType = ''application/csv'' \<or>
      mimeType = ''application/x-yaml'' \<or>
      mimeType = ''application/yaml'')"

text \<open>
  What the \<^verbatim>\<open>try\<close> block of \<^verbatim>\<open>buildContentBlockForAttachment\<close> can throw: one of the two
  classes declared inside the function, or an error of a collaborator.
\<close>

datatype Thrown = TotalFileSizeExceededError | UnsupportedMimeTypeError | Other error

definition attachmentName :: "IBinaryData \<Rightarrow> string" where
  "attachmentName attachment =
     (case bin_fileName attachment of None \<Rightarrow> ''attachment'' | Some n \<Rightarrow> n)"

text \<open>The \<^verbatim>\<open>try\<close> block.\<close>

definition attachmentTry ::
  "'a HistoryEnv_scheme \<Rightarrow> ChatHubAgentKnowledgeItem \<Rightarrow> nat \<Rightarrow> nat \<Rightarrow> ChatModelMetadataDto \<Rightarrow> string \<Rightarrow>
   Thrown + ContentBlock list" where
  "attachmentTry env file currentTotalSize maxTotalPayloadSize modelMetadata prefix =
     (if currentTotalSize \<ge> maxTotalPayloadSize then Inl TotalFileSizeExceededError
      else
        (case file of
           EmbeddingItem fileName _ \<Rightarrow>
             Inr [TextBlock (prefix @ '': '' @
                    (case fileName of None \<Rightarrow> ''attachment'' | Some n \<Rightarrow> n) @ newline @
                    ''Content: '' @ newline @
                    ''(Use vector store question tool to query this document)'')]
         | FileItem attachment \<Rightarrow>
             if isTextFile (bin_mimeType attachment) then
               (case getAsBuffer env attachment of
                  Inl e \<Rightarrow> Inl (Other e)
                | Inr content \<Rightarrow>
                    if currentTotalSize + length content > maxTotalPayloadSize
                    then Inl TotalFileSizeExceededError
                    else Inr [TextBlock (prefix @ '': '' @ attachmentName attachment @ newline @
                                ''Content: '' @ newline @ content)])
             else
               (let modality = getMimeTypeModality env (bin_mimeType attachment)
                in if modality \<notin> set (inputModalities modelMetadata)
                   then Inl UnsupportedMimeTypeError
                   else
                     (case getDataUrl env attachment of
                        Inl e \<Rightarrow> Inl (Other e)
                      | Inr url \<Rightarrow>
                          if currentTotalSize + length url > maxTotalPayloadSize
                          then Inl TotalFileSizeExceededError
                          else Inr [TextBlock (prefix @ '': '' @ attachmentName attachment),
                                    ImageUrlBlock url]))))"

text \<open>
  The placeholders of the \<^verbatim>\<open>catch\<close> block. For an embedding item the name is
  \<^verbatim>\<open>file.fileName\<close> as the template literal prints it.
\<close>

definition catchFileName :: "ChatHubAgentKnowledgeItem \<Rightarrow> string" where
  "catchFileName file =
     (case file of
        EmbeddingItem fileName _ \<Rightarrow> (case fileName of None \<Rightarrow> ''undefined'' | Some n \<Rightarrow> n)
      | FileItem attachment \<Rightarrow> attachmentName attachment)"

definition sizeLimitPlaceholder :: "string \<Rightarrow> ChatHubAgentKnowledgeItem \<Rightarrow> ContentBlock" where
  "sizeLimitPlaceholder prefix file =
     TextBlock (prefix @ '': '' @ catchFileName file @ newline @
                ''(Content omitted due to size limit)'')"

definition unsupportedPlaceholder :: "string \<Rightarrow> ChatHubAgentKnowledgeItem \<Rightarrow> ContentBlock" where
  "unsupportedPlaceholder prefix file =
     TextBlock (prefix @ '': '' @ catchFileName file @ newline @ ''(Unsupported file type)'')"

text \<open>
  \<^verbatim>\<open>buildContentBlockForAttachment\<close>: the \<^verbatim>\<open>try\<close> block under its \<^verbatim>\<open>catch\<close>, which
  turns the two local classes into placeholders and rethrows everything else
  (\<^verbatim>\<open>throw e\<close>).
\<close>

definition buildContentBlockForAttachment ::
  "'a HistoryEnv_scheme \<Rightarrow> ChatHubAgentKnowledgeItem \<Rightarrow> nat \<Rightarrow> nat \<Rightarrow> ChatModelMetadataDto \<Rightarrow> string \<Rightarrow>
   error + ContentBlock list" where
  "buildContentBlockForAttachment env file currentTotalSize maxTotalPayloadSize modelMetadata prefix =
     (case attachmentTry env file currentTotalSize maxTotalPayloadSize modelMetadata prefix of
        Inr blocks \<Rightarrow> Inr blocks
      | Inl TotalFileSizeExceededError \<Rightarrow> Inr [sizeLimitPlaceholder prefix file]
      | Inl UnsupportedMimeTypeError \<Rightarrow> Inr [unsupportedPlaceholder prefix file]
      | Inl (Other e) \<Rightarrow> Inl e)"

text \<open>
  \<^verbatim>\<open>block.type === 'text' ? block.text.length : block.image_url.length\<close>
\<close>

fun blockSize :: "ContentBlock \<Rightarrow> nat" where
  "blockSize (TextBlock t) = length t"
| "blockSize (ImageUrlBlock u) = length u"

text \<open>
  \<^verbatim>\<open>20 * 1024 * 1024 * 0.9\<close>; the product is the integer 18874368 in double precision
  too, and every size compared with it is an integer.
\<close>

definition maxTotalPayloadSize :: nat where
  "maxTotalPayloadSize = 18874368"

text \<open>\<^verbatim>\<open>typeMap[message.type] || 'system'\<close>\<close>

fun typeMap :: "ChatHubMessageType \<Rightarrow> MessageRecordType" where
  "typeMap Human = UserRole"
| "typeMap Ai = AiRole"
| "typeMap System = SystemRole"
| "typeMap (OtherType _) = SystemRole"

text \<open>
  The loop over the attachments of one message; its state is \<open>blocks\<close> and
  \<open>currentTotalSize\<close>. An error of \<^verbatim>\<open>buildContentBlockForAttachment\<close> leaves the loop.
\<close>

fun attachmentsLoop ::
  "'a HistoryEnv_scheme \<Rightarrow> ChatModelMetadataDto \<Rightarrow> IBinaryData list \<Rightarrow> ContentBlock list \<Rightarrow> nat \<Rightarrow>
   error + (ContentBlock list \<times> nat)" where
  "attachmentsLoop env metadata [] blocks currentTotalSize = Inr (blocks, currentTotalSize)"
| "attachmentsLoop env metadata (attachment # rest) blocks currentTotalSize =
     (case buildContentBlockForAttachment env (FileItem attachment) currentTotalSize
             maxTotalPayloadSize metadata ''File'' of
        Inl e \<Rightarrow> Inl e
      | Inr attachmentBlocks \<Rightarrow>
          attachmentsLoop env metadata rest (blocks @ attachmentBlocks)
            (currentTotalSize + sum_list (map blockSize attachmentBlocks)))"

text \<open>
  Reading \<^verbatim>\<open>message.content.length\<close> on a history element that is an inherited member:
  \<^verbatim>\<open>content\<close> is \<^verbatim>\<open>undefined\<close> there, and reading a property of \<^verbatim>\<open>undefined\<close> throws.
\<close>

definition undefinedContentError :: error where
  "undefinedContentError =
     TypeError (''Cannot read properties of undefined (reading '' @ [CHR 0x27] @ ''length'' @
                [CHR 0x27] @ '')'')"

text \<open>
  The loop over the messages, newest first; its state is \<open>messageValues\<close> and
  \<open>currentTotalSize\<close>.
\<close>

fun messagesLoop ::
  "'a HistoryEnv_scheme \<Rightarrow> ChatModelMetadataDto \<Rightarrow> HistoryEntry list \<Rightarrow> MessageRecord list \<Rightarrow> nat \<Rightarrow>
   error + (MessageRecord list \<times> nat)" where
  "messagesLoop env metadata [] messageValues currentTotalSize =
     Inr (messageValues, currentTotalSize)"
| "messagesLoop env metadata (InheritedMember name # rest) messageValues currentTotalSize =
     Inl undefinedContentError"
| "messagesLoop env metadata (MessageValue message # rest) messageValues currentTotalSize =
     (if length (msg_content message) = 0
      then messagesLoop env metadata rest messageValues currentTotalSize
      else
        (let attachments = (case msg_attachments message of None \<Rightarrow> [] | Some as \<Rightarrow> as);
             type = typeMap (msg_type message);
             textSize = length (msg_content message);
             currentTotalSize = currentTotalSize + textSize
         in if length attachments = 0
            then messagesLoop env metadata rest
                   (messageValues @
                      [\<lparr>rec_type = type, rec_message = PlainText (msg_content message),
                        rec_hideFromUI = False\<rparr>])
                   currentTotalSize
            else
              (case attachmentsLoop env metadata attachments
                      [TextBlock (msg_content message)] currentTotalSize of
                 Inl e \<Rightarrow> Inl e
               | Inr (blocks, currentTotalSize) \<Rightarrow>
                   messagesLoop env metadata rest
                     (messageValues @
                        [\<lparr>rec_type = type, rec_message = Blocks blocks, rec_hideFromUI = False\<rparr>])
                     currentTotalSize)))"

text \<open>Decimal digits of a number, as a template literal prints it.\<close>

fun numberToString :: "nat \<Rightarrow> string" where
  "numberToString n =
     (if n < 10 then [''0123456789'' ! n]
      else numberToString (n div 10) @ [''0123456789'' ! (n mod 10)])"

declare numberToString.simps [simp del]

text \<open>
  The loop over the context files, \<open>i\<close> counting from 0; \<open>contextPrefix\<close> is the
  prefix \<^verbatim>\<open>Context file (${i + 1} of ${contextFiles.length})\<close>.
\<close>

definition contextPrefix :: "nat \<Rightarrow> nat \<Rightarrow> string" where
  "contextPrefix i len =
     ''Context file ('' @ numberToString (i + 1) @ '' of '' @ numberToString len @ '')''"

fun contextFilesLoop ::
  "'a HistoryEnv_scheme \<Rightarrow> ChatModelMetadataDto \<Rightarrow> nat \<Rightarrow> ChatHubAgentKnowledgeItem list \<Rightarrow> nat \<Rightarrow>
   ContentBlock list \<Rightarrow> nat \<Rightarrow> error + (ContentBlock list \<times> nat)" where
  "contextFilesLoop env metadata len [] i contextFileBlocks currentTotalSize =
     Inr (contextFileBlocks, currentTotalSize)"
| "contextFilesLoop env metadata len (file # rest) i contextFileBlocks currentTotalSize =
     (case buildContentBlockForAttachment env file currentTotalSize maxTotalPayloadSize metadata
             (contextPrefix i len) of
        Inl e \<Rightarrow> Inl e
      | Inr blocks \<Rightarrow>
          contextFilesLoop env metadata len rest (i + 1) (contextFileBlocks @ blocks)
            (currentTotalSize + sum_list (map blockSize blocks)))"

definition buildConversationHistory ::
  "'a HistoryEnv_scheme \<Rightarrow> HistoryEntry list \<Rightarrow> ChatHubBaseLLMModel \<Rightarrow>
   ChatHubAgentKnowledgeItem list \<Rightarrow> error + MessageRecord list" where
  "buildConversationHistory env history model contextFiles =
     (let metadata = getModelMetadata env (llm_provider model) (llm_model model);
          messages = rev history
      in case messagesLoop env metadata messages [] 0 of
           Inl e \<Rightarrow> Inl e
         | Inr (messageValues, currentTotalSize) \<Rightarrow>
             (case contextFilesLoop env metadata (length contextFiles) contextFiles 0 []
                     currentTotalSize of
                Inl e \<Rightarrow> Inl e
              | Inr (contextFileBlocks, _) \<Rightarrow>
                  Inr (rev (if length contextFileBlocks > 0
                            then messageValues @
                                   [\<lparr>rec_type = UserRole, rec_message = Blocks contextFileBlocks,
                                     rec_hideFromUI = True\<rparr>]
                            else messageValues))))"

text \<open>
  The size the claim speaks of: the lengths of all emitted message texts, text blocks and
  media URL blocks.
\<close>

fun contentSize :: "MessageContent \<Rightarrow> nat" where
  "contentSize (PlainText t) = length t"
| "contentSize (Blocks bs) = sum_list (map blockSize bs)"

definition emittedSize :: "MessageRecord list \<Rightarrow> nat" where
  "emittedSize records = sum_list (map (\<lambda>r. contentSize (rec_message r)) records)"

text \<open>The part of that size that is media URLs.\<close>

fun urlLength :: "ContentBlock \<Rightarrow> nat" where
  "urlLength (TextBlock t) = 0"
| "urlLength (ImageUrlBlock u) = length u"

fun contentUrlSize :: "MessageContent \<Rightarrow> nat" where
  "contentUrlSize (PlainText t) = 0"
| "contentUrlSize (Blocks bs) = sum_list (map urlLength bs)"

definition emittedUrlSize :: "MessageRecord list \<Rightarrow> nat" where
  "emittedUrlSize records = sum_list (map (\<lambda>r. contentUrlSize (rec_message r)) records)"

text \<open>
  The entry of a message all of whose attachments are replaced by the size-limit
  placeholder, and the hidden entry of context files that are all replaced by it.
\<close>

definition omittedEntry :: "ChatHubMessage \<Rightarrow> MessageRecord" where
  "omittedEntry m =
     \<lparr>rec_type = typeMap (msg_type m),
      rec_message =
        (case msg_attachments m of
           None \<Rightarrow> PlainText (msg_content m)
         | Some as \<Rightarrow>
             if as = [] then PlainText (msg_content m)
             else Blocks (TextBlock (msg_content m) #
                          map (\<lambda>a. sizeLimitPlaceholder ''File'' (FileItem a)) as)),
      rec_hideFromUI = False\<rparr>"

fun omittedContextBlocks :: "nat \<Rightarrow> nat \<Rightarrow> ChatHubAgentKnowledgeItem list \<Rightarrow> ContentBlock list" where
  "omittedContextBlocks len i [] = []"
| "omittedContextBlocks len i (file # rest) =
     sizeLimitPlaceholder (contextPrefix i len) file # omittedContextBlocks len (i + 1) rest"

definition omittedContextEntry :: "ChatHubAgentKnowledgeItem list \<Rightarrow> MessageRecord list" where
  "omittedContextEntry contextFiles =
     (if contextFiles = [] then []
      else [\<lparr>rec_type = UserRole,
             rec_message = Blocks (omittedContextBlocks (length contextFiles) 0 contextFiles),
             rec_hideFromUI = True\<rparr>])"

text \<open>Example data: a text one character longer than the budget, and an attachment service.\<close>

definition bigText :: string where
  "bigText = replicate 18874369 (CHR ''a'')"

definition exampleMetadata :: ChatModelMetadataDto where
  "exampleMetadata = \<lparr>inputModalities = [''text'', ''image'']\<rparr>"

definition exampleAttachment :: "string \<Rightarrow> string \<Rightarrow> IBinaryData" where
  "exampleAttachment i mime = \<lparr>bin_id = Some i, bin_fileName = Some i, bin_mimeType = mime\<rparr>"

definition exampleHistoryEnv :: HistoryEnv where
  "exampleHistoryEnv =
     \<lparr>getAsBuffer = (\<lambda>a. if bin_id a = Some ''big.txt'' then Inr bigText
                         else if bin_id a = Some ''gone.txt'' then Inl (ExternalError ''file not found'')
                         else Inr ''data''),
      getDataUrl = (\<lambda>a. Inr ''data:image/png;base64,AAAA''),
      getMimeTypeModality = (\<lambda>m. if startsWith m ''image/'' then ''image'' else ''file''),
      getModelMetadata = (\<lambda>p m. exampleMetadata)\<rparr>"

definition exampleModel :: ChatHubBaseLLMModel where
  "exampleModel = \<lparr>llm_provider = ''openai'', llm_model = ''gpt-4''\<rparr>"

definition bigMessage :: ChatHubMessage where
  "bigMessage = exampleMessage ''M1'' Human bigText None"

definition fileMessage :: "ChatMessageId \<Rightarrow> string \<Rightarrow> ChatMessageId option \<Rightarrow> string \<Rightarrow> ChatHubMessage" where
  "fileMessage i txt prev fileId =
     (exampleMessage i Human txt prev)\<lparr>msg_attachments := Some [exampleAttachment fileId ''text/plain'']\<rparr>"

definition overBudgetHistory :: "HistoryEntry list" where
  "overBudgetHistory =
     [MessageValue bigMessage,
      MessageValue (fileMessage ''M2'' ''see file'' (Some ''M1'') ''small.txt''),
      MessageValue (fileMessage ''M3'' ''and this'' (Some ''M2'') ''big.txt'')]"

definition overBudgetResult :: "MessageRecord list" where
  "overBudgetResult =
     [\<lparr>rec_type = UserRole, rec_message = PlainText bigText, rec_hideFromUI = False\<rparr>,
      \<lparr>rec_type = UserRole,
        rec_message = Blocks [TextBlock ''see file'',
           TextBlock (''File: small.txt'' @ newline @ ''Content: '' @ newline @ ''data'')],
        rec_hideFromUI = False\<rparr>,
      \<lparr>rec_type = UserRole,
        rec_message = Blocks [TextBlock ''and this'',
           TextBlock (''File: big.txt'' @ newline @ ''(Content omitted due to size limit)'')],
        rec_hideFromUI = False\<rparr>]"


section \<open>The orchestrator: requests, collaborators and state\<close>

record User =
  user_id :: string

text \<open>
  \<^verbatim>\<open>ChatHubConversationModel\<close>: a hosted workflow (\<^verbatim>\<open>provider: 'n8n'\<close>, workflow id), a
  custom agent (\<^verbatim>\<open>provider: 'custom-agent'\<close>, agent id) or a base model (provider, model).
\<close>

datatype ChatHubConversationModel =
    N8nModel string
  | CustomAgentModel string
  | BaseLLMModel string string

fun provider :: "ChatHubConversationModel \<Rightarrow> ChatHubProvider" where
  "provider (N8nModel workflowId) = N8n"
| "provider (CustomAgentModel agentId) = CustomAgent"
| "provider (BaseLLMModel p m) = LLM p"

text \<open>\<^verbatim>\<open>INodeCredentials\<close>: credential type to credential id.\<close>

type_synonym INodeCredentials = "(string \<times> string option) list"

record ChatInput =
  in_message :: string
  in_attachments :: "IBinaryData list"

record PreparedChatWorkflow =
  pw_workflowData :: string
  pw_executionData :: string
  pw_responseMode :: string

record ChatHubAgent =
  agent_provider :: string
  agent_model :: string
  agent_credentialId :: "string option"
  agent_files :: "ChatHubAgentKnowledgeItem list"
  agent_systemPrompt :: string

record EmbeddingModel =
  emb_provider :: string

text \<open>
  A workflow entity as \<^verbatim>\<open>ensureValidModel\<close> reads it: the active version, if any, and
  the types of its nodes, if it has a node list.
\<close>

record WorkflowEntity =
  we_activeVersionNodes :: "string list option option"


record EditMessagePayload =
  ep_sessionId :: ChatSessionId
  ep_editId :: ChatMessageId
  ep_messageId :: ChatMessageId
  ep_message :: string
  ep_model :: ChatHubConversationModel
  ep_credentials :: INodeCredentials
  ep_timeZone :: "string option"
  ep_keepAttachmentIndices :: "int list"
  ep_newAttachments :: "IBinaryData list"


text \<open>
  The collaborators of the orchestrator that are not part of the service, as parameters:
  constants of other packages, the global configuration, the attachment service (storing
  and deleting may fail), the agent service, the workflow finder, the workflow service
  (each preparation may fail), the system message (it reads the clock) and the execution
  repository.
\<close>

record Env = HistoryEnv +
  PROVIDER_CREDENTIAL_TYPE_MAP :: "string \<Rightarrow> string"
  CHAT_TRIGGER_NODE_TYPE :: string
  timezone :: string
  storeMessageAttachments_outcome ::
    "ChatSessionId \<Rightarrow> ChatMessageId \<Rightarrow> IBinaryData list \<Rightarrow> error + IBinaryData list"
  deleteAttachments_outcome :: "IBinaryData list \<Rightarrow> error option"
  getAgentById :: "string \<Rightarrow> string \<Rightarrow> ChatHubAgent option"
  getAgentMemoryKey :: "string \<Rightarrow> string \<Rightarrow> string"
  determineEmbeddingProvider ::
    "User \<Rightarrow> string \<times> string \<Rightarrow> string \<Rightarrow> error + EmbeddingModel option"
  findWorkflowForUser :: "string \<Rightarrow> User \<Rightarrow> WorkflowEntity option"
  prepareWorkflowAgentWorkflow ::
    "User \<Rightarrow> ChatSessionId \<Rightarrow> string \<Rightarrow> ChatInput \<Rightarrow> string \<Rightarrow> error + PreparedChatWorkflow"
  prepareChatAgentWorkflow ::
    "ChatHubAgent \<Rightarrow> User \<Rightarrow> ChatSessionId \<Rightarrow> MessageRecord list \<Rightarrow> ChatInput \<Rightarrow> string \<Rightarrow>
     string \<Rightarrow> (string \<times> EmbeddingModel) option \<Rightarrow> error + PreparedChatWorkflow"
  prepareBaseChatWorkflow ::
    "User \<Rightarrow> ChatSessionId \<Rightarrow> INodeCredentials \<Rightarrow> ChatHubConversationModel \<Rightarrow>
     MessageRecord list \<Rightarrow> ChatInput \<Rightarrow> string \<Rightarrow> string list \<Rightarrow> string \<Rightarrow>
     error + PreparedChatWorkflow"
  getSystemMessage :: "string \<Rightarrow> string"
  findSingleExecution :: "int \<Rightarrow> string option"

text \<open>What is sent to the user's connections, and what is handed to the execution service.\<close>

type_synonym AttachmentInfo = "string option \<times> string \<times> string"

record HumanMessageBroadcast =
  hb_userId :: string
  hb_sessionId :: ChatSessionId
  hb_messageId :: ChatMessageId
  hb_previousMessageId :: "ChatMessageId option"
  hb_content :: string
  hb_attachments :: "AttachmentInfo list"

record MessageEditBroadcast =
  eb_userId :: string
  eb_sessionId :: ChatSessionId
  eb_revisionOfMessageId :: ChatMessageId
  eb_messageId :: ChatMessageId
  eb_content :: string
  eb_attachments :: "AttachmentInfo list"

text \<open>The arguments of one call of \<^verbatim>\<open>executeChatWorkflowWithCleanup\<close>.\<close>

record Launch =
  la_model :: ChatHubConversationModel
  la_workflow :: PreparedChatWorkflow
  la_sessionId :: ChatSessionId
  la_previousMessageId :: ChatMessageId
  la_retryOfMessageId :: "ChatMessageId option"
  la_originalPreviousMessageId :: "ChatMessageId option"
  la_credentials :: INodeCredentials
  la_humanMessage :: string
  la_processedAttachments :: "IBinaryData list"

text \<open>The arguments of one call of \<^verbatim>\<open>resumeChatExecution\<close>.\<close>

record Resume =
  re_execution :: string
  re_message :: string
  re_sessionId :: ChatSessionId
  re_messageId :: ChatMessageId
  re_model :: ChatHubConversationModel
  re_responseMode :: string

text \<open>
  The state the service acts on: the two tables of the store, the attachment store, and a
  trace of every call that leaves the service (deletions, warnings, stop calls, broadcasts,
  launches, resumes) and of every call of \<^verbatim>\<open>prepareReplyWorkflow\<close> with its model,
  history and input.
\<close>

record World =
  sessionTable :: "ChatHubSession list"
  messageTable :: "ChatHubMessage list"
  attachmentStore :: "IBinaryData list"
  deleteAttachmentsCalls :: "IBinaryData list list"
  warnings :: "string list"
  stopCalls :: "(string \<times> string) list"
  humanMessageBroadcasts :: "HumanMessageBroadcast list"
  messageEditBroadcasts :: "MessageEditBroadcast list"
  replyPreparations :: "(ChatHubConversationModel \<times> HistoryEntry list \<times> ChatInput) list"
  launches :: "Launch list"
  resumes :: "Resume list"

section \<open>Repositories and services\<close>

text \<open>
  Modelled from the spec: the session repository, whose code is not part of the sources. A
  session is found by its id and owner, with its \<^verbatim>\<open>messages\<close> relation loaded ("Session
  owns Messages (1:N)").
\<close>

definition sessionRepository_getOneById ::
  "World \<Rightarrow> ChatSessionId \<Rightarrow> string \<Rightarrow> ChatHubSession option" where
  "sessionRepository_getOneById w sessionId userId =
     (case find (\<lambda>s. ses_id s = sessionId \<and> ses_ownerId s = userId) (sessionTable w) of
        None \<Rightarrow> None
      | Some s \<Rightarrow>
          Some (s\<lparr>ses_messages :=
                     Some (filter (\<lambda>m. msg_sessionId m = sessionId) (messageTable w))\<rparr>))"

definition sessionRepository_existsById :: "World \<Rightarrow> ChatSessionId \<Rightarrow> string \<Rightarrow> bool" where
  "sessionRepository_existsById w sessionId userId =
     list_ex (\<lambda>s. ses_id s = sessionId \<and> ses_ownerId s = userId) (sessionTable w)"


text \<open>
  Modelled from the spec: the message repository, whose code is not part of the sources. A
  message is found by its id within a session; a human message is created with a
  client-supplied id that "must be unique" (a second row with the same id is refused by
  the store); an update changes the row with the given id.
\<close>

definition messageRepository_getOneById ::
  "World \<Rightarrow> ChatMessageId \<Rightarrow> ChatSessionId \<Rightarrow> ChatHubMessage option" where
  "messageRepository_getOneById w messageId sessionId =
     find (\<lambda>m. msg_id m = messageId \<and> msg_sessionId m = sessionId) (messageTable w)"

definition newHumanMessage ::
  "ChatSessionId \<Rightarrow> ChatMessageId \<Rightarrow> string \<Rightarrow> IBinaryData list \<Rightarrow> ChatMessageId option \<Rightarrow>
   ChatMessageId option \<Rightarrow> ChatHubMessage" where
  "newHumanMessage sessionId messageId message attachments previousMessageId revisionOfMessageId =
     \<lparr>msg_id = messageId, msg_sessionId = sessionId, msg_type = Human, msg_content = message,
      msg_previousMessageId = previousMessageId, msg_retryOfMessageId = None,
      msg_revisionOfMessageId = revisionOfMessageId, msg_status = Success,
      msg_executionId = None, msg_execution = None, msg_attachments = Some attachments\<rparr>"

definition messageRepository_createHumanMessage ::
  "ChatSessionId \<Rightarrow> ChatMessageId \<Rightarrow> string \<Rightarrow> IBinaryData list \<Rightarrow> ChatMessageId option \<Rightarrow>
   ChatMessageId option \<Rightarrow> World \<Rightarrow> (error + ChatHubMessage) \<times> World" where
  "messageRepository_createHumanMessage sessionId messageId message attachments previousMessageId
       revisionOfMessageId w =
     (if list_ex (\<lambda>m. msg_id m = messageId) (messageTable w)
      then (Inl (ExternalError ''duplicate message id''), w)
      else
        (let row = newHumanMessage sessionId messageId message attachments previousMessageId
                     revisionOfMessageId
         in (Inr row, w\<lparr>messageTable := messageTable w @ [row]\<rparr>)))"

definition messageRepository_updateChatMessage ::
  "ChatMessageId \<Rightarrow> (ChatHubMessage \<Rightarrow> ChatHubMessage) \<Rightarrow> World \<Rightarrow> World" where
  "messageRepository_updateChatMessage messageId change w =
     w\<lparr>messageTable := map (\<lambda>m. if msg_id m = messageId then change m else m) (messageTable w)\<rparr>"

text \<open>
  \<^verbatim>\<open>manager.transaction\<close>: when the callback throws, what it wrote to the two tables is
  rolled back; everything else it did stays done.
\<close>

definition rollback :: "World \<Rightarrow> World \<Rightarrow> World" where
  "rollback before after =
     after\<lparr>sessionTable := sessionTable before, messageTable := messageTable before\<rparr>"

text \<open>
  Modelled from the spec: the attachment service, whose code is not part of the sources
  (\<^verbatim>\<open>store(bytes, metadata) -> AttachmentRef\<close>, \<^verbatim>\<open>delete(ref) -> void\<close>). Whether a call
  succeeds is the environment's; a deletion is recorded whether it succeeds or not.
\<close>

definition storeMessageAttachments ::
  "Env \<Rightarrow> ChatSessionId \<Rightarrow> ChatMessageId \<Rightarrow> IBinaryData list \<Rightarrow> World \<Rightarrow>
   (error + IBinaryData list) \<times> World" where
  "storeMessageAttachments env sessionId messageId attachments w =
     (case storeMessageAttachments_outcome env sessionId messageId attachments of
        Inl e \<Rightarrow> (Inl e, w)
      | Inr stored \<Rightarrow> (Inr stored, w\<lparr>attachmentStore := attachmentStore w @ stored\<rparr>))"

definition deleteAttachments :: "Env \<Rightarrow> IBinaryData list \<Rightarrow> World \<Rightarrow> (error + unit) \<times> World" where
  "deleteAttachments env attachments w =
     (let w = w\<lparr>deleteAttachmentsCalls := deleteAttachmentsCalls w @ [attachments]\<rparr>
      in case deleteAttachments_outcome env attachments of
           Some e \<Rightarrow> (Inl e, w)
         | None \<Rightarrow>
             (Inr (), w\<lparr>attachmentStore :=
                          filter (\<lambda>a. a \<notin> set attachments) (attachmentStore w)\<rparr>))"

text \<open>
  Modelled from the spec: \<^verbatim>\<open>stopExecution(executionHandle) -> void\<close> of the execution
  service, whose code is not part of the sources; the call is recorded.
\<close>

definition chatHubExecutionService_stop :: "string \<Rightarrow> string \<Rightarrow> World \<Rightarrow> World" where
  "chatHubExecutionService_stop executionId workflowId w =
     w\<lparr>stopCalls := stopCalls w @ [(executionId, workflowId)]\<rparr>"

section \<open>The service's own helpers\<close>




definition getChatSession :: "World \<Rightarrow> User \<Rightarrow> ChatSessionId \<Rightarrow> ChatHubSession option" where
  "getChatSession w user sessionId = sessionRepository_getOneById w sessionId (user_id user)"

definition getChatMessage :: "World \<Rightarrow> ChatSessionId \<Rightarrow> ChatMessageId \<Rightarrow> error + ChatHubMessage" where
  "getChatMessage w sessionId messageId =
     (case messageRepository_getOneById w messageId sessionId of
        None \<Rightarrow> Inl (NotFoundError ''Chat message not found'')
      | Some message \<Rightarrow> Inr message)"

definition ensureConversation :: "World \<Rightarrow> string \<Rightarrow> ChatSessionId \<Rightarrow> error + unit" where
  "ensureConversation w userId sessionId =
     (if \<not> sessionRepository_existsById w sessionId userId
      then Inl (NotFoundError ''Chat session not found'')
      else Inr ())"



text \<open>
  \<^verbatim>\<open>Object.fromEntries(entries)\<close>: a later entry with the same key replaces an earlier
  one.
\<close>

definition fromEntries :: "(string \<times> 'v) list \<Rightarrow> (string, 'v) fmap" where
  "fromEntries entries = foldl (\<lambda>acc (k, v). fmupd k v acc) fmempty entries"

text \<open>
  \<^verbatim>\<open>Object.fromEntries((session.messages ?? []).map((m) => [m.id, m]))\<close>
\<close>

definition sessionMessages :: "ChatHubSession \<Rightarrow> (ChatMessageId, ChatHubMessage) fmap" where
  "sessionMessages session =
     fromEntries (map (\<lambda>m. (msg_id m, m))
                      (case ses_messages session of None \<Rightarrow> [] | Some ms \<Rightarrow> ms))"

section \<open>prepareReplyWorkflow\<close>

text \<open>The embedding items of an agent's files, as (file name, provider).\<close>

definition embeddingItems :: "ChatHubAgentKnowledgeItem list \<Rightarrow> (string option \<times> string) list" where
  "embeddingItems files =
     concat (map (\<lambda>f. case f of EmbeddingItem fileName p \<Rightarrow> [(fileName, p)] | FileItem b \<Rightarrow> []) files)"

definition apostrophe :: string where
  "apostrophe = [CHR 0x27]"

definition prepareReplyWorkflow ::
  "Env \<Rightarrow> User \<Rightarrow> ChatSessionId \<Rightarrow> INodeCredentials \<Rightarrow> ChatHubConversationModel \<Rightarrow>
   HistoryEntry list \<Rightarrow> ChatInput \<Rightarrow> string list \<Rightarrow> string \<Rightarrow> string \<Rightarrow> World \<Rightarrow>
   (error + PreparedChatWorkflow) \<times> World" where
  "prepareReplyWorkflow env user sessionId credentials model history input tools timeZone
       executionMetadata w0 =
     (let w = w0\<lparr>replyPreparations := replyPreparations w0 @ [(model, history, input)]\<rparr>
      in case model of
        N8nModel workflowId \<Rightarrow>
          (prepareWorkflowAgentWorkflow env user sessionId workflowId input executionMetadata, w)
      | CustomAgentModel agentId \<Rightarrow>
          (case getAgentById env (user_id user) agentId of
             None \<Rightarrow> (Inl (BadRequestError ''Agent not found''), w)
           | Some agent \<Rightarrow>
               (let memoryKey = getAgentMemoryKey env (user_id user) agentId;
                    knowledgeItems = embeddingItems (agent_files agent)
                in case (if truthy (agent_credentialId agent) \<and> length knowledgeItems > 0
                         then determineEmbeddingProvider env user
                                (agent_provider agent, the (agent_credentialId agent))
                                (snd (hd knowledgeItems))
                         else Inr None) of
                     Inl e \<Rightarrow> (Inl e, w)
                   | Inr embeddingModel \<Rightarrow>
                       (case find (\<lambda>item. Some (snd item) \<noteq> map_option emb_provider embeddingModel)
                               knowledgeItems of
                          Some item \<Rightarrow>
                            (Inl (BadRequestError
                               (''Credential for processing agent'' @ apostrophe @
                                ''s file knowledge is missing. '' @
                                ''Configure credential for '' @ snd item @ '' or remove '' @
                                apostrophe @
                                (case fst item of None \<Rightarrow> ''undefined'' | Some n \<Rightarrow> n) @
                                apostrophe @ '' from agent.'')), w)
                        | None \<Rightarrow>
                            (case buildConversationHistory env history
                                    \<lparr>llm_provider = agent_provider agent, llm_model = agent_model agent\<rparr>
                                    (agent_files agent) of
                               Inl e \<Rightarrow> (Inl e, w)
                             | Inr conversation \<Rightarrow>
                                 (prepareChatAgentWorkflow env agent user sessionId conversation input
                                    (agent_systemPrompt agent @ newline @ newline @
                                     getSystemMessage env timeZone)
                                    executionMetadata
                                    (case embeddingModel of
                                       None \<Rightarrow> None
                                     | Some em \<Rightarrow> Some (memoryKey, em)), w)))))
      | BaseLLMModel p m \<Rightarrow>
          (case buildConversationHistory env history \<lparr>llm_provider = p, llm_model = m\<rparr> [] of
             Inl e \<Rightarrow> (Inl e, w)
           | Inr conversation \<Rightarrow>
               (prepareBaseChatWorkflow env user sessionId credentials model conversation input
                  (''You are a helpful assistant.'' @ newline @ newline @ getSystemMessage env timeZone)
                  tools executionMetadata, w)))"

section \<open>stopGeneration\<close>

text \<open>
  JavaScript truthiness of \<^verbatim>\<open>message.executionId\<close>, a number or null: null and 0 are
  falsy.
\<close>

definition truthyNumber :: "int option \<Rightarrow> bool" where
  "truthyNumber v = (case v of None \<Rightarrow> False | Some n \<Rightarrow> n \<noteq> 0)"

definition stopGeneration :: "User \<Rightarrow> ChatSessionId \<Rightarrow> ChatMessageId \<Rightarrow> World \<Rightarrow> (error + unit) \<times> World" where
  "stopGeneration user sessionId messageId w =
     (case ensureConversation w (user_id user) sessionId of
        Inl e \<Rightarrow> (Inl e, w)
      | Inr _ \<Rightarrow>
          (case getChatMessage w sessionId messageId of
             Inl e \<Rightarrow> (Inl e, w)
           | Inr message \<Rightarrow>
               if msg_type message \<noteq> Ai
               then (Inl (BadRequestError ''Can only stop AI messages''), w)
               else
                 (case (if truthyNumber (msg_executionId message) then msg_execution message
                        else None) of
                    None \<Rightarrow>
                      (Inl (BadRequestError ''Message is not associated with a workflow execution''), w)
                  | Some execution \<Rightarrow>
                      if msg_status message \<noteq> Running
                      then (Inl (BadRequestError
                                  ''Can only stop messages that are currently running''), w)
                      else
                        (let w = chatHubExecutionService_stop (exec_id execution)
                                   (exec_workflowId execution) w;
                             w = messageRepository_updateChatMessage messageId
                                   (\<lambda>m. m\<lparr>msg_status := Cancelled\<rparr>) w
                         in (Inr (), w)))))"

section \<open>sendHumanMessage\<close>

text \<open>
  The \<^verbatim>\<open>catch\<close> block shared by \<^verbatim>\<open>sendHumanMessage\<close> and \<^verbatim>\<open>editMessage\<close>: stored
  attachments are deleted, a failing deletion is reported as a warning, and the caller
  rethrows the error it caught.
\<close>

definition cleanupAttachments :: "Env \<Rightarrow> IBinaryData list \<Rightarrow> World \<Rightarrow> World" where
  "cleanupAttachments env attachments w =
     (if length attachments > 0
      then (case deleteAttachments env attachments w of
              (Inl e, w') \<Rightarrow>
                w'\<lparr>warnings := warnings w' @
                     [''Could not clean up '' @ numberToString (length attachments) @ '' files'']\<rparr>
            | (Inr u, w') \<Rightarrow> w')
      else w)"

definition attachmentInfo :: "IBinaryData \<Rightarrow> AttachmentInfo" where
  "attachmentInfo a =
     (bin_id a, (case bin_fileName a of None \<Rightarrow> ''file'' | Some n \<Rightarrow> n), bin_mimeType a)"



section \<open>editMessage\<close>

text \<open>
  \<^verbatim>\<open>originalAttachments[index]\<close>, \<^verbatim>\<open>undefined\<close> outside the array, inside
  \<^verbatim>\<open>flatMap\<close>.
\<close>

definition keepAttachments :: "IBinaryData list \<Rightarrow> int list \<Rightarrow> IBinaryData list" where
  "keepAttachments originalAttachments keepAttachmentIndices =
     concat (map (\<lambda>index. if 0 \<le> index \<and> index < int (length originalAttachments)
                           then [originalAttachments ! nat index] else [])
                 keepAttachmentIndices)"

definition editMessage_transaction ::
  "Env \<Rightarrow> User \<Rightarrow> EditMessagePayload \<Rightarrow> string \<Rightarrow> string \<Rightarrow> World \<Rightarrow>
   (error + PreparedChatWorkflow option \<times> IBinaryData list) \<times> IBinaryData list \<times> World" where
  "editMessage_transaction env user payload tz executionMetadata w =
     (case getChatSession w user (ep_sessionId payload) of
        None \<Rightarrow> (Inl (NotFoundError ''Chat session not found''), [], w)
      | Some session \<Rightarrow>
          (case getChatMessage w (ses_id session) (ep_editId payload) of
             Inl e \<Rightarrow> (Inl e, [], w)
           | Inr messageToEdit \<Rightarrow>
               if msg_type messageToEdit = Ai then
                 (if provider (ep_model payload) = N8n
                  then (Inl (BadRequestError
                               ''Editing AI messages with n8n workflow agents is not supported''),
                        [], w)
                  else (Inr (None, []), [],
                        messageRepository_updateChatMessage (ep_editId payload)
                          (\<lambda>m. m\<lparr>msg_content := ep_message payload\<rparr>) w))
               else if msg_type messageToEdit = Human then
                 (let messages = sessionMessages session;
                      history = buildMessageHistory messages (msg_previousMessageId messageToEdit);
                      revisionOfMessageId =
                        (case msg_revisionOfMessageId messageToEdit of
                           None \<Rightarrow> msg_id messageToEdit
                         | Some r \<Rightarrow> r);
                      originalAttachments =
                        (case msg_attachments messageToEdit of None \<Rightarrow> [] | Some as \<Rightarrow> as);
                      keptAttachments =
                        keepAttachments originalAttachments (ep_keepAttachmentIndices payload)
                  in case (if length (ep_newAttachments payload) > 0
                           then storeMessageAttachments env (ep_sessionId payload)
                                  (ep_messageId payload) (ep_newAttachments payload) w
                           else (Inr [], w)) of
                       (Inl e, w) \<Rightarrow> (Inl e, [], w)
                     | (Inr newStoredAttachments, w) \<Rightarrow>
                         (let attachments = keptAttachments @ newStoredAttachments
                          in case messageRepository_createHumanMessage (ep_sessionId payload)
                                    (ep_messageId payload) (ep_message payload) attachments
                                    (msg_previousMessageId messageToEdit)
                                    (Some revisionOfMessageId) w of
                               (Inl e, w) \<Rightarrow> (Inl e, newStoredAttachments, w)
                             | (Inr created, w) \<Rightarrow>
                                 (case prepareReplyWorkflow env user (ep_sessionId payload)
                                         (ep_credentials payload) (ep_model payload) history
                                         \<lparr>in_message = ep_message payload,
                                          in_attachments = attachments\<rparr>
                                         (ses_tools session) tz executionMetadata w of
                                    (Inl e, w) \<Rightarrow> (Inl e, newStoredAttachments, w)
                                  | (Inr workflow, w) \<Rightarrow>
                                      (Inr (Some workflow, attachments),
                                       newStoredAttachments, w))))
               else (Inl (BadRequestError ''Only human and AI messages can be edited''), [], w)))"

definition editMessage ::
  "Env \<Rightarrow> User \<Rightarrow> EditMessagePayload \<Rightarrow> string \<Rightarrow> World \<Rightarrow> (error + unit) \<times> World" where
  "editMessage env user payload executionMetadata w =
     (let tz = (case ep_timeZone payload of None \<Rightarrow> timezone env | Some z \<Rightarrow> z)
      in case editMessage_transaction env user payload tz executionMetadata w of
           (Inl e, newStoredAttachments, w1) \<Rightarrow>
             (Inl e, cleanupAttachments env newStoredAttachments (rollback w w1))
         | (Inr (None, combinedAttachments), newStoredAttachments, w1) \<Rightarrow> (Inr (), w1)
         | (Inr (Some workflow, combinedAttachments), newStoredAttachments, w1) \<Rightarrow>
             (let w2 = w1\<lparr>messageEditBroadcasts := messageEditBroadcasts w1 @
                           [\<lparr>eb_userId = user_id user, eb_sessionId = ep_sessionId payload,
                             eb_revisionOfMessageId = ep_editId payload,
                             eb_messageId = ep_messageId payload,
                             eb_content = ep_message payload,
                             eb_attachments = map attachmentInfo combinedAttachments\<rparr>]\<rparr>
              in (Inr (),
                  w2\<lparr>launches := launches w2 @
                       [\<lparr>la_model = ep_model payload, la_workflow = workflow,
                         la_sessionId = ep_sessionId payload,
                         la_previousMessageId = ep_messageId payload,
                         la_retryOfMessageId = None,
                         la_originalPreviousMessageId = None,
                         la_credentials = [],
                         la_humanMessage = [],
                         la_processedAttachments = []\<rparr>]\<rparr>)))"

section \<open>regenerateAIMessage\<close>





section \<open>Example state and collaborators\<close>

definition exampleUser :: User where
  "exampleUser = \<lparr>user_id = ''U1''\<rparr>"

definition exampleWorkflow :: PreparedChatWorkflow where
  "exampleWorkflow =
     \<lparr>pw_workflowData = ''workflow'', pw_executionData = ''trigger'', pw_responseMode = ''streaming''\<rparr>"

text \<open>
  A session bound to a hosted workflow, with a human message, a running reply to it and a
  finished reply to it.
\<close>

definition exampleWorld :: World where
  "exampleWorld =
     \<lparr>sessionTable = [exampleSession ''S1'' N8n],
      messageTable =
        [exampleMessage ''M1'' Human ''hello'' None,
         (exampleMessage ''M2'' Ai ''hi'' (Some ''M1''))
           \<lparr>msg_status := Running, msg_executionId := Some 7,
            msg_execution := Some \<lparr>exec_id = ''7'', exec_workflowId = ''W1''\<rparr>\<rparr>,
         (exampleMessage ''M3'' Ai ''hey'' (Some ''M1''))
           \<lparr>msg_executionId := Some 8,
            msg_execution := Some \<lparr>exec_id = ''8'', exec_workflowId = ''W1''\<rparr>\<rparr>],
      attachmentStore = [], deleteAttachmentsCalls = [], warnings = [], stopCalls = [],
      humanMessageBroadcasts = [], messageEditBroadcasts = [], replyPreparations = [],
      launches = [], resumes = []\<rparr>"

text \<open>
  Collaborators: storing gives each attachment an id, deleting fails, no agent is known,
  every preparation succeeds.
\<close>

definition exampleEnv :: Env where
  "exampleEnv =
     \<lparr>getAsBuffer = getAsBuffer exampleHistoryEnv,
      getDataUrl = getDataUrl exampleHistoryEnv,
      getMimeTypeModality = getMimeTypeModality exampleHistoryEnv,
      getModelMetadata = getModelMetadata exampleHistoryEnv,
      PROVIDER_CREDENTIAL_TYPE_MAP = (\<lambda>p. p @ ''Api''),
      CHAT_TRIGGER_NODE_TYPE = ''chatTrigger'',
      timezone = ''UTC'',
      storeMessageAttachments_outcome =
        (\<lambda>sessionId messageId attachments.
           Inr (map (\<lambda>a. a\<lparr>bin_id := Some (messageId @ ''/'' @ attachmentName a)\<rparr>) attachments)),
      deleteAttachments_outcome = (\<lambda>attachments. Some (ExternalError ''storage unavailable'')),
      getAgentById = (\<lambda>userId agentId. None),
      getAgentMemoryKey = (\<lambda>userId agentId. userId @ agentId),
      determineEmbeddingProvider = (\<lambda>user credential p. Inr None),
      findWorkflowForUser = (\<lambda>workflowId user. None),
      prepareWorkflowAgentWorkflow = (\<lambda>user sessionId workflowId input meta. Inr exampleWorkflow),
      prepareChatAgentWorkflow =
        (\<lambda>agent user sessionId conversation input systemPrompt meta embedding. Inr exampleWorkflow),
      prepareBaseChatWorkflow =
        (\<lambda>user sessionId credentials model conversation input systemPrompt tools meta.
           Inr exampleWorkflow),
      getSystemMessage = (\<lambda>timeZone. ''now''),
      findSingleExecution = (\<lambda>executionId. None)\<rparr>"

definition exampleAiEdit :: EditMessagePayload where
  "exampleAiEdit =
     \<lparr>ep_sessionId = ''S1'', ep_editId = ''M3'', ep_messageId = ''M4'', ep_message = ''edited'',
      ep_model = BaseLLMModel ''openai'' ''gpt-4'', ep_credentials = [], ep_timeZone = None,
      ep_keepAttachmentIndices = [], ep_newAttachments = []\<rparr>"

text \<open>
  The parent relation of a mapping of messages: \<open>(p, c)\<close> when the message stored under
  \<open>c\<close> names \<open>p\<close> as its previous message. A message's descendants are what is reachable
  from it.
\<close>

definition parentRelation :: "(ChatMessageId, ChatHubMessage) fmap \<Rightarrow> (ChatMessageId \<times> ChatMessageId) set" where
  "parentRelation messages =
     {(p, c). \<exists>m. fmlookup messages c = Some m \<and> msg_previousMessageId m = Some p}"

text \<open>
  A conversation with a base model: a greeting and its reply, a question with two
  attachments, a failed answer to it and a second answer after the failed one.
\<close>

definition conversationMessages :: "ChatHubMessage list" where
  "conversationMessages =
     [exampleMessage ''M1'' Human ''hello'' None,
      exampleMessage ''M2'' Ai ''hi'' (Some ''M1''),
      (exampleMessage ''M3'' Human ''question'' (Some ''M2''))
        \<lparr>msg_attachments := Some [exampleAttachment ''a.txt'' ''text/plain'',
                                  exampleAttachment ''b.txt'' ''text/plain'']\<rparr>,
      (exampleMessage ''M4'' Ai ''failed'' (Some ''M3''))\<lparr>msg_status := Error\<rparr>,
      exampleMessage ''M5'' Ai ''answer'' (Some ''M4'')]"

definition conversationWorld :: World where
  "conversationWorld =
     \<lparr>sessionTable = [exampleSession ''S1'' (LLM ''openai'')],
      messageTable = conversationMessages,
      attachmentStore = [], deleteAttachmentsCalls = [], warnings = [], stopCalls = [],
      humanMessageBroadcasts = [], messageEditBroadcasts = [], replyPreparations = [],
      launches = [], resumes = []\<rparr>"

definition conversationSession :: ChatHubSession where
  "conversationSession = (exampleSession ''S1'' (LLM ''openai''))\<lparr>ses_messages := Some conversationMessages\<rparr>"

definition exampleHumanEdit :: EditMessagePayload where
  "exampleHumanEdit =
     \<lparr>ep_sessionId = ''S1'', ep_editId = ''M3'', ep_messageId = ''M6'', ep_message = ''question?'',
      ep_model = BaseLLMModel ''openai'' ''gpt-4'', ep_credentials = [], ep_timeZone = None,
      ep_keepAttachmentIndices = [1, 5], ep_newAttachments = [exampleAttachment ''c.txt'' ''text/plain'']\<rparr>"



text \<open>
  A session whose two messages name each other as previous message, and an edit of the
  first of them.
\<close>

definition cyclicConversation :: "ChatHubMessage list" where
  "cyclicConversation =
     [exampleMessage ''A'' Human ''hello'' (Some ''B''),
      exampleMessage ''B'' Ai ''hi'' (Some ''A'')]"

definition cyclicWorld :: World where
  "cyclicWorld = conversationWorld\<lparr>messageTable := cyclicConversation\<rparr>"

definition cyclicSession :: ChatHubSession where
  "cyclicSession = (exampleSession ''S1'' (LLM ''openai''))\<lparr>ses_messages := Some cyclicConversation\<rparr>"

definition exampleCyclicEdit :: EditMessagePayload where
  "exampleCyclicEdit =
     \<lparr>ep_sessionId = ''S1'', ep_editId = ''A'', ep_messageId = ''C'', ep_message = ''hello again'',
      ep_model = BaseLLMModel ''openai'' ''gpt-4'', ep_credentials = [], ep_timeZone = None,
      ep_keepAttachmentIndices = [], ep_newAttachments = []\<rparr>"


section \<open>Properties of buildMessageHistory\<close>


lemma previousMessageIdOf_lookup:
  "previousMessageIdOf (propertyLookup messages c)
   = (case fmlookup messages c of None \<Rightarrow> None | Some m \<Rightarrow> msg_previousMessageId m)"
  by (simp add: previousMessageIdOf_def propertyLookup_def split: option.splits)

lemma parentLinked_Cons:
  "parentLinked messages (c # ids) =
     (ids = [] \<or> ((case fmlookup messages (hd ids) of None \<Rightarrow> False
                   | Some m \<Rightarrow> msg_previousMessageId m = Some c) \<and> parentLinked messages ids))"
  by (cases ids) auto

lemma historyLoop_invariant:
  assumes "visited = set ids" and "distinct ids" and "parentLinked messages ids"
    and "ids \<noteq> [] \<Longrightarrow> current = (case fmlookup messages (hd ids) of None \<Rightarrow> None
                                   | Some m \<Rightarrow> msg_previousMessageId m)"
  shows "distinct (historyLoop messages visited ids current)
       \<and> parentLinked messages (historyLoop messages visited ids current)
       \<and> (\<exists>pre. historyLoop messages visited ids current = pre @ ids)
       \<and> (historyLoop messages visited ids current \<noteq> [] \<longrightarrow>
            stopReason messages (historyLoop messages visited ids current) \<noteq> None)
       \<and> (ids = [] \<and> truthy current \<longrightarrow>
            historyLoop messages visited ids current \<noteq> []
            \<and> last (historyLoop messages visited ids current) = the current)"
  using assms
proof (induction messages visited ids current rule: historyLoop.induct)
  case (1 messages visited ids current)
  show ?case
  proof (cases "truthy current \<and> the current \<notin> visited")
    case False
    then have stop: "historyLoop messages visited ids current = ids"
      by (subst historyLoop.simps) (auto simp: truthy_def split: option.splits)
    have "ids \<noteq> [] \<Longrightarrow> stopReason messages ids \<noteq> None"
    proof -
      assume ne: "ids \<noteq> []"
      then obtain o' rest where ids: "ids = o' # rest" by (cases ids) auto
      show ?thesis
      proof (cases "fmlookup messages o'")
        case None
        then show ?thesis by (simp add: stopReason_def ids)
      next
        case (Some m)
        with "1.prems"(4) ne ids have cur: "current = msg_previousMessageId m" by simp
        with False "1.prems"(1) show ?thesis
          by (auto simp: stopReason_def ids Some)
      qed
    qed
    with stop "1.prems" False show ?thesis by auto
  next
    case True
    then obtain c where c: "current = Some c" "c \<noteq> []" "c \<notin> visited"
      by (auto simp: truthy_def split: option.splits)
    let ?next = "previousMessageIdOf (propertyLookup messages c)"
    have step: "historyLoop messages visited ids current
                = historyLoop messages (insert c visited) (c # ids) ?next"
      using c by (subst historyLoop.simps) simp
    have pl: "parentLinked messages (c # ids)"
    proof (cases ids)
      case Nil
      then show ?thesis by simp
    next
      case (Cons o' rest)
      then have "Some c = (case fmlookup messages o' of None \<Rightarrow> None
                            | Some m \<Rightarrow> msg_previousMessageId m)"
        using "1.prems"(4) c(1) by simp
      then show ?thesis using "1.prems"(3) Cons by (simp split: option.splits)
    qed
    have IH: "distinct (historyLoop messages (insert c visited) (c # ids) ?next)
       \<and> parentLinked messages (historyLoop messages (insert c visited) (c # ids) ?next)
       \<and> (\<exists>pre. historyLoop messages (insert c visited) (c # ids) ?next = pre @ (c # ids))
       \<and> (historyLoop messages (insert c visited) (c # ids) ?next \<noteq> [] \<longrightarrow>
            stopReason messages (historyLoop messages (insert c visited) (c # ids) ?next) \<noteq> None)
       \<and> (c # ids = [] \<and> truthy ?next \<longrightarrow>
            historyLoop messages (insert c visited) (c # ids) ?next \<noteq> []
            \<and> last (historyLoop messages (insert c visited) (c # ids) ?next) = the ?next)"
      using "1.prems"(1,2) c pl
      by (intro "1.IH"[of c]) (auto simp: previousMessageIdOf_lookup)
    then obtain pre where pre: "historyLoop messages (insert c visited) (c # ids) ?next = pre @ (c # ids)"
      by blast
    have "ids = [] \<Longrightarrow> last (historyLoop messages visited ids current) = c"
      using pre step by simp
    moreover have "\<exists>pre'. historyLoop messages visited ids current = pre' @ ids"
      using pre step by (intro exI[of _ "pre @ [c]"]) simp
    moreover have "historyLoop messages visited ids current \<noteq> []" using pre step by simp
    ultimately show ?thesis using IH step c by auto
  qed
qed












section \<open>Properties of getConversations and reconnectToStream\<close>


text \<open>
  C10: for a positive \<open>limit\<close>, \<^verbatim>\<open>getConversations\<close> asks the repository for
  \<open>limit + 1\<close> sessions and returns without error; \<open>hasMore\<close> holds exactly when more
  than \<open>limit\<close> sessions were found; the data are the first \<open>limit\<close> sessions found in
  that case and all of them otherwise, so at most \<open>limit\<close>; \<open>nextCursor\<close> is the id of
  the last returned session when \<open>hasMore\<close> holds and null otherwise.
\<close>

theorem getConversations_page:
  assumes "0 < limit"
  shows "\<exists>r. getConversations getManyByUserId convert userId limit cursor = Inr r
     \<and> resp_hasMore r = (limit < int (length (getManyByUserId userId (limit + 1) cursor)))
     \<and> resp_data r = map convert
          (if resp_hasMore r then take (nat limit) (getManyByUserId userId (limit + 1) cursor)
           else getManyByUserId userId (limit + 1) cursor)
     \<and> int (length (resp_data r)) \<le> limit
     \<and> resp_nextCursor r =
          (if resp_hasMore r
           then Some (ses_id (last (take (nat limit) (getManyByUserId userId (limit + 1) cursor))))
           else None)"
proof (cases "limit < int (length (getManyByUserId userId (limit + 1) cursor))")
  case True
  let ?found = "getManyByUserId userId (limit + 1) cursor"
  from True assms have len: "length (take (nat limit) ?found) = nat limit" by simp
  with assms have "take (nat limit) ?found \<noteq> []" by auto
  then obtain x xs where cons: "take (nat limit) ?found = x # xs" by (cases "take (nat limit) ?found") auto
  have "length (x # xs) = nat limit" using len cons by simp
  then show ?thesis using True assms cons
    by (simp add: getConversations_def slice0_def Let_def)
next
  case False
  then show ?thesis using assms by (simp add: getConversations_def Let_def)
qed


theorem getConversations_page_witness:
  "(0::int) < 2 \<and>
   getConversations exampleRepo ses_id ''U1'' 2 None
     = Inr \<lparr>resp_data = [''S1'', ''S2''], resp_nextCursor = Some ''S2'', resp_hasMore = True\<rparr>"
proof -
  have pos: "(0::int) < 2" by simp
  from getConversations_page[OF pos, of exampleRepo ses_id "''U1''" None]
  obtain r where r: "getConversations exampleRepo ses_id ''U1'' 2 None = Inr r"
    and more: "resp_hasMore r = (2 < int (length (exampleRepo ''U1'' (2 + 1) None)))"
    and data: "resp_data r = map ses_id
          (if resp_hasMore r then take (nat 2) (exampleRepo ''U1'' (2 + 1) None)
           else exampleRepo ''U1'' (2 + 1) None)"
    and cur: "resp_nextCursor r =
          (if resp_hasMore r
           then Some (ses_id (last (take (nat 2) (exampleRepo ''U1'' (2 + 1) None))))
           else None)"
    by blast
  have "r = \<lparr>resp_data = [''S1'', ''S2''], resp_nextCursor = Some ''S2'', resp_hasMore = True\<rparr>"
    using more data cur by (simp add: exampleRepo_def exampleSession_def)
  with r show ?thesis by simp
qed

lemma increasing_last_greatest:
  "sorted_wrt (<) (map f xs) \<Longrightarrow> x \<in> set xs \<Longrightarrow> (f x :: int) \<le> f (last xs)"
proof (induction xs)
  case Nil
  then show ?case by simp
next
  case (Cons a xs)
  show ?case
  proof (cases "xs = []")
    case True
    with Cons.prems show ?thesis by simp
  next
    case False
    then have lastin: "last xs \<in> set xs" by simp
    from Cons.prems(1) have tl: "sorted_wrt (<) (map f xs)" and hd: "\<forall>y \<in> set xs. f a < f y"
      by simp_all
    show ?thesis
    proof (cases "x = a")
      case True
      with hd lastin False show ?thesis by (simp add: less_imp_le)
    next
      case neq: False
      with Cons.prems(2) have "x \<in> set xs" by simp
      with Cons.IH[OF tl] False show ?thesis by simp
    qed
  qed
qed

text \<open>
  C9: when \<^verbatim>\<open>getPendingChunks\<close> returns its chunks in increasing order of sequence
  number, all above \<open>lastReceivedSequence\<close>, the \<open>lastSequenceNumber\<close> returned by
  \<^verbatim>\<open>reconnectToStream\<close> is the greatest sequence number among the pending chunks when
  there are any, is \<open>lastReceivedSequence\<close> unchanged when there are none, and never lies
  below \<open>lastReceivedSequence\<close>.
\<close>

theorem reconnectToStream_lastSequenceNumber:
  assumes "sorted_wrt (<) (map sequenceNumber (getPendingChunks svc sessionId lastReceivedSequence))"
    and "\<forall>c \<in> set (getPendingChunks svc sessionId lastReceivedSequence).
           lastReceivedSequence < sequenceNumber c"
  shows "rc_pendingChunks (reconnectToStream svc sessionId lastReceivedSequence)
           = getPendingChunks svc sessionId lastReceivedSequence
     \<and> (getPendingChunks svc sessionId lastReceivedSequence \<noteq> [] \<longrightarrow>
          rc_lastSequenceNumber (reconnectToStream svc sessionId lastReceivedSequence)
            = Max (sequenceNumber ` set (getPendingChunks svc sessionId lastReceivedSequence)))
     \<and> (getPendingChunks svc sessionId lastReceivedSequence = [] \<longrightarrow>
          rc_lastSequenceNumber (reconnectToStream svc sessionId lastReceivedSequence)
            = lastReceivedSequence)
     \<and> lastReceivedSequence \<le> rc_lastSequenceNumber (reconnectToStream svc sessionId lastReceivedSequence)"
proof -
  let ?p = "getPendingChunks svc sessionId lastReceivedSequence"
  have mx: "?p \<noteq> [] \<Longrightarrow> sequenceNumber (last ?p) = Max (sequenceNumber ` set ?p)"
  proof -
    assume ne: "?p \<noteq> []"
    have "\<forall>c \<in> set ?p. sequenceNumber c \<le> sequenceNumber (last ?p)"
      using increasing_last_greatest[OF assms(1)] by blast
    moreover have "sequenceNumber (last ?p) \<in> sequenceNumber ` set ?p" using ne by simp
    ultimately show ?thesis by (intro Max_eqI[symmetric]) auto
  qed
  have ge: "?p \<noteq> [] \<Longrightarrow> lastReceivedSequence < sequenceNumber (last ?p)"
    using assms(2) by simp
  show ?thesis using mx ge
    by (cases "?p = []") (auto simp: reconnectToStream_def Let_def)
qed

lemma exampleStream_pending:
  "getPendingChunks exampleStream ''S1'' 1
     = [\<lparr>sequenceNumber = 2, chunk_content = ''b''\<rparr>, \<lparr>sequenceNumber = 3, chunk_content = ''c''\<rparr>]"
  by (simp add: exampleStream_def)

theorem reconnectToStream_lastSequenceNumber_witness:
  "sorted_wrt (<) (map sequenceNumber (getPendingChunks exampleStream ''S1'' 1))
   \<and> list_all (\<lambda>c. 1 < sequenceNumber c) (getPendingChunks exampleStream ''S1'' 1)
   \<and> getPendingChunks exampleStream ''S1'' 1 \<noteq> []
   \<and> rc_lastSequenceNumber (reconnectToStream exampleStream ''S1'' 1) = 3
   \<and> Max (sequenceNumber ` set (getPendingChunks exampleStream ''S1'' 1)) = 3"
proof -
  have h1: "sorted_wrt (<) (map sequenceNumber (getPendingChunks exampleStream ''S1'' 1))"
    by (simp add: exampleStream_pending)
  have h2: "\<forall>c \<in> set (getPendingChunks exampleStream ''S1'' 1). 1 < sequenceNumber c"
    by (simp add: exampleStream_pending)
  have mx: "Max (sequenceNumber ` set (getPendingChunks exampleStream ''S1'' 1)) = 3"
    by (simp add: exampleStream_pending)
  from reconnectToStream_lastSequenceNumber[OF h1 h2] mx
  have "rc_lastSequenceNumber (reconnectToStream exampleStream ''S1'' 1) = 3"
    by (simp add: exampleStream_pending)
  with h1 h2 mx show ?thesis by (simp add: exampleStream_pending)
qed



section \<open>Properties of buildContentBlockForAttachment\<close>

lemma attachmentTry_blocks:
  "attachmentTry env item cur mx meta prefix = Inr blocks \<Longrightarrow> blocks \<noteq> [] \<and> length blocks \<le> 2"
  by (auto simp: attachmentTry_def Let_def split: if_splits ChatHubAgentKnowledgeItem.splits sum.splits)

lemma attachmentTry_other:
  "attachmentTry env item cur mx meta prefix = Inl (Other e) \<Longrightarrow>
   cur < mx \<and> (\<exists>a. item = FileItem a \<and>
      (if isTextFile (bin_mimeType a) then getAsBuffer env a = Inl e
       else getMimeTypeModality env (bin_mimeType a) \<in> set (inputModalities meta)
            \<and> getDataUrl env a = Inl e))"
  by (auto simp: attachmentTry_def Let_def split: if_splits ChatHubAgentKnowledgeItem.splits sum.splits)

lemma attachment_blocks:
  assumes "buildContentBlockForAttachment env item cur mx meta prefix = Inr blocks"
  shows "blocks \<noteq> [] \<and> length blocks \<le> 2"
proof (cases "attachmentTry env item cur mx meta prefix")
  case (Inr bs)
  with attachmentTry_blocks[OF Inr] assms show ?thesis
    by (simp add: buildContentBlockForAttachment_def)
next
  case (Inl t)
  with assms show ?thesis
    by (cases t) (auto simp: buildContentBlockForAttachment_def)
qed

lemma attachment_error_source:
  assumes "buildContentBlockForAttachment env item cur mx meta prefix = Inl e"
  shows "cur < mx \<and> (\<exists>a. item = FileItem a \<and>
      (if isTextFile (bin_mimeType a) then getAsBuffer env a = Inl e
       else getMimeTypeModality env (bin_mimeType a) \<in> set (inputModalities meta)
            \<and> getDataUrl env a = Inl e))"
proof (cases "attachmentTry env item cur mx meta prefix")
  case (Inr bs)
  with assms show ?thesis by (simp add: buildContentBlockForAttachment_def)
next
  case (Inl t)
  show ?thesis
  proof (cases t)
    case TotalFileSizeExceededError
    with Inl assms show ?thesis by (simp add: buildContentBlockForAttachment_def)
  next
    case UnsupportedMimeTypeError
    with Inl assms show ?thesis by (simp add: buildContentBlockForAttachment_def)
  next
    case (Other e')
    with Inl assms have "e' = e" by (simp add: buildContentBlockForAttachment_def)
    with Inl Other attachmentTry_other[where env=env and item=item and cur=cur and mx=mx
        and meta=meta and prefix=prefix and e=e] show ?thesis by simp
  qed
qed

lemma attachment_text_fetch_error:
  "cur < mx \<Longrightarrow> isTextFile (bin_mimeType a) \<Longrightarrow> getAsBuffer env a = Inl e \<Longrightarrow>
   buildContentBlockForAttachment env (FileItem a) cur mx meta prefix = Inl e"
  by (simp add: buildContentBlockForAttachment_def attachmentTry_def)

lemma attachment_url_fetch_error:
  "cur < mx \<Longrightarrow> \<not> isTextFile (bin_mimeType a) \<Longrightarrow>
   getMimeTypeModality env (bin_mimeType a) \<in> set (inputModalities meta) \<Longrightarrow>
   getDataUrl env a = Inl e \<Longrightarrow>
   buildContentBlockForAttachment env (FileItem a) cur mx meta prefix = Inl e"
  by (simp add: buildContentBlockForAttachment_def attachmentTry_def)

lemma attachment_over_budget:
  "mx \<le> cur \<Longrightarrow>
   buildContentBlockForAttachment env item cur mx meta prefix = Inr [sizeLimitPlaceholder prefix item]"
  by (simp add: buildContentBlockForAttachment_def attachmentTry_def)

lemma attachment_embedding:
  "cur < mx \<Longrightarrow>
   buildContentBlockForAttachment env (EmbeddingItem fileName p) cur mx meta prefix
   = Inr [TextBlock (prefix @ '': '' @ (case fileName of None \<Rightarrow> ''attachment'' | Some n \<Rightarrow> n) @
                     newline @ ''Content: '' @ newline @
                     ''(Use vector store question tool to query this document)'')]"
  by (simp add: buildContentBlockForAttachment_def attachmentTry_def)

lemma attachment_text:
  "cur < mx \<Longrightarrow> isTextFile (bin_mimeType a) \<Longrightarrow> getAsBuffer env a = Inr content \<Longrightarrow>
   buildContentBlockForAttachment env (FileItem a) cur mx meta prefix
   = Inr [if cur + length content \<le> mx
          then TextBlock (prefix @ '': '' @ attachmentName a @ newline @ ''Content: '' @ newline @
                          content)
          else sizeLimitPlaceholder prefix (FileItem a)]"
  by (simp add: buildContentBlockForAttachment_def attachmentTry_def)

lemma attachment_unsupported:
  "cur < mx \<Longrightarrow> \<not> isTextFile (bin_mimeType a) \<Longrightarrow>
   getMimeTypeModality env (bin_mimeType a) \<notin> set (inputModalities meta) \<Longrightarrow>
   buildContentBlockForAttachment env (FileItem a) cur mx meta prefix
   = Inr [unsupportedPlaceholder prefix (FileItem a)]"
  by (simp add: buildContentBlockForAttachment_def attachmentTry_def)

lemma attachment_media:
  "cur < mx \<Longrightarrow> \<not> isTextFile (bin_mimeType a) \<Longrightarrow>
   getMimeTypeModality env (bin_mimeType a) \<in> set (inputModalities meta) \<Longrightarrow>
   getDataUrl env a = Inr url \<Longrightarrow>
   buildContentBlockForAttachment env (FileItem a) cur mx meta prefix
   = Inr (if cur + length url \<le> mx
          then [TextBlock (prefix @ '': '' @ attachmentName a), ImageUrlBlock url]
          else [sizeLimitPlaceholder prefix (FileItem a)])"
  by (simp add: buildContentBlockForAttachment_def attachmentTry_def)

text \<open>
  C3 (as amended): \<^verbatim>\<open>buildContentBlockForAttachment\<close> fails with an error exactly when
  fetching the attachment raised that error while the running size was below the budget
  (\<^verbatim>\<open>getAsBuffer\<close> for a text file, \<^verbatim>\<open>getDataUrl\<close> for a file of a supported modality):
  every such error is rethrown unchanged, and nothing else reaches the caller. Whenever it
  returns, the result is one or two blocks. The two local signals never reach the caller;
  they become the two placeholders: the size-limit placeholder when the running size has
  reached the budget or the fetched text or URL no longer fits, and the unsupported-type
  placeholder for a file that is not text and whose modality the model does not accept.
\<close>

theorem buildContentBlockForAttachment_outcomes:
  "(buildContentBlockForAttachment env item cur mx meta prefix = Inl e
      \<longleftrightarrow> cur < mx \<and> (\<exists>a. item = FileItem a \<and>
            (if isTextFile (bin_mimeType a) then getAsBuffer env a = Inl e
             else getMimeTypeModality env (bin_mimeType a) \<in> set (inputModalities meta)
                  \<and> getDataUrl env a = Inl e)))
   \<and> (buildContentBlockForAttachment env item cur mx meta prefix = Inr blocks \<longrightarrow>
        blocks \<noteq> [] \<and> length blocks \<le> 2)
   \<and> (mx \<le> cur \<longrightarrow>
        buildContentBlockForAttachment env item cur mx meta prefix
        = Inr [sizeLimitPlaceholder prefix item])
   \<and> (cur < mx \<and> isTextFile (bin_mimeType b) \<and> getAsBuffer env b = Inr content
        \<and> mx < cur + length content \<longrightarrow>
        buildContentBlockForAttachment env (FileItem b) cur mx meta prefix
        = Inr [sizeLimitPlaceholder prefix (FileItem b)])
   \<and> (cur < mx \<and> \<not> isTextFile (bin_mimeType b)
        \<and> getMimeTypeModality env (bin_mimeType b) \<notin> set (inputModalities meta) \<longrightarrow>
        buildContentBlockForAttachment env (FileItem b) cur mx meta prefix
        = Inr [unsupportedPlaceholder prefix (FileItem b)])
   \<and> (cur < mx \<and> \<not> isTextFile (bin_mimeType b)
        \<and> getMimeTypeModality env (bin_mimeType b) \<in> set (inputModalities meta)
        \<and> getDataUrl env b = Inr url \<and> mx < cur + length url \<longrightarrow>
        buildContentBlockForAttachment env (FileItem b) cur mx meta prefix
        = Inr [sizeLimitPlaceholder prefix (FileItem b)])"
proof -
  have err: "buildContentBlockForAttachment env item cur mx meta prefix = Inl e
      \<longleftrightarrow> cur < mx \<and> (\<exists>a. item = FileItem a \<and>
            (if isTextFile (bin_mimeType a) then getAsBuffer env a = Inl e
             else getMimeTypeModality env (bin_mimeType a) \<in> set (inputModalities meta)
                  \<and> getDataUrl env a = Inl e))"
  proof
    assume "buildContentBlockForAttachment env item cur mx meta prefix = Inl e"
    then show "cur < mx \<and> (\<exists>a. item = FileItem a \<and>
            (if isTextFile (bin_mimeType a) then getAsBuffer env a = Inl e
             else getMimeTypeModality env (bin_mimeType a) \<in> set (inputModalities meta)
                  \<and> getDataUrl env a = Inl e))"
      by (rule attachment_error_source)
  next
    assume r: "cur < mx \<and> (\<exists>a. item = FileItem a \<and>
            (if isTextFile (bin_mimeType a) then getAsBuffer env a = Inl e
             else getMimeTypeModality env (bin_mimeType a) \<in> set (inputModalities meta)
                  \<and> getDataUrl env a = Inl e))"
    then obtain a where a: "item = FileItem a" and lt: "cur < mx"
      and f: "if isTextFile (bin_mimeType a) then getAsBuffer env a = Inl e
             else getMimeTypeModality env (bin_mimeType a) \<in> set (inputModalities meta)
                  \<and> getDataUrl env a = Inl e" by blast
    show "buildContentBlockForAttachment env item cur mx meta prefix = Inl e"
    proof (cases "isTextFile (bin_mimeType a)")
      case True
      with f have "getAsBuffer env a = Inl e" by simp
      from attachment_text_fetch_error[OF lt True this] a show ?thesis by simp
    next
      case False
      with f have m: "getMimeTypeModality env (bin_mimeType a) \<in> set (inputModalities meta)"
        and d: "getDataUrl env a = Inl e" by simp_all
      from attachment_url_fetch_error[OF lt False m d] a show ?thesis by simp
    qed
  qed
  have blocks: "buildContentBlockForAttachment env item cur mx meta prefix = Inr blocks \<longrightarrow>
        blocks \<noteq> [] \<and> length blocks \<le> 2"
    using attachment_blocks by blast
  have over: "mx \<le> cur \<longrightarrow>
        buildContentBlockForAttachment env item cur mx meta prefix
        = Inr [sizeLimitPlaceholder prefix item]"
    using attachment_over_budget by blast
  have oversize: "cur < mx \<and> isTextFile (bin_mimeType b) \<and> getAsBuffer env b = Inr content
        \<and> mx < cur + length content \<longrightarrow>
        buildContentBlockForAttachment env (FileItem b) cur mx meta prefix
        = Inr [sizeLimitPlaceholder prefix (FileItem b)]"
    by (simp add: attachment_text)
  have unsupported: "cur < mx \<and> \<not> isTextFile (bin_mimeType b)
        \<and> getMimeTypeModality env (bin_mimeType b) \<notin> set (inputModalities meta) \<longrightarrow>
        buildContentBlockForAttachment env (FileItem b) cur mx meta prefix
        = Inr [unsupportedPlaceholder prefix (FileItem b)]"
    by (simp add: attachment_unsupported)
  have media: "cur < mx \<and> \<not> isTextFile (bin_mimeType b)
        \<and> getMimeTypeModality env (bin_mimeType b) \<in> set (inputModalities meta)
        \<and> getDataUrl env b = Inr url \<and> mx < cur + length url \<longrightarrow>
        buildContentBlockForAttachment env (FileItem b) cur mx meta prefix
        = Inr [sizeLimitPlaceholder prefix (FileItem b)]"
    by (simp add: attachment_media)
  show ?thesis
    by (rule conjI[OF err conjI[OF blocks conjI[OF over conjI[OF oversize conjI[OF unsupported media]]]]])
qed

text \<open>
  C3 as stated fails: a text attachment whose bytes cannot be fetched makes the procedure
  fail with the fetch error instead of returning a placeholder.
\<close>

theorem buildContentBlockForAttachment_rethrows:
  "buildContentBlockForAttachment exampleHistoryEnv
     (FileItem (exampleAttachment ''gone.txt'' ''text/plain'')) 0 maxTotalPayloadSize
     exampleMetadata ''File''
   = Inl (ExternalError ''file not found'')"
  by (simp add: buildContentBlockForAttachment_def attachmentTry_def exampleHistoryEnv_def
      exampleAttachment_def isTextFile_def startsWith_def maxTotalPayloadSize_def)

lemma length_bigText: "length bigText = 18874369"
  by (simp add: bigText_def)

lemma bigText_nonempty: "bigText \<noteq> []"
  using length_bigText by auto

lemma fetch_examples:
  "getAsBuffer exampleHistoryEnv (exampleAttachment ''small.txt'' ''text/plain'') = Inr ''data''"
  "getAsBuffer exampleHistoryEnv (exampleAttachment ''big.txt'' ''text/plain'') = Inr bigText"
  "getAsBuffer exampleHistoryEnv (exampleAttachment ''gone.txt'' ''text/plain'')
     = Inl (ExternalError ''file not found'')"
  "getDataUrl exampleHistoryEnv a = Inr ''data:image/png;base64,AAAA''"
  "getMimeTypeModality exampleHistoryEnv ''image/png'' = ''image''"
  "getMimeTypeModality exampleHistoryEnv ''application/pdf'' = ''file''"
  "isTextFile ''text/plain''"
  "\<not> isTextFile ''image/png''"
  "\<not> isTextFile ''application/pdf''"
  by (simp_all add: exampleHistoryEnv_def exampleAttachment_def isTextFile_def startsWith_def)

lemma exampleAttachment_fields:
  "bin_mimeType (exampleAttachment i mime) = mime"
  "attachmentName (exampleAttachment i mime) = i"
  "catchFileName (FileItem (exampleAttachment i mime)) = i"
  by (simp_all add: exampleAttachment_def attachmentName_def catchFileName_def)

theorem buildContentBlockForAttachment_outcomes_witness:
  "buildContentBlockForAttachment exampleHistoryEnv
     (FileItem (exampleAttachment ''gone.txt'' ''text/plain'')) 7 10 exampleMetadata ''File''
   = Inl (ExternalError ''file not found'')
   \<and> buildContentBlockForAttachment exampleHistoryEnv
     (FileItem (exampleAttachment ''gone.txt'' ''text/plain'')) 10 10 exampleMetadata ''File''
   = Inr [sizeLimitPlaceholder ''File'' (FileItem (exampleAttachment ''gone.txt'' ''text/plain''))]
   \<and> buildContentBlockForAttachment exampleHistoryEnv
     (FileItem (exampleAttachment ''small.txt'' ''text/plain'')) 7 10 exampleMetadata ''File''
   = Inr [sizeLimitPlaceholder ''File'' (FileItem (exampleAttachment ''small.txt'' ''text/plain''))]
   \<and> buildContentBlockForAttachment exampleHistoryEnv
     (FileItem (exampleAttachment ''doc.pdf'' ''application/pdf'')) 7 10 exampleMetadata ''File''
   = Inr [unsupportedPlaceholder ''File'' (FileItem (exampleAttachment ''doc.pdf'' ''application/pdf''))]
   \<and> buildContentBlockForAttachment exampleHistoryEnv
     (FileItem (exampleAttachment ''pic.png'' ''image/png'')) 7 10 exampleMetadata ''File''
   = Inr [sizeLimitPlaceholder ''File'' (FileItem (exampleAttachment ''pic.png'' ''image/png''))]
   \<and> length [sizeLimitPlaceholder ''File'' (FileItem (exampleAttachment ''pic.png'' ''image/png''))] \<le> 2"
proof -
  note gone = buildContentBlockForAttachment_outcomes[where env=exampleHistoryEnv
     and item="FileItem (exampleAttachment ''gone.txt'' ''text/plain'')" and cur=7 and mx=10
     and meta=exampleMetadata and prefix="''File''" and e="ExternalError ''file not found''"]
  have a: "buildContentBlockForAttachment exampleHistoryEnv
     (FileItem (exampleAttachment ''gone.txt'' ''text/plain'')) 7 10 exampleMetadata ''File''
   = Inl (ExternalError ''file not found'')"
    using gone by (simp add: fetch_examples exampleAttachment_fields)
  note over = buildContentBlockForAttachment_outcomes[where env=exampleHistoryEnv
     and item="FileItem (exampleAttachment ''gone.txt'' ''text/plain'')" and cur=10 and mx=10
     and meta=exampleMetadata and prefix="''File''"]
  have b: "buildContentBlockForAttachment exampleHistoryEnv
     (FileItem (exampleAttachment ''gone.txt'' ''text/plain'')) 10 10 exampleMetadata ''File''
   = Inr [sizeLimitPlaceholder ''File'' (FileItem (exampleAttachment ''gone.txt'' ''text/plain''))]"
    using over by simp
  note small = buildContentBlockForAttachment_outcomes[where env=exampleHistoryEnv
     and b="exampleAttachment ''small.txt'' ''text/plain''" and cur=7 and mx=10
     and meta=exampleMetadata and prefix="''File''" and content="''data''"]
  have c: "buildContentBlockForAttachment exampleHistoryEnv
     (FileItem (exampleAttachment ''small.txt'' ''text/plain'')) 7 10 exampleMetadata ''File''
   = Inr [sizeLimitPlaceholder ''File'' (FileItem (exampleAttachment ''small.txt'' ''text/plain''))]"
    using small by (simp add: fetch_examples exampleAttachment_fields)
  note pdf = buildContentBlockForAttachment_outcomes[where env=exampleHistoryEnv
     and b="exampleAttachment ''doc.pdf'' ''application/pdf''" and cur=7 and mx=10
     and meta=exampleMetadata and prefix="''File''"]
  have d: "buildContentBlockForAttachment exampleHistoryEnv
     (FileItem (exampleAttachment ''doc.pdf'' ''application/pdf'')) 7 10 exampleMetadata ''File''
   = Inr [unsupportedPlaceholder ''File'' (FileItem (exampleAttachment ''doc.pdf'' ''application/pdf''))]"
    using pdf by (simp add: fetch_examples exampleAttachment_fields exampleMetadata_def)
  note png = buildContentBlockForAttachment_outcomes[where env=exampleHistoryEnv
     and b="exampleAttachment ''pic.png'' ''image/png''" and cur=7 and mx=10
     and meta=exampleMetadata and prefix="''File''" and url="''data:image/png;base64,AAAA''"]
  have e: "buildContentBlockForAttachment exampleHistoryEnv
     (FileItem (exampleAttachment ''pic.png'' ''image/png'')) 7 10 exampleMetadata ''File''
   = Inr [sizeLimitPlaceholder ''File'' (FileItem (exampleAttachment ''pic.png'' ''image/png''))]"
    using png by (simp add: fetch_examples exampleAttachment_fields exampleMetadata_def)
  from a b c d e show ?thesis by simp
qed



section \<open>Properties of buildConversationHistory\<close>

lemma urlLength_le_blockSize: "urlLength b \<le> blockSize b"
  by (cases b) simp_all

lemma urlSum_le_sizeSum: "sum_list (map urlLength bs) \<le> sum_list (map blockSize bs)"
  by (induction bs) (auto intro: add_mono urlLength_le_blockSize)

lemma attachmentTry_url:
  "attachmentTry env item cur mx meta prefix = Inr bs \<Longrightarrow>
   sum_list (map urlLength bs) = 0 \<or> cur + sum_list (map urlLength bs) \<le> mx"
  by (auto simp: attachmentTry_def Let_def split: if_splits ChatHubAgentKnowledgeItem.splits sum.splits)

lemma attachment_url:
  assumes "buildContentBlockForAttachment env item cur mx meta prefix = Inr bs"
  shows "sum_list (map urlLength bs) = 0 \<or> cur + sum_list (map urlLength bs) \<le> mx"
proof (cases "attachmentTry env item cur mx meta prefix")
  case (Inr blocks)
  with assms have "bs = blocks" by (simp add: buildContentBlockForAttachment_def)
  with attachmentTry_url[OF Inr] show ?thesis by simp
next
  case (Inl t)
  with assms show ?thesis
    by (cases t) (auto simp: buildContentBlockForAttachment_def sizeLimitPlaceholder_def
        unsupportedPlaceholder_def)
qed

lemma url_step:
  assumes "buildContentBlockForAttachment env item cur mx meta prefix = Inr bs"
    and "U \<le> cur" and "U \<le> mx"
  shows "U + sum_list (map urlLength bs) \<le> cur + sum_list (map blockSize bs)
       \<and> U + sum_list (map urlLength bs) \<le> mx"
  using attachment_url[OF assms(1)] assms(2,3) urlSum_le_sizeSum[of bs] by linarith

lemma attachmentsLoop_url:
  "attachmentsLoop env meta as blocks cur = Inr (blocks', cur') \<Longrightarrow>
   U \<le> cur \<Longrightarrow> U \<le> maxTotalPayloadSize \<Longrightarrow>
   \<exists>added. blocks' = blocks @ added \<and> cur' = cur + sum_list (map blockSize added)
         \<and> U + sum_list (map urlLength added) \<le> maxTotalPayloadSize"
proof (induction as arbitrary: blocks cur U)
  case Nil
  then show ?case by simp
next
  case (Cons a as)
  from Cons.prems(1) obtain bs where
    bs: "buildContentBlockForAttachment env (FileItem a) cur maxTotalPayloadSize meta ''File'' = Inr bs"
    and rest: "attachmentsLoop env meta as (blocks @ bs) (cur + sum_list (map blockSize bs))
                 = Inr (blocks', cur')"
    by (auto split: sum.splits)
  from url_step[OF bs Cons.prems(2,3)]
  have U1: "U + sum_list (map urlLength bs) \<le> cur + sum_list (map blockSize bs)"
    and U2: "U + sum_list (map urlLength bs) \<le> maxTotalPayloadSize" by simp_all
  from Cons.IH[OF rest U1 U2] obtain added where
    "blocks' = (blocks @ bs) @ added"
    "cur' = cur + sum_list (map blockSize bs) + sum_list (map blockSize added)"
    "U + sum_list (map urlLength bs) + sum_list (map urlLength added) \<le> maxTotalPayloadSize"
    by blast
  then show ?case by (intro exI[of _ "bs @ added"]) simp
qed

lemma contextFilesLoop_url:
  "contextFilesLoop env meta len fs i blocks cur = Inr (blocks', cur') \<Longrightarrow>
   U \<le> cur \<Longrightarrow> U \<le> maxTotalPayloadSize \<Longrightarrow>
   \<exists>added. blocks' = blocks @ added \<and> cur' = cur + sum_list (map blockSize added)
         \<and> U + sum_list (map urlLength added) \<le> maxTotalPayloadSize"
proof (induction fs arbitrary: i blocks cur U)
  case Nil
  then show ?case by simp
next
  case (Cons f fs)
  from Cons.prems(1) obtain bs where
    bs: "buildContentBlockForAttachment env f cur maxTotalPayloadSize meta (contextPrefix i len) = Inr bs"
    and rest: "contextFilesLoop env meta len fs (i + 1) (blocks @ bs)
                 (cur + sum_list (map blockSize bs)) = Inr (blocks', cur')"
    by (auto split: sum.splits)
  from url_step[OF bs Cons.prems(2,3)]
  have U1: "U + sum_list (map urlLength bs) \<le> cur + sum_list (map blockSize bs)"
    and U2: "U + sum_list (map urlLength bs) \<le> maxTotalPayloadSize" by simp_all
  from Cons.IH[OF rest U1 U2] obtain added where
    "blocks' = (blocks @ bs) @ added"
    "cur' = cur + sum_list (map blockSize bs) + sum_list (map blockSize added)"
    "U + sum_list (map urlLength bs) + sum_list (map urlLength added) \<le> maxTotalPayloadSize"
    by blast
  then show ?case by (intro exI[of _ "bs @ added"]) simp
qed

lemma emittedSize_append [simp]: "emittedSize (xs @ ys) = emittedSize xs + emittedSize ys"
  by (simp add: emittedSize_def)

lemma emittedUrlSize_append [simp]: "emittedUrlSize (xs @ ys) = emittedUrlSize xs + emittedUrlSize ys"
  by (simp add: emittedUrlSize_def)

lemma emittedSize_rev [simp]: "emittedSize (rev xs) = emittedSize xs"
  by (simp add: emittedSize_def rev_map[symmetric])

lemma emittedUrlSize_rev [simp]: "emittedUrlSize (rev xs) = emittedUrlSize xs"
  by (simp add: emittedUrlSize_def rev_map[symmetric])

lemma emittedUrlSize_le: "emittedUrlSize xs \<le> emittedSize xs"
proof (induction xs)
  case Nil
  then show ?case by (simp add: emittedUrlSize_def emittedSize_def)
next
  case (Cons r rs)
  have "contentUrlSize (rec_message r) \<le> contentSize (rec_message r)"
    by (cases "rec_message r") (simp_all add: urlSum_le_sizeSum)
  with Cons show ?case by (simp add: emittedUrlSize_def emittedSize_def)
qed

lemma messagesLoop_sizes:
  "messagesLoop env meta es acc cur = Inr (acc', cur') \<Longrightarrow>
   emittedSize acc = cur \<Longrightarrow> emittedUrlSize acc \<le> maxTotalPayloadSize \<Longrightarrow>
   emittedSize acc' = cur' \<and> emittedUrlSize acc' \<le> maxTotalPayloadSize
   \<and> (\<exists>ms. es = map MessageValue ms
          \<and> cur + sum_list (map (\<lambda>m. length (msg_content m)) ms) \<le> cur')"
proof (induction es arbitrary: acc cur)
  case Nil
  then show ?case by simp
next
  case (Cons e es)
  show ?case
  proof (cases e)
    case (InheritedMember name)
    with Cons.prems(1) show ?thesis by simp
  next
    case (MessageValue m)
    show ?thesis
    proof (cases "msg_content m = []")
      case True
      with Cons.prems(1) MessageValue have "messagesLoop env meta es acc cur = Inr (acc', cur')"
        by simp
      from Cons.IH[OF this Cons.prems(2,3)] obtain ms where
        r: "emittedSize acc' = cur'" "emittedUrlSize acc' \<le> maxTotalPayloadSize"
          "es = map MessageValue ms"
          "cur + sum_list (map (\<lambda>m. length (msg_content m)) ms) \<le> cur'" by blast
      have "e # es = map MessageValue (m # ms)
            \<and> cur + sum_list (map (\<lambda>m. length (msg_content m)) (m # ms)) \<le> cur'"
        using r True MessageValue by simp
      then have "\<exists>ms'. e # es = map MessageValue ms'
        \<and> cur + sum_list (map (\<lambda>m. length (msg_content m)) ms') \<le> cur'"
        by (rule exI[of _ "m # ms"])
      with r(1,2) show ?thesis by simp
    next
      case False
      let ?atts = "case msg_attachments m of None \<Rightarrow> [] | Some as \<Rightarrow> as"
      let ?cur1 = "cur + length (msg_content m)"
      show ?thesis
      proof (cases "?atts = []")
        case True
        let ?acc1 = "acc @ [\<lparr>rec_type = typeMap (msg_type m), rec_message = PlainText (msg_content m),
                            rec_hideFromUI = False\<rparr>]"
        from Cons.prems(1) False True MessageValue
        have run: "messagesLoop env meta es ?acc1 ?cur1 = Inr (acc', cur')"
          by (simp add: Let_def)
        have s: "emittedSize ?acc1 = ?cur1" using Cons.prems(2) by (simp add: emittedSize_def)
        have u: "emittedUrlSize ?acc1 \<le> maxTotalPayloadSize"
          using Cons.prems(3) by (simp add: emittedUrlSize_def)
        from Cons.IH[OF run s u] obtain ms where
          r: "emittedSize acc' = cur'" "emittedUrlSize acc' \<le> maxTotalPayloadSize"
            "es = map MessageValue ms"
            "?cur1 + sum_list (map (\<lambda>m. length (msg_content m)) ms) \<le> cur'" by blast
        have "e # es = map MessageValue (m # ms)
              \<and> cur + sum_list (map (\<lambda>m. length (msg_content m)) (m # ms)) \<le> cur'"
          using r MessageValue by simp
        then have "\<exists>ms'. e # es = map MessageValue ms'
          \<and> cur + sum_list (map (\<lambda>m. length (msg_content m)) ms') \<le> cur'"
          by (rule exI[of _ "m # ms"])
        with r(1,2) show ?thesis by simp
      next
        case ne: False
        from Cons.prems(1) False ne MessageValue obtain blocks cur2 where
          al: "attachmentsLoop env meta ?atts [TextBlock (msg_content m)] ?cur1 = Inr (blocks, cur2)"
          and run: "messagesLoop env meta es
                      (acc @ [\<lparr>rec_type = typeMap (msg_type m), rec_message = Blocks blocks,
                               rec_hideFromUI = False\<rparr>]) cur2 = Inr (acc', cur')"
          by (auto simp: Let_def split: sum.splits prod.splits)
        let ?acc1 = "acc @ [\<lparr>rec_type = typeMap (msg_type m), rec_message = Blocks blocks,
                            rec_hideFromUI = False\<rparr>]"
        have Ule: "emittedUrlSize acc \<le> ?cur1"
          using emittedUrlSize_le[of acc] Cons.prems(2) by simp
        from attachmentsLoop_url[OF al Ule Cons.prems(3)] obtain added where
          b: "blocks = [TextBlock (msg_content m)] @ added"
          and c: "cur2 = ?cur1 + sum_list (map blockSize added)"
          and u: "emittedUrlSize acc + sum_list (map urlLength added) \<le> maxTotalPayloadSize"
          by blast
        have s1: "emittedSize ?acc1 = cur2"
          using Cons.prems(2) b c by (simp add: emittedSize_def)
        have u1: "emittedUrlSize ?acc1 \<le> maxTotalPayloadSize"
          using u b by (simp add: emittedUrlSize_def)
        from Cons.IH[OF run s1 u1] obtain ms where
          r: "emittedSize acc' = cur'" "emittedUrlSize acc' \<le> maxTotalPayloadSize"
            "es = map MessageValue ms"
            "cur2 + sum_list (map (\<lambda>m. length (msg_content m)) ms) \<le> cur'" by blast
        have "e # es = map MessageValue (m # ms)
              \<and> cur + sum_list (map (\<lambda>m. length (msg_content m)) (m # ms)) \<le> cur'"
          using r c MessageValue by simp
        then have "\<exists>ms'. e # es = map MessageValue ms'
          \<and> cur + sum_list (map (\<lambda>m. length (msg_content m)) ms') \<le> cur'"
          by (rule exI[of _ "m # ms"])
        with r(1,2) show ?thesis by simp
      qed
    qed
  qed
qed

lemma attachmentsLoop_over:
  "maxTotalPayloadSize \<le> cur \<Longrightarrow>
   \<exists>cur'. attachmentsLoop env meta as blocks cur
     = Inr (blocks @ map (\<lambda>a. sizeLimitPlaceholder ''File'' (FileItem a)) as, cur')
     \<and> maxTotalPayloadSize \<le> cur'"
proof (induction as arbitrary: blocks cur)
  case Nil
  then show ?case by simp
next
  case (Cons a as)
  have "maxTotalPayloadSize \<le> cur + blockSize (sizeLimitPlaceholder ''File'' (FileItem a))"
    using Cons.prems by simp
  from Cons.IH[OF this, of "blocks @ [sizeLimitPlaceholder ''File'' (FileItem a)]"]
  show ?case using Cons.prems by (simp add: attachment_over_budget)
qed

lemma contextFilesLoop_over:
  "maxTotalPayloadSize \<le> cur \<Longrightarrow>
   \<exists>cur'. contextFilesLoop env meta len fs i blocks cur
     = Inr (blocks @ omittedContextBlocks len i fs, cur')"
proof (induction fs arbitrary: i blocks cur)
  case Nil
  then show ?case by simp
next
  case (Cons f fs)
  have "maxTotalPayloadSize \<le> cur + blockSize (sizeLimitPlaceholder (contextPrefix i len) f)"
    using Cons.prems by simp
  from Cons.IH[OF this, of "i + 1" "blocks @ [sizeLimitPlaceholder (contextPrefix i len) f]"]
  show ?case using Cons.prems by (simp add: attachment_over_budget)
qed

lemma messagesLoop_over:
  "maxTotalPayloadSize \<le> cur \<Longrightarrow>
   \<exists>cur'. messagesLoop env meta (map MessageValue ms) acc cur
     = Inr (acc @ map omittedEntry (filter (\<lambda>m. msg_content m \<noteq> []) ms), cur')
     \<and> maxTotalPayloadSize \<le> cur'"
proof (induction ms arbitrary: acc cur)
  case Nil
  then show ?case by simp
next
  case (Cons m ms)
  show ?case
  proof (cases "msg_content m = []")
    case True
    with Cons.IH[OF Cons.prems, of acc] show ?thesis by simp
  next
    case False
    let ?atts = "case msg_attachments m of None \<Rightarrow> [] | Some as \<Rightarrow> as"
    have c1: "maxTotalPayloadSize \<le> cur + length (msg_content m)" using Cons.prems by simp
    show ?thesis
    proof (cases "?atts = []")
      case True
      then have oe: "omittedEntry m = \<lparr>rec_type = typeMap (msg_type m),
            rec_message = PlainText (msg_content m), rec_hideFromUI = False\<rparr>"
        by (auto simp: omittedEntry_def split: option.splits)
      from Cons.IH[OF c1, of "acc @ [omittedEntry m]"] False True oe
      show ?thesis by (simp add: Let_def)
    next
      case ne: False
      then obtain as where as: "msg_attachments m = Some as" "as \<noteq> []"
        by (auto split: option.splits)
      from attachmentsLoop_over[OF c1, of env meta as "[TextBlock (msg_content m)]"]
      obtain cur2 where al: "attachmentsLoop env meta as [TextBlock (msg_content m)]
            (cur + length (msg_content m))
          = Inr ([TextBlock (msg_content m)] @ map (\<lambda>a. sizeLimitPlaceholder ''File'' (FileItem a)) as, cur2)"
        and c2: "maxTotalPayloadSize \<le> cur2" by blast
      have oe: "omittedEntry m = \<lparr>rec_type = typeMap (msg_type m),
            rec_message = Blocks (TextBlock (msg_content m) #
                 map (\<lambda>a. sizeLimitPlaceholder ''File'' (FileItem a)) as),
            rec_hideFromUI = False\<rparr>"
        using as by (simp add: omittedEntry_def)
      from Cons.IH[OF c2, of "acc @ [omittedEntry m]"] False as al oe
      show ?thesis by (simp add: Let_def)
    qed
  qed
qed

lemma messagesLoop_append:
  "messagesLoop env meta (xs @ ys) acc cur =
     (case messagesLoop env meta xs acc cur of
        Inl e \<Rightarrow> Inl e
      | Inr (acc', cur') \<Rightarrow> messagesLoop env meta ys acc' cur')"
  by (induction env meta xs acc cur rule: messagesLoop.induct)
     (auto simp: Let_def split: sum.splits prod.splits)

lemma omittedContextBlocks_empty: "(omittedContextBlocks len i fs = []) = (fs = [])"
  by (cases fs) simp_all

lemma history_messages_run:
  assumes "buildConversationHistory env history model [] = Inr recent"
  shows "messagesLoop env (getModelMetadata env (llm_provider model) (llm_model model))
           (rev history) [] 0 = Inr (rev recent, emittedSize recent)"
proof -
  let ?meta = "getModelMetadata env (llm_provider model) (llm_model model)"
  from assms obtain vals cur where
    ml: "messagesLoop env ?meta (rev history) [] 0 = Inr (vals, cur)"
    and recent: "recent = rev vals"
    by (auto simp: buildConversationHistory_def Let_def split: sum.splits prod.splits)
  from messagesLoop_sizes[OF ml] have "emittedSize vals = cur"
    by (simp add: emittedSize_def emittedUrlSize_def)
  with ml recent show ?thesis by simp
qed

lemma history_sizes:
  assumes "buildConversationHistory env history model contextFiles = Inr out"
  shows "(\<exists>ms. history = map MessageValue ms
             \<and> sum_list (map (\<lambda>m. length (msg_content m)) ms) \<le> emittedSize out)
       \<and> emittedUrlSize out \<le> maxTotalPayloadSize"
proof -
  let ?meta = "getModelMetadata env (llm_provider model) (llm_model model)"
  from assms obtain vals cur ctx cur' where
    ml: "messagesLoop env ?meta (rev history) [] 0 = Inr (vals, cur)"
    and cl: "contextFilesLoop env ?meta (length contextFiles) contextFiles 0 [] cur = Inr (ctx, cur')"
    and out: "out = rev (if length ctx > 0
                then vals @ [\<lparr>rec_type = UserRole, rec_message = Blocks ctx, rec_hideFromUI = True\<rparr>]
                else vals)"
    by (auto simp: buildConversationHistory_def Let_def split: sum.splits prod.splits)
  from messagesLoop_sizes[OF ml] obtain rms where
    s: "emittedSize vals = cur" and u: "emittedUrlSize vals \<le> maxTotalPayloadSize"
    and rms: "rev history = map MessageValue rms"
    and t: "sum_list (map (\<lambda>m. length (msg_content m)) rms) \<le> cur"
    by (auto simp: emittedSize_def emittedUrlSize_def)
  from rms have "history = rev (map MessageValue rms)" by (metis rev_rev_ident)
  then have hist: "history = map MessageValue (rev rms)" by (simp add: rev_map)
  have "sum_list (map (\<lambda>m. length (msg_content m)) (rev rms))
        = sum_list (map (\<lambda>m. length (msg_content m)) rms)"
    by (simp add: rev_map[symmetric])
  with t have t': "sum_list (map (\<lambda>m. length (msg_content m)) (rev rms)) \<le> cur" by simp
  have Ule: "emittedUrlSize vals \<le> cur" using emittedUrlSize_le[of vals] s by simp
  from contextFilesLoop_url[OF cl Ule u] obtain added where
    "ctx = [] @ added" and cu: "emittedUrlSize vals + sum_list (map urlLength added) \<le> maxTotalPayloadSize"
    by blast
  then have ctx: "ctx = added" by simp
  have bound: "cur \<le> emittedSize out \<and> emittedUrlSize out \<le> maxTotalPayloadSize"
  proof (cases "ctx = []")
    case True
    with out s u show ?thesis by simp
  next
    case False
    let ?entry = "\<lparr>rec_type = UserRole, rec_message = Blocks ctx, rec_hideFromUI = True\<rparr>"
    from False out have o: "out = rev (vals @ [?entry])" by simp
    have es: "emittedSize out = emittedSize vals + sum_list (map blockSize ctx)"
      unfolding o emittedSize_rev emittedSize_append by (simp add: emittedSize_def)
    have eu: "emittedUrlSize out = emittedUrlSize vals + sum_list (map urlLength ctx)"
      unfolding o emittedUrlSize_rev emittedUrlSize_append by (simp add: emittedUrlSize_def)
    show ?thesis using s cu ctx es eu by simp
  qed
  with t' have "sum_list (map (\<lambda>m. length (msg_content m)) (rev rms)) \<le> emittedSize out"
    by simp
  with hist bound show ?thesis by blast
qed

lemma history_older_omitted:
  assumes "buildConversationHistory env newer model [] = Inr recent"
    and "maxTotalPayloadSize \<le> emittedSize recent"
  shows "buildConversationHistory env (map MessageValue older @ newer) model contextFiles
         = Inr (omittedContextEntry contextFiles
                @ map omittedEntry (filter (\<lambda>m. msg_content m \<noteq> []) older) @ recent)"
proof -
  let ?meta = "getModelMetadata env (llm_provider model) (llm_model model)"
  from history_messages_run[OF assms(1)]
  have ml: "messagesLoop env ?meta (rev newer) [] 0 = Inr (rev recent, emittedSize recent)" .
  let ?vals = "rev recent"
  from messagesLoop_over[OF assms(2), of env ?meta "rev older" ?vals] obtain cur2 where
    ml2: "messagesLoop env ?meta (map MessageValue (rev older)) ?vals (emittedSize recent)
          = Inr (?vals @ map omittedEntry (filter (\<lambda>m. msg_content m \<noteq> []) (rev older)), cur2)"
    and over2: "maxTotalPayloadSize \<le> cur2" by blast
  have whole: "messagesLoop env ?meta (rev (map MessageValue older @ newer)) [] 0
          = Inr (?vals @ map omittedEntry (filter (\<lambda>m. msg_content m \<noteq> []) (rev older)), cur2)"
    using ml ml2 by (simp add: messagesLoop_append rev_map)
  from contextFilesLoop_over[OF over2, of env ?meta "length contextFiles" contextFiles 0 "[]"]
  obtain cur3 where cl: "contextFilesLoop env ?meta (length contextFiles) contextFiles 0 [] cur2
          = Inr (omittedContextBlocks (length contextFiles) 0 contextFiles, cur3)" by auto
  let ?L = "?vals @ map omittedEntry (filter (\<lambda>m. msg_content m \<noteq> []) (rev older))"
  let ?ctx = "omittedContextBlocks (length contextFiles) 0 contextFiles"
  have res: "buildConversationHistory env (map MessageValue older @ newer) model contextFiles
      = Inr (rev (if length ?ctx > 0
                  then ?L @ [\<lparr>rec_type = UserRole, rec_message = Blocks ?ctx, rec_hideFromUI = True\<rparr>]
                  else ?L))"
    using whole cl by (simp add: buildConversationHistory_def Let_def)
  have revL: "rev ?L = map omittedEntry (filter (\<lambda>m. msg_content m \<noteq> []) older) @ recent"
    by (simp add: rev_map rev_filter)
  show ?thesis
  proof (cases "contextFiles = []")
    case True
    then have "?ctx = []" by simp
    then show ?thesis unfolding res using revL True by (simp add: omittedContextEntry_def)
  next
    case False
    then have "?ctx \<noteq> []" by (simp add: omittedContextBlocks_empty)
    then have "length ?ctx > 0" by simp
    then show ?thesis unfolding res using revL False
      by (simp add: omittedContextEntry_def)
  qed
qed

lemma attachmentsLoop_steps:
  "length bl = length as \<Longrightarrow>
   (\<forall>k<length as.
      buildContentBlockForAttachment env (FileItem (as ! k))
        (cur + sum_list (map blockSize (concat (take k bl)))) maxTotalPayloadSize meta ''File''
      = Inr (bl ! k)) \<Longrightarrow>
   attachmentsLoop env meta as blocks cur
   = Inr (blocks @ concat bl, cur + sum_list (map blockSize (concat bl)))"
proof (induction as arbitrary: bl blocks cur)
  case Nil
  then show ?case by simp
next
  case (Cons a as)
  from Cons.prems(1) obtain b bl' where bl: "bl = b # bl'" and len: "length bl' = length as"
    by (cases bl) auto
  from Cons.prems(2)[rule_format, of 0] bl
  have first: "buildContentBlockForAttachment env (FileItem a) cur maxTotalPayloadSize meta ''File''
               = Inr b" by simp
  have rest: "\<forall>k<length as.
      buildContentBlockForAttachment env (FileItem (as ! k))
        ((cur + sum_list (map blockSize b)) + sum_list (map blockSize (concat (take k bl'))))
        maxTotalPayloadSize meta ''File''
      = Inr (bl' ! k)"
  proof (intro allI impI)
    fix k assume k: "k < length as"
    from Cons.prems(2)[rule_format, of "Suc k"] k bl
    show "buildContentBlockForAttachment env (FileItem (as ! k))
        ((cur + sum_list (map blockSize b)) + sum_list (map blockSize (concat (take k bl'))))
        maxTotalPayloadSize meta ''File''
      = Inr (bl' ! k)" by (simp add: add.assoc)
  qed
  from Cons.IH[OF len rest, of "blocks @ b"] first bl
  show ?case by (simp add: add.assoc)
qed

lemma contextFilesLoop_steps:
  "length bl = length fs \<Longrightarrow>
   (\<forall>k<length fs.
      buildContentBlockForAttachment env (fs ! k)
        (cur + sum_list (map blockSize (concat (take k bl)))) maxTotalPayloadSize meta
        (contextPrefix (i + k) len)
      = Inr (bl ! k)) \<Longrightarrow>
   contextFilesLoop env meta len fs i blocks cur
   = Inr (blocks @ concat bl, cur + sum_list (map blockSize (concat bl)))"
proof (induction fs arbitrary: bl blocks cur i)
  case Nil
  then show ?case by simp
next
  case (Cons f fs)
  from Cons.prems(1) obtain b bl' where bl: "bl = b # bl'" and len: "length bl' = length fs"
    by (cases bl) auto
  from Cons.prems(2)[rule_format, of 0] bl
  have first: "buildContentBlockForAttachment env f cur maxTotalPayloadSize meta (contextPrefix i len)
               = Inr b" by simp
  have rest: "\<forall>k<length fs.
      buildContentBlockForAttachment env (fs ! k)
        ((cur + sum_list (map blockSize b)) + sum_list (map blockSize (concat (take k bl'))))
        maxTotalPayloadSize meta (contextPrefix ((i + 1) + k) len)
      = Inr (bl' ! k)"
  proof (intro allI impI)
    fix k assume k: "k < length fs"
    from Cons.prems(2)[rule_format, of "Suc k"] k bl
    show "buildContentBlockForAttachment env (fs ! k)
        ((cur + sum_list (map blockSize b)) + sum_list (map blockSize (concat (take k bl'))))
        maxTotalPayloadSize meta (contextPrefix ((i + 1) + k) len)
      = Inr (bl' ! k)" by (simp add: add.assoc)
  qed
  from Cons.IH[OF len rest, of "blocks @ b"] first bl
  show ?case by (simp add: add.assoc)
qed

lemma history_next_message:
  assumes r: "buildConversationHistory env newer model [] = Inr recent"
    and ne: "msg_content m \<noteq> []"
    and as: "msg_attachments m = Some as" "as \<noteq> []"
    and len: "length bl = length as"
    and steps: "\<forall>k<length as.
      buildContentBlockForAttachment env (FileItem (as ! k))
        (emittedSize recent + length (msg_content m) + sum_list (map blockSize (concat (take k bl))))
        maxTotalPayloadSize (getModelMetadata env (llm_provider model) (llm_model model)) ''File''
      = Inr (bl ! k)"
  shows "buildConversationHistory env (MessageValue m # newer) model []
         = Inr (\<lparr>rec_type = typeMap (msg_type m),
                 rec_message = Blocks (TextBlock (msg_content m) # concat bl),
                 rec_hideFromUI = False\<rparr> # recent)"
proof -
  let ?meta = "getModelMetadata env (llm_provider model) (llm_model model)"
  let ?cur1 = "emittedSize recent + length (msg_content m)"
  from history_messages_run[OF r]
  have ml: "messagesLoop env ?meta (rev newer) [] 0 = Inr (rev recent, emittedSize recent)" .
  from attachmentsLoop_steps[OF len steps, of "[TextBlock (msg_content m)]"]
  have al: "attachmentsLoop env ?meta as [TextBlock (msg_content m)] ?cur1
            = Inr ([TextBlock (msg_content m)] @ concat bl,
                   ?cur1 + sum_list (map blockSize (concat bl)))" .
  have one: "messagesLoop env ?meta [MessageValue m] (rev recent) (emittedSize recent)
             = Inr (rev recent @ [\<lparr>rec_type = typeMap (msg_type m),
                       rec_message = Blocks (TextBlock (msg_content m) # concat bl),
                       rec_hideFromUI = False\<rparr>],
                    ?cur1 + sum_list (map blockSize (concat bl)))"
    using ne as al by (simp add: Let_def)
  have whole: "messagesLoop env ?meta (rev (MessageValue m # newer)) [] 0
             = Inr (rev recent @ [\<lparr>rec_type = typeMap (msg_type m),
                       rec_message = Blocks (TextBlock (msg_content m) # concat bl),
                       rec_hideFromUI = False\<rparr>],
                    ?cur1 + sum_list (map blockSize (concat bl)))"
    using ml one by (simp add: messagesLoop_append)
  show ?thesis
    unfolding buildConversationHistory_def Let_def whole by simp
qed

lemma history_context_files:
  assumes r: "buildConversationHistory env history model [] = Inr recent"
    and fs: "fs \<noteq> []"
    and len: "length bl = length fs"
    and steps: "\<forall>k<length fs.
      buildContentBlockForAttachment env (fs ! k)
        (emittedSize recent + sum_list (map blockSize (concat (take k bl))))
        maxTotalPayloadSize (getModelMetadata env (llm_provider model) (llm_model model))
        (contextPrefix k (length fs))
      = Inr (bl ! k)"
  shows "buildConversationHistory env history model fs
         = Inr (\<lparr>rec_type = UserRole, rec_message = Blocks (concat bl), rec_hideFromUI = True\<rparr>
                # recent)"
proof -
  let ?meta = "getModelMetadata env (llm_provider model) (llm_model model)"
  from history_messages_run[OF r]
  have ml: "messagesLoop env ?meta (rev history) [] 0 = Inr (rev recent, emittedSize recent)" .
  have steps': "\<forall>k<length fs.
      buildContentBlockForAttachment env (fs ! k)
        (emittedSize recent + sum_list (map blockSize (concat (take k bl))))
        maxTotalPayloadSize ?meta (contextPrefix (0 + k) (length fs))
      = Inr (bl ! k)" using steps by simp
  from contextFilesLoop_steps[OF len steps', of "[]"]
  have cl: "contextFilesLoop env ?meta (length fs) fs 0 [] (emittedSize recent)
            = Inr (concat bl, emittedSize recent + sum_list (map blockSize (concat bl)))"
    by simp
  from fs len obtain b bl' where bl: "bl = b # bl'" by (cases bl) auto
  from fs have "0 < length fs" by simp
  with steps bl have "buildContentBlockForAttachment env (fs ! 0) (emittedSize recent)
        maxTotalPayloadSize ?meta (contextPrefix 0 (length fs)) = Inr b" by fastforce
  from attachment_blocks[OF this] have "b \<noteq> []" by simp
  with bl have "0 < length (concat bl)" by simp
  then show ?thesis
    unfolding buildConversationHistory_def Let_def ml using cl by simp
qed

text \<open>
  C1 (as amended): whenever \<^verbatim>\<open>buildConversationHistory\<close> returns, every element of the
  history was a message and the text of every message is part of what it emits, whatever
  its size, so the emitted size is at least the total length of the message texts; the
  budget of 18874368 characters bounds the media URLs emitted inline. Once the newer part
  of a history has by itself emitted at least the budget, every older message keeps its
  text while each of its attachments, and each context file, is replaced by the size-limit
  placeholder, with no fetch and no error.

  The budget gates inline attachment content only, one attachment at a time. Given the
  running size, the step applied to an attachment returns the size-limit placeholder when
  the running size has reached the budget; below the budget it returns the note of an
  embedding item, the unsupported-type placeholder of a file that is not text and whose
  modality the model does not accept, and for text or a media URL that was fetched the
  inlined content when the running size plus its length is within the budget and the
  size-limit placeholder when it is not.

  The running size at an attachment is the size of everything emitted before it in the
  newest-first walk: for the attachments of the message that precedes a history, the size
  of what that history emits plus the text of the message plus the blocks of its earlier
  attachments; for the context files, the size of what the whole history emits plus the
  blocks of the earlier context files. The entry of the message, and the hidden entry of
  the context files, consist of the blocks the step returns there.
\<close>

theorem buildConversationHistory_budget:
  "(buildConversationHistory env history model contextFiles = Inr out \<longrightarrow>
      (\<exists>ms. history = map MessageValue ms
            \<and> sum_list (map (\<lambda>m. length (msg_content m)) ms) \<le> emittedSize out)
      \<and> emittedUrlSize out \<le> maxTotalPayloadSize)
   \<and> (buildConversationHistory env newer model [] = Inr recent
       \<and> maxTotalPayloadSize \<le> emittedSize recent \<longrightarrow>
      buildConversationHistory env (map MessageValue older @ newer) model contextFiles
        = Inr (omittedContextEntry contextFiles
               @ map omittedEntry (filter (\<lambda>m. msg_content m \<noteq> []) older) @ recent))
   \<and> (maxTotalPayloadSize \<le> cur \<longrightarrow>
        buildContentBlockForAttachment env item cur maxTotalPayloadSize meta prefix
        = Inr [sizeLimitPlaceholder prefix item])
   \<and> (cur < maxTotalPayloadSize \<longrightarrow>
        buildContentBlockForAttachment env (EmbeddingItem fileName p) cur maxTotalPayloadSize meta prefix
        = Inr [TextBlock (prefix @ '': '' @
                 (case fileName of None \<Rightarrow> ''attachment'' | Some n \<Rightarrow> n) @ newline @
                 ''Content: '' @ newline @
                 ''(Use vector store question tool to query this document)'')])
   \<and> (cur < maxTotalPayloadSize \<and> isTextFile (bin_mimeType a)
        \<and> getAsBuffer env a = Inr content \<longrightarrow>
        buildContentBlockForAttachment env (FileItem a) cur maxTotalPayloadSize meta prefix
        = Inr [if cur + length content \<le> maxTotalPayloadSize
               then TextBlock (prefix @ '': '' @ attachmentName a @ newline @ ''Content: '' @
                               newline @ content)
               else sizeLimitPlaceholder prefix (FileItem a)])
   \<and> (cur < maxTotalPayloadSize \<and> \<not> isTextFile (bin_mimeType a)
        \<and> getMimeTypeModality env (bin_mimeType a) \<notin> set (inputModalities meta) \<longrightarrow>
        buildContentBlockForAttachment env (FileItem a) cur maxTotalPayloadSize meta prefix
        = Inr [unsupportedPlaceholder prefix (FileItem a)])
   \<and> (cur < maxTotalPayloadSize \<and> \<not> isTextFile (bin_mimeType a)
        \<and> getMimeTypeModality env (bin_mimeType a) \<in> set (inputModalities meta)
        \<and> getDataUrl env a = Inr url \<longrightarrow>
        buildContentBlockForAttachment env (FileItem a) cur maxTotalPayloadSize meta prefix
        = Inr (if cur + length url \<le> maxTotalPayloadSize
               then [TextBlock (prefix @ '': '' @ attachmentName a), ImageUrlBlock url]
               else [sizeLimitPlaceholder prefix (FileItem a)]))
   \<and> (buildConversationHistory env newer model [] = Inr recent
        \<and> msg_content m \<noteq> [] \<and> msg_attachments m = Some as \<and> as \<noteq> []
        \<and> length bl = length as
        \<and> (\<forall>k<length as.
              buildContentBlockForAttachment env (FileItem (as ! k))
                (emittedSize recent + length (msg_content m)
                 + sum_list (map blockSize (concat (take k bl))))
                maxTotalPayloadSize (getModelMetadata env (llm_provider model) (llm_model model))
                ''File''
              = Inr (bl ! k)) \<longrightarrow>
        buildConversationHistory env (MessageValue m # newer) model []
        = Inr (\<lparr>rec_type = typeMap (msg_type m),
                rec_message = Blocks (TextBlock (msg_content m) # concat bl),
                rec_hideFromUI = False\<rparr> # recent))
   \<and> (buildConversationHistory env newer model [] = Inr recent
        \<and> contextFiles \<noteq> [] \<and> length cbl = length contextFiles
        \<and> (\<forall>k<length contextFiles.
              buildContentBlockForAttachment env (contextFiles ! k)
                (emittedSize recent + sum_list (map blockSize (concat (take k cbl))))
                maxTotalPayloadSize (getModelMetadata env (llm_provider model) (llm_model model))
                (contextPrefix k (length contextFiles))
              = Inr (cbl ! k)) \<longrightarrow>
        buildConversationHistory env newer model contextFiles
        = Inr (\<lparr>rec_type = UserRole, rec_message = Blocks (concat cbl), rec_hideFromUI = True\<rparr>
               # recent))"
proof -
  have sizes: "buildConversationHistory env history model contextFiles = Inr out \<longrightarrow>
      (\<exists>ms. history = map MessageValue ms
            \<and> sum_list (map (\<lambda>m. length (msg_content m)) ms) \<le> emittedSize out)
      \<and> emittedUrlSize out \<le> maxTotalPayloadSize"
    using history_sizes by blast
  have older: "buildConversationHistory env newer model [] = Inr recent
       \<and> maxTotalPayloadSize \<le> emittedSize recent \<longrightarrow>
      buildConversationHistory env (map MessageValue older @ newer) model contextFiles
        = Inr (omittedContextEntry contextFiles
               @ map omittedEntry (filter (\<lambda>m. msg_content m \<noteq> []) older) @ recent)"
    using history_older_omitted by blast
  have over: "maxTotalPayloadSize \<le> cur \<longrightarrow>
        buildContentBlockForAttachment env item cur maxTotalPayloadSize meta prefix
        = Inr [sizeLimitPlaceholder prefix item]"
    using attachment_over_budget by blast
  have embedding: "cur < maxTotalPayloadSize \<longrightarrow>
        buildContentBlockForAttachment env (EmbeddingItem fileName p) cur maxTotalPayloadSize meta prefix
        = Inr [TextBlock (prefix @ '': '' @
                 (case fileName of None \<Rightarrow> ''attachment'' | Some n \<Rightarrow> n) @ newline @
                 ''Content: '' @ newline @
                 ''(Use vector store question tool to query this document)'')]"
    using attachment_embedding by blast
  have textual: "cur < maxTotalPayloadSize \<and> isTextFile (bin_mimeType a)
        \<and> getAsBuffer env a = Inr content \<longrightarrow>
        buildContentBlockForAttachment env (FileItem a) cur maxTotalPayloadSize meta prefix
        = Inr [if cur + length content \<le> maxTotalPayloadSize
               then TextBlock (prefix @ '': '' @ attachmentName a @ newline @ ''Content: '' @
                               newline @ content)
               else sizeLimitPlaceholder prefix (FileItem a)]"
    using attachment_text by blast
  have unsupported: "cur < maxTotalPayloadSize \<and> \<not> isTextFile (bin_mimeType a)
        \<and> getMimeTypeModality env (bin_mimeType a) \<notin> set (inputModalities meta) \<longrightarrow>
        buildContentBlockForAttachment env (FileItem a) cur maxTotalPayloadSize meta prefix
        = Inr [unsupportedPlaceholder prefix (FileItem a)]"
    using attachment_unsupported by blast
  have media: "cur < maxTotalPayloadSize \<and> \<not> isTextFile (bin_mimeType a)
        \<and> getMimeTypeModality env (bin_mimeType a) \<in> set (inputModalities meta)
        \<and> getDataUrl env a = Inr url \<longrightarrow>
        buildContentBlockForAttachment env (FileItem a) cur maxTotalPayloadSize meta prefix
        = Inr (if cur + length url \<le> maxTotalPayloadSize
               then [TextBlock (prefix @ '': '' @ attachmentName a), ImageUrlBlock url]
               else [sizeLimitPlaceholder prefix (FileItem a)])"
    using attachment_media by blast
  have message: "buildConversationHistory env newer model [] = Inr recent
        \<and> msg_content m \<noteq> [] \<and> msg_attachments m = Some as \<and> as \<noteq> []
        \<and> length bl = length as
        \<and> (\<forall>k<length as.
              buildContentBlockForAttachment env (FileItem (as ! k))
                (emittedSize recent + length (msg_content m)
                 + sum_list (map blockSize (concat (take k bl))))
                maxTotalPayloadSize (getModelMetadata env (llm_provider model) (llm_model model))
                ''File''
              = Inr (bl ! k)) \<longrightarrow>
        buildConversationHistory env (MessageValue m # newer) model []
        = Inr (\<lparr>rec_type = typeMap (msg_type m),
                rec_message = Blocks (TextBlock (msg_content m) # concat bl),
                rec_hideFromUI = False\<rparr> # recent)"
    using history_next_message by blast
  have context_files: "buildConversationHistory env newer model [] = Inr recent
        \<and> contextFiles \<noteq> [] \<and> length cbl = length contextFiles
        \<and> (\<forall>k<length contextFiles.
              buildContentBlockForAttachment env (contextFiles ! k)
                (emittedSize recent + sum_list (map blockSize (concat (take k cbl))))
                maxTotalPayloadSize (getModelMetadata env (llm_provider model) (llm_model model))
                (contextPrefix k (length contextFiles))
              = Inr (cbl ! k)) \<longrightarrow>
        buildConversationHistory env newer model contextFiles
        = Inr (\<lparr>rec_type = UserRole, rec_message = Blocks (concat cbl), rec_hideFromUI = True\<rparr>
               # recent)"
    using history_context_files by blast
  show ?thesis
    by (rule conjI[OF sizes conjI[OF older conjI[OF over conjI[OF embedding conjI[OF textual
          conjI[OF unsupported conjI[OF media conjI[OF message context_files]]]]]]]])
qed

lemma attach_small:
  "cur + 4 \<le> mx \<Longrightarrow>
   buildContentBlockForAttachment exampleHistoryEnv
     (FileItem (exampleAttachment ''small.txt'' ''text/plain'')) cur mx meta ''File''
   = Inr [TextBlock (''File: small.txt'' @ newline @ ''Content: '' @ newline @ ''data'')]"
  by (simp add: buildContentBlockForAttachment_def attachmentTry_def fetch_examples
      exampleAttachment_fields)

lemma attach_big:
  "mx < cur + 18874369 \<Longrightarrow>
   buildContentBlockForAttachment exampleHistoryEnv
     (FileItem (exampleAttachment ''big.txt'' ''text/plain'')) cur mx meta ''File''
   = Inr [TextBlock (''File: big.txt'' @ newline @ ''(Content omitted due to size limit)'')]"
  by (simp add: buildContentBlockForAttachment_def attachmentTry_def fetch_examples
      exampleAttachment_fields length_bigText sizeLimitPlaceholder_def)

lemma fileMessage_fields:
  "msg_content (fileMessage i txt prev fileId) = txt"
  "msg_type (fileMessage i txt prev fileId) = Human"
  "msg_attachments (fileMessage i txt prev fileId) = Some [exampleAttachment fileId ''text/plain'']"
  by (simp_all add: fileMessage_def exampleMessage_def)

lemma overBudget_run:
  "buildConversationHistory exampleHistoryEnv overBudgetHistory exampleModel [] = Inr overBudgetResult"
proof -
  have m3: "messagesLoop exampleHistoryEnv exampleMetadata
              [MessageValue (fileMessage ''M3'' ''and this'' (Some ''M2'') ''big.txt''),
               MessageValue (fileMessage ''M2'' ''see file'' (Some ''M1'') ''small.txt''),
               MessageValue bigMessage] [] 0
            = Inr (rev overBudgetResult, emittedSize overBudgetResult)"
    by (simp add: fileMessage_def bigMessage_def exampleMessage_def Let_def attach_big attach_small
        maxTotalPayloadSize_def newline_def length_bigText bigText_nonempty overBudgetResult_def
        emittedSize_def)
  then show ?thesis
    by (simp add: buildConversationHistory_def overBudgetHistory_def Let_def exampleHistoryEnv_def)
qed

lemma bigMessage_run:
  "buildConversationHistory exampleHistoryEnv [MessageValue bigMessage] exampleModel []
   = Inr [\<lparr>rec_type = UserRole, rec_message = PlainText bigText, rec_hideFromUI = False\<rparr>]"
  by (simp add: buildConversationHistory_def Let_def bigMessage_def exampleMessage_def
      bigText_nonempty)

lemma newest_run:
  "buildConversationHistory exampleHistoryEnv
     [MessageValue (fileMessage ''M3'' ''and this'' (Some ''M2'') ''big.txt'')] exampleModel []
   = Inr [\<lparr>rec_type = UserRole,
            rec_message = Blocks [TextBlock ''and this'',
               TextBlock (''File: big.txt'' @ newline @ ''(Content omitted due to size limit)'')],
            rec_hideFromUI = False\<rparr>]"
proof -
  have "messagesLoop exampleHistoryEnv exampleMetadata
          [MessageValue (fileMessage ''M3'' ''and this'' (Some ''M2'') ''big.txt'')] [] 0
        = Inr ([\<lparr>rec_type = UserRole,
                  rec_message = Blocks [TextBlock ''and this'',
                     TextBlock (''File: big.txt'' @ newline @ ''(Content omitted due to size limit)'')],
                  rec_hideFromUI = False\<rparr>], 57)"
    by (simp add: fileMessage_fields Let_def attach_big maxTotalPayloadSize_def newline_def)
  then show ?thesis
    by (simp add: buildConversationHistory_def Let_def exampleHistoryEnv_def)
qed

text \<open>
  C1 as stated fails: with a first message whose text alone is longer than the budget, a
  second message with a small text attachment and a newest message with an attachment larger
  than the budget, the emitted size exceeds the budget, and it is the newest attachment
  that is replaced by the placeholder while the older one is inlined.
\<close>

theorem buildConversationHistory_over_budget:
  "buildConversationHistory exampleHistoryEnv overBudgetHistory exampleModel [] = Inr overBudgetResult
   \<and> maxTotalPayloadSize < emittedSize overBudgetResult"
proof -
  have "maxTotalPayloadSize < emittedSize overBudgetResult"
    by (simp add: overBudgetResult_def emittedSize_def length_bigText maxTotalPayloadSize_def)
  with overBudget_run show ?thesis by simp
qed

theorem buildConversationHistory_budget_witness:
  "buildConversationHistory exampleHistoryEnv overBudgetHistory exampleModel [] = Inr overBudgetResult
   \<and> sum_list (map (\<lambda>m. length (msg_content m))
        [bigMessage, fileMessage ''M2'' ''see file'' (Some ''M1'') ''small.txt'',
         fileMessage ''M3'' ''and this'' (Some ''M2'') ''big.txt''])
       \<le> emittedSize overBudgetResult
   \<and> emittedUrlSize overBudgetResult \<le> maxTotalPayloadSize
   \<and> buildConversationHistory exampleHistoryEnv
        (map MessageValue [fileMessage ''M0'' ''old'' None ''small.txt''] @ [MessageValue bigMessage])
        exampleModel [EmbeddingItem (Some ''kb.pdf'') ''openai'']
       = Inr (omittedContextEntry [EmbeddingItem (Some ''kb.pdf'') ''openai'']
              @ map omittedEntry
                  (filter (\<lambda>m. msg_content m \<noteq> []) [fileMessage ''M0'' ''old'' None ''small.txt''])
              @ [\<lparr>rec_type = UserRole, rec_message = PlainText bigText, rec_hideFromUI = False\<rparr>])
   \<and> buildContentBlockForAttachment exampleHistoryEnv
        (FileItem (exampleAttachment ''big.txt'' ''text/plain'')) 8 maxTotalPayloadSize
        exampleMetadata ''File''
       = Inr [sizeLimitPlaceholder ''File'' (FileItem (exampleAttachment ''big.txt'' ''text/plain''))]
   \<and> buildContentBlockForAttachment exampleHistoryEnv
        (FileItem (exampleAttachment ''small.txt'' ''text/plain'')) 65 maxTotalPayloadSize
        exampleMetadata ''File''
       = Inr [TextBlock (''File: small.txt'' @ newline @ ''Content: '' @ newline @ ''data'')]
   \<and> buildConversationHistory exampleHistoryEnv
        [MessageValue (fileMessage ''M2'' ''see file'' (Some ''M1'') ''small.txt''),
         MessageValue (fileMessage ''M3'' ''and this'' (Some ''M2'') ''big.txt'')] exampleModel []
       = Inr [\<lparr>rec_type = UserRole,
                rec_message = Blocks [TextBlock ''see file'',
                   TextBlock (''File: small.txt'' @ newline @ ''Content: '' @ newline @ ''data'')],
                rec_hideFromUI = False\<rparr>,
              \<lparr>rec_type = UserRole,
                rec_message = Blocks [TextBlock ''and this'',
                   TextBlock (''File: big.txt'' @ newline @ ''(Content omitted due to size limit)'')],
                rec_hideFromUI = False\<rparr>]
   \<and> buildConversationHistory exampleHistoryEnv [MessageValue bigMessage] exampleModel
        [EmbeddingItem (Some ''kb.pdf'') ''openai'']
       = Inr [\<lparr>rec_type = UserRole,
                rec_message = Blocks [sizeLimitPlaceholder (contextPrefix 0 1)
                                        (EmbeddingItem (Some ''kb.pdf'') ''openai'')],
                rec_hideFromUI = True\<rparr>,
              \<lparr>rec_type = UserRole, rec_message = PlainText bigText, rec_hideFromUI = False\<rparr>]"
proof -
  let ?M2 = "fileMessage ''M2'' ''see file'' (Some ''M1'') ''small.txt''"
  let ?M3 = "fileMessage ''M3'' ''and this'' (Some ''M2'') ''big.txt''"
  let ?bigEntry = "\<lparr>rec_type = UserRole, rec_message = PlainText bigText, rec_hideFromUI = False\<rparr>"
  let ?newest = "\<lparr>rec_type = UserRole,
            rec_message = Blocks [TextBlock ''and this'',
               TextBlock (''File: big.txt'' @ newline @ ''(Content omitted due to size limit)'')],
            rec_hideFromUI = False\<rparr>"
  have big: "maxTotalPayloadSize \<le> emittedSize [?bigEntry]"
    by (simp add: emittedSize_def length_bigText maxTotalPayloadSize_def)
  from buildConversationHistory_budget[where env=exampleHistoryEnv and history=overBudgetHistory
      and model=exampleModel and contextFiles="[]" and out=overBudgetResult]
    overBudget_run
  obtain ms where ms: "overBudgetHistory = map MessageValue ms"
    and le: "sum_list (map (\<lambda>m. length (msg_content m)) ms) \<le> emittedSize overBudgetResult"
    and url: "emittedUrlSize overBudgetResult \<le> maxTotalPayloadSize"
    by blast
  have "inj MessageValue" by (simp add: inj_def)
  moreover have "map MessageValue ms = map MessageValue [bigMessage, ?M2, ?M3]"
    using ms by (simp add: overBudgetHistory_def)
  ultimately have "ms = [bigMessage, ?M2, ?M3]" by (simp only: inj_map_eq_map)
  with le have a: "sum_list (map (\<lambda>m. length (msg_content m)) [bigMessage, ?M2, ?M3])
       \<le> emittedSize overBudgetResult" by simp
  from buildConversationHistory_budget[where env=exampleHistoryEnv
      and newer="[MessageValue bigMessage]"
      and model=exampleModel and older="[fileMessage ''M0'' ''old'' None ''small.txt'']"
      and contextFiles="[EmbeddingItem (Some ''kb.pdf'') ''openai'']"
      and recent="[?bigEntry]"]
    bigMessage_run big
  have b: "buildConversationHistory exampleHistoryEnv
        (map MessageValue [fileMessage ''M0'' ''old'' None ''small.txt''] @ [MessageValue bigMessage])
        exampleModel [EmbeddingItem (Some ''kb.pdf'') ''openai'']
       = Inr (omittedContextEntry [EmbeddingItem (Some ''kb.pdf'') ''openai'']
              @ map omittedEntry
                  (filter (\<lambda>m. msg_content m \<noteq> []) [fileMessage ''M0'' ''old'' None ''small.txt''])
              @ [?bigEntry])"
    by blast
  from buildConversationHistory_budget[where env=exampleHistoryEnv and cur=8
      and a="exampleAttachment ''big.txt'' ''text/plain''" and content=bigText
      and meta=exampleMetadata and prefix="''File''"]
  have c: "buildContentBlockForAttachment exampleHistoryEnv
        (FileItem (exampleAttachment ''big.txt'' ''text/plain'')) 8 maxTotalPayloadSize
        exampleMetadata ''File''
       = Inr [sizeLimitPlaceholder ''File'' (FileItem (exampleAttachment ''big.txt'' ''text/plain''))]"
    by (simp add: fetch_examples exampleAttachment_fields length_bigText maxTotalPayloadSize_def)
  from buildConversationHistory_budget[where env=exampleHistoryEnv and cur=65
      and a="exampleAttachment ''small.txt'' ''text/plain''" and content="''data''"
      and meta=exampleMetadata and prefix="''File''"]
  have d: "buildContentBlockForAttachment exampleHistoryEnv
        (FileItem (exampleAttachment ''small.txt'' ''text/plain'')) 65 maxTotalPayloadSize
        exampleMetadata ''File''
       = Inr [TextBlock (''File: small.txt'' @ newline @ ''Content: '' @ newline @ ''data'')]"
    by (simp add: fetch_examples exampleAttachment_fields maxTotalPayloadSize_def)
  have meta: "getModelMetadata exampleHistoryEnv (llm_provider exampleModel) (llm_model exampleModel)
              = exampleMetadata" by (simp add: exampleHistoryEnv_def)
  have steps: "\<forall>k<length [exampleAttachment ''small.txt'' ''text/plain''].
      buildContentBlockForAttachment exampleHistoryEnv
        (FileItem ([exampleAttachment ''small.txt'' ''text/plain''] ! k))
        (emittedSize [?newest] + length (msg_content ?M2)
         + sum_list (map blockSize (concat (take k
             [[TextBlock (''File: small.txt'' @ newline @ ''Content: '' @ newline @ ''data'')]]))))
        maxTotalPayloadSize
        (getModelMetadata exampleHistoryEnv (llm_provider exampleModel) (llm_model exampleModel))
        ''File''
      = Inr ([[TextBlock (''File: small.txt'' @ newline @ ''Content: '' @ newline @ ''data'')]] ! k)"
  proof (intro allI impI)
    fix k assume "k < length [exampleAttachment ''small.txt'' ''text/plain'']"
    then have k: "k = 0" by simp
    have cur: "emittedSize [?newest] + length (msg_content ?M2)
         + sum_list (map blockSize (concat (take 0
             [[TextBlock (''File: small.txt'' @ newline @ ''Content: '' @ newline @ ''data'')]])))
         = 65"
      by (simp add: emittedSize_def newline_def fileMessage_fields)
    show "buildContentBlockForAttachment exampleHistoryEnv
        (FileItem ([exampleAttachment ''small.txt'' ''text/plain''] ! k))
        (emittedSize [?newest] + length (msg_content ?M2)
         + sum_list (map blockSize (concat (take k
             [[TextBlock (''File: small.txt'' @ newline @ ''Content: '' @ newline @ ''data'')]]))))
        maxTotalPayloadSize
        (getModelMetadata exampleHistoryEnv (llm_provider exampleModel) (llm_model exampleModel))
        ''File''
      = Inr ([[TextBlock (''File: small.txt'' @ newline @ ''Content: '' @ newline @ ''data'')]] ! k)"
      unfolding k cur meta using d by simp
  qed
  from buildConversationHistory_budget[where env=exampleHistoryEnv
      and newer="[MessageValue ?M3]" and model=exampleModel and recent="[?newest]" and m="?M2"
      and as="[exampleAttachment ''small.txt'' ''text/plain'']"
      and bl="[[TextBlock (''File: small.txt'' @ newline @ ''Content: '' @ newline @ ''data'')]]"]
    newest_run steps
  have e: "buildConversationHistory exampleHistoryEnv [MessageValue ?M2, MessageValue ?M3]
        exampleModel []
       = Inr [\<lparr>rec_type = UserRole,
                rec_message = Blocks [TextBlock ''see file'',
                   TextBlock (''File: small.txt'' @ newline @ ''Content: '' @ newline @ ''data'')],
                rec_hideFromUI = False\<rparr>, ?newest]"
    by (simp add: fileMessage_fields)
  have ctxstep: "\<forall>k<length [EmbeddingItem (Some ''kb.pdf'') ''openai''].
      buildContentBlockForAttachment exampleHistoryEnv
        ([EmbeddingItem (Some ''kb.pdf'') ''openai''] ! k)
        (emittedSize [?bigEntry] + sum_list (map blockSize (concat (take k
             [[sizeLimitPlaceholder (contextPrefix 0 1) (EmbeddingItem (Some ''kb.pdf'') ''openai'')]]))))
        maxTotalPayloadSize
        (getModelMetadata exampleHistoryEnv (llm_provider exampleModel) (llm_model exampleModel))
        (contextPrefix k (length [EmbeddingItem (Some ''kb.pdf'') ''openai'']))
      = Inr ([[sizeLimitPlaceholder (contextPrefix 0 1) (EmbeddingItem (Some ''kb.pdf'') ''openai'')]] ! k)"
    using big by (simp add: attachment_over_budget)
  from buildConversationHistory_budget[where env=exampleHistoryEnv
      and newer="[MessageValue bigMessage]" and model=exampleModel and recent="[?bigEntry]"
      and contextFiles="[EmbeddingItem (Some ''kb.pdf'') ''openai'']"
      and cbl="[[sizeLimitPlaceholder (contextPrefix 0 1) (EmbeddingItem (Some ''kb.pdf'') ''openai'')]]"]
    bigMessage_run ctxstep
  have f: "buildConversationHistory exampleHistoryEnv [MessageValue bigMessage] exampleModel
        [EmbeddingItem (Some ''kb.pdf'') ''openai'']
       = Inr [\<lparr>rec_type = UserRole,
                rec_message = Blocks [sizeLimitPlaceholder (contextPrefix 0 1)
                                        (EmbeddingItem (Some ''kb.pdf'') ''openai'')],
                rec_hideFromUI = True\<rparr>, ?bigEntry]"
    by simp
  from a b c d e f url overBudget_run show ?thesis by simp
qed


section \<open>Facts about the example state\<close>


lemma exampleWorld_lookup:
  "sessionRepository_existsById exampleWorld ''S1'' (user_id exampleUser)"
  "messageRepository_getOneById exampleWorld ''M2'' ''S1''
     = Some ((exampleMessage ''M2'' Ai ''hi'' (Some ''M1''))
           \<lparr>msg_status := Running, msg_executionId := Some 7,
            msg_execution := Some \<lparr>exec_id = ''7'', exec_workflowId = ''W1''\<rparr>\<rparr>)"
  "messageRepository_getOneById exampleWorld ''M3'' ''S1''
     = Some ((exampleMessage ''M3'' Ai ''hey'' (Some ''M1''))
           \<lparr>msg_executionId := Some 8,
            msg_execution := Some \<lparr>exec_id = ''8'', exec_workflowId = ''W1''\<rparr>\<rparr>)"
  by (simp_all add: sessionRepository_existsById_def messageRepository_getOneById_def
      exampleWorld_def exampleSession_def exampleUser_def exampleMessage_def)

lemma exampleWorld_session:
  "getChatSession exampleWorld exampleUser ''S1''
     = Some ((exampleSession ''S1'' N8n)\<lparr>ses_messages := Some (messageTable exampleWorld)\<rparr>)"
  by (simp add: getChatSession_def sessionRepository_getOneById_def exampleWorld_def
      exampleSession_def exampleUser_def exampleMessage_def)



section \<open>Properties of stopGeneration\<close>

lemma find_map_preserved:
  assumes "\<And>m. P (f m) = P m"
  shows "find P (map f xs) = map_option f (find P xs)"
  using assms by (induction xs) auto

lemma getOneById_after_update:
  assumes "\<And>m. msg_id (change m) = msg_id m" and "\<And>m. msg_sessionId (change m) = msg_sessionId m"
    and "messageRepository_getOneById w messageId sessionId = Some message"
  shows "messageRepository_getOneById (messageRepository_updateChatMessage messageId change w)
           messageId sessionId = Some (change message)"
proof -
  let ?P = "\<lambda>m. msg_id m = messageId \<and> msg_sessionId m = sessionId"
  let ?f = "\<lambda>m. if msg_id m = messageId then change m else m"
  have "find ?P (map ?f (messageTable w)) = map_option ?f (find ?P (messageTable w))"
    by (rule find_map_preserved) (simp add: assms(1,2))
  moreover have "msg_id message = messageId"
    using assms(3) by (auto simp: messageRepository_getOneById_def find_Some_iff)
  ultimately show ?thesis
    using assms(3)
    by (simp add: messageRepository_getOneById_def messageRepository_updateChatMessage_def)
qed

text \<open>
  C8: \<^verbatim>\<open>stopGeneration\<close> on a message of an existing session succeeds exactly when the
  message is an AI message with an associated execution (a truthy \<^verbatim>\<open>executionId\<close> and a
  loaded execution) and its status is \<open>running\<close>; then the execution receives one stop
  call, the status of the message becomes \<open>cancelled\<close> and nothing else changes. In every
  other case the call is rejected with a bad-request error and the state is unchanged (a
  missing session or message is rejected as not found, the state unchanged as well).
\<close>

theorem stopGeneration_guard:
  "(\<not> sessionRepository_existsById w sessionId (user_id user) \<longrightarrow>
      stopGeneration user sessionId messageId w = (Inl (NotFoundError ''Chat session not found''), w))
   \<and> (sessionRepository_existsById w sessionId (user_id user)
       \<and> messageRepository_getOneById w messageId sessionId = None \<longrightarrow>
      stopGeneration user sessionId messageId w = (Inl (NotFoundError ''Chat message not found''), w))
   \<and> (sessionRepository_existsById w sessionId (user_id user)
       \<and> messageRepository_getOneById w messageId sessionId = Some message \<longrightarrow>
      (msg_type message = Ai \<and> truthyNumber (msg_executionId message)
         \<and> msg_execution message = Some execution \<and> msg_status message = Running \<longrightarrow>
         fst (stopGeneration user sessionId messageId w) = Inr ()
         \<and> snd (stopGeneration user sessionId messageId w)
             = w\<lparr>messageTable := map (\<lambda>m. if msg_id m = messageId then m\<lparr>msg_status := Cancelled\<rparr> else m)
                                    (messageTable w),
                 stopCalls := stopCalls w @ [(exec_id execution, exec_workflowId execution)]\<rparr>
         \<and> messageRepository_getOneById (snd (stopGeneration user sessionId messageId w))
               messageId sessionId = Some (message\<lparr>msg_status := Cancelled\<rparr>))
      \<and> (\<not> (msg_type message = Ai \<and> truthyNumber (msg_executionId message)
              \<and> msg_execution message \<noteq> None \<and> msg_status message = Running) \<longrightarrow>
         (\<exists>reason. fst (stopGeneration user sessionId messageId w) = Inl (BadRequestError reason))
         \<and> snd (stopGeneration user sessionId messageId w) = w))"
proof (intro conjI impI)
  assume "\<not> sessionRepository_existsById w sessionId (user_id user)"
  then show "stopGeneration user sessionId messageId w = (Inl (NotFoundError ''Chat session not found''), w)"
    by (simp add: stopGeneration_def ensureConversation_def)
next
  assume "sessionRepository_existsById w sessionId (user_id user)
       \<and> messageRepository_getOneById w messageId sessionId = None"
  then show "stopGeneration user sessionId messageId w = (Inl (NotFoundError ''Chat message not found''), w)"
    by (simp add: stopGeneration_def ensureConversation_def getChatMessage_def)
next
  assume found: "sessionRepository_existsById w sessionId (user_id user)
       \<and> messageRepository_getOneById w messageId sessionId = Some message"
    and ok: "msg_type message = Ai \<and> truthyNumber (msg_executionId message)
         \<and> msg_execution message = Some execution \<and> msg_status message = Running"
  have run: "stopGeneration user sessionId messageId w
      = (Inr (), messageRepository_updateChatMessage messageId (\<lambda>m. m\<lparr>msg_status := Cancelled\<rparr>)
                   (chatHubExecutionService_stop (exec_id execution) (exec_workflowId execution) w))"
    using found ok by (simp add: stopGeneration_def ensureConversation_def getChatMessage_def Let_def)
  show "fst (stopGeneration user sessionId messageId w) = Inr ()" using run by simp
  show "snd (stopGeneration user sessionId messageId w)
             = w\<lparr>messageTable := map (\<lambda>m. if msg_id m = messageId then m\<lparr>msg_status := Cancelled\<rparr> else m)
                                    (messageTable w),
                 stopCalls := stopCalls w @ [(exec_id execution, exec_workflowId execution)]\<rparr>"
    using run by (simp add: messageRepository_updateChatMessage_def chatHubExecutionService_stop_def)
  have "messageRepository_getOneById
          (chatHubExecutionService_stop (exec_id execution) (exec_workflowId execution) w)
          messageId sessionId = Some message"
    using found by (simp add: messageRepository_getOneById_def chatHubExecutionService_stop_def)
  then have "messageRepository_getOneById
          (messageRepository_updateChatMessage messageId (\<lambda>m. m\<lparr>msg_status := Cancelled\<rparr>)
             (chatHubExecutionService_stop (exec_id execution) (exec_workflowId execution) w))
          messageId sessionId = Some (message\<lparr>msg_status := Cancelled\<rparr>)"
    by (intro getOneById_after_update) simp_all
  then show "messageRepository_getOneById (snd (stopGeneration user sessionId messageId w))
               messageId sessionId = Some (message\<lparr>msg_status := Cancelled\<rparr>)"
    using run by simp
next
  assume found: "sessionRepository_existsById w sessionId (user_id user)
       \<and> messageRepository_getOneById w messageId sessionId = Some message"
    and bad: "\<not> (msg_type message = Ai \<and> truthyNumber (msg_executionId message)
              \<and> msg_execution message \<noteq> None \<and> msg_status message = Running)"
  then show "\<exists>reason. fst (stopGeneration user sessionId messageId w) = Inl (BadRequestError reason)"
    by (auto simp: stopGeneration_def ensureConversation_def getChatMessage_def split: option.splits)
  from found bad show "snd (stopGeneration user sessionId messageId w) = w"
    by (auto simp: stopGeneration_def ensureConversation_def getChatMessage_def split: option.splits)
qed

theorem stopGeneration_guard_witness:
  "sessionRepository_existsById exampleWorld ''S1'' (user_id exampleUser)
   \<and> fst (stopGeneration exampleUser ''S1'' ''M2'' exampleWorld) = Inr ()
   \<and> stopCalls (snd (stopGeneration exampleUser ''S1'' ''M2'' exampleWorld)) = [(''7'', ''W1'')]
   \<and> map msg_status (messageTable (snd (stopGeneration exampleUser ''S1'' ''M2'' exampleWorld)))
       = [Success, Cancelled, Success]
   \<and> fst (stopGeneration exampleUser ''S1'' ''M3'' exampleWorld)
       = Inl (BadRequestError ''Can only stop messages that are currently running'')
   \<and> snd (stopGeneration exampleUser ''S1'' ''M3'' exampleWorld) = exampleWorld"
proof -
  let ?m2 = "(exampleMessage ''M2'' Ai ''hi'' (Some ''M1''))
           \<lparr>msg_status := Running, msg_executionId := Some 7,
            msg_execution := Some \<lparr>exec_id = ''7'', exec_workflowId = ''W1''\<rparr>\<rparr>"
  let ?m3 = "(exampleMessage ''M3'' Ai ''hey'' (Some ''M1''))
           \<lparr>msg_executionId := Some 8,
            msg_execution := Some \<lparr>exec_id = ''8'', exec_workflowId = ''W1''\<rparr>\<rparr>"
  have ok2: "msg_type ?m2 = Ai \<and> truthyNumber (msg_executionId ?m2)
         \<and> msg_execution ?m2 = Some \<lparr>exec_id = ''7'', exec_workflowId = ''W1''\<rparr>
         \<and> msg_status ?m2 = Running"
    by (simp add: exampleMessage_def truthyNumber_def)
  have bad3: "\<not> (msg_type ?m3 = Ai \<and> truthyNumber (msg_executionId ?m3)
              \<and> msg_execution ?m3 \<noteq> None \<and> msg_status ?m3 = Running)"
    by (simp add: exampleMessage_def)
  from stopGeneration_guard[where w=exampleWorld and user=exampleUser and sessionId="''S1''"
      and messageId="''M2''" and message="?m2"
      and execution="\<lparr>exec_id = ''7'', exec_workflowId = ''W1''\<rparr>"]
    exampleWorld_lookup(1,2) ok2
  have r2: "fst (stopGeneration exampleUser ''S1'' ''M2'' exampleWorld) = Inr ()"
    and w2: "snd (stopGeneration exampleUser ''S1'' ''M2'' exampleWorld)
        = exampleWorld\<lparr>messageTable := map (\<lambda>m. if msg_id m = ''M2'' then m\<lparr>msg_status := Cancelled\<rparr> else m)
                                    (messageTable exampleWorld),
                 stopCalls := stopCalls exampleWorld @ [(exec_id \<lparr>exec_id = ''7'', exec_workflowId = ''W1''\<rparr>,
                     exec_workflowId \<lparr>exec_id = ''7'', exec_workflowId = ''W1''\<rparr>)]\<rparr>"
    by blast+
  from stopGeneration_guard[where w=exampleWorld and user=exampleUser and sessionId="''S1''"
      and messageId="''M3''" and message="?m3"]
    exampleWorld_lookup(1,3) bad3
  have w3: "snd (stopGeneration exampleUser ''S1'' ''M3'' exampleWorld) = exampleWorld"
    by blast
  have r3: "fst (stopGeneration exampleUser ''S1'' ''M3'' exampleWorld)
       = Inl (BadRequestError ''Can only stop messages that are currently running'')"
    using exampleWorld_lookup(1,3)
    by (simp add: stopGeneration_def ensureConversation_def getChatMessage_def exampleMessage_def
        truthyNumber_def)
  show ?thesis
    unfolding w2 using r2 r3 w3 exampleWorld_lookup(1)
    by (simp add: exampleWorld_def exampleMessage_def)
qed

section \<open>Properties of editMessage on an AI message\<close>

lemma rollback_same [simp]: "rollback w w = w"
  by (simp add: rollback_def)

lemma cleanupAttachments_none [simp]: "cleanupAttachments env [] w = w"
  by (simp add: cleanupAttachments_def)

text \<open>
  C7 (as amended): for an edit of an AI message, when the model sent with the request is
  the hosted-workflow kind the call is rejected as unsupported and the state is unchanged;
  otherwise the call succeeds and the only change is the content of the rows with the
  edited id: no row is added, no attachment stored, nothing broadcast, no reply prepared,
  no execution launched or resumed.
\<close>

theorem editMessage_ai:
  assumes "getChatSession w user (ep_sessionId payload) = Some session"
    and "getChatMessage w (ses_id session) (ep_editId payload) = Inr messageToEdit"
    and "msg_type messageToEdit = Ai"
  shows "(provider (ep_model payload) = N8n \<longrightarrow>
           editMessage env user payload executionMetadata w
             = (Inl (BadRequestError ''Editing AI messages with n8n workflow agents is not supported''), w))
       \<and> (provider (ep_model payload) \<noteq> N8n \<longrightarrow>
           editMessage env user payload executionMetadata w
             = (Inr (), w\<lparr>messageTable :=
                            map (\<lambda>m. if msg_id m = ep_editId payload
                                      then m\<lparr>msg_content := ep_message payload\<rparr> else m)
                                (messageTable w)\<rparr>)
           \<and> length (messageTable (snd (editMessage env user payload executionMetadata w)))
               = length (messageTable w)
           \<and> attachmentStore (snd (editMessage env user payload executionMetadata w)) = attachmentStore w
           \<and> humanMessageBroadcasts (snd (editMessage env user payload executionMetadata w))
               = humanMessageBroadcasts w
           \<and> messageEditBroadcasts (snd (editMessage env user payload executionMetadata w))
               = messageEditBroadcasts w
           \<and> replyPreparations (snd (editMessage env user payload executionMetadata w))
               = replyPreparations w
           \<and> launches (snd (editMessage env user payload executionMetadata w)) = launches w
           \<and> resumes (snd (editMessage env user payload executionMetadata w)) = resumes w)"
proof (cases "provider (ep_model payload) = N8n")
  case True
  then show ?thesis using assms
    by (simp add: editMessage_def editMessage_transaction_def Let_def)
next
  case False
  then have "editMessage env user payload executionMetadata w
             = (Inr (), w\<lparr>messageTable :=
                            map (\<lambda>m. if msg_id m = ep_editId payload
                                      then m\<lparr>msg_content := ep_message payload\<rparr> else m)
                                (messageTable w)\<rparr>)"
    using assms
    by (simp add: editMessage_def editMessage_transaction_def Let_def
        messageRepository_updateChatMessage_def)
  then show ?thesis using False by simp
qed

text \<open>
  C7 as stated fails: in a session whose provider is the hosted-workflow kind, an edit of an
  AI message whose request names a base model is accepted and overwrites the content.
\<close>

theorem editMessage_ai_session_provider:
  "map_option ses_provider (getChatSession exampleWorld exampleUser ''S1'') = Some N8n
   \<and> fst (editMessage exampleEnv exampleUser exampleAiEdit ''meta'' exampleWorld) = Inr ()
   \<and> map msg_content (messageTable (snd (editMessage exampleEnv exampleUser exampleAiEdit ''meta''
        exampleWorld))) = [''hello'', ''hi'', ''edited'']"
proof -
  have s: "getChatSession exampleWorld exampleUser (ep_sessionId exampleAiEdit)
     = Some ((exampleSession ''S1'' N8n)\<lparr>ses_messages := Some (messageTable exampleWorld)\<rparr>)"
    using exampleWorld_session by (simp add: exampleAiEdit_def)
  have m: "getChatMessage exampleWorld ''S1'' (ep_editId exampleAiEdit)
     = Inr ((exampleMessage ''M3'' Ai ''hey'' (Some ''M1''))
           \<lparr>msg_executionId := Some 8,
            msg_execution := Some \<lparr>exec_id = ''8'', exec_workflowId = ''W1''\<rparr>\<rparr>)"
    using exampleWorld_lookup(3) by (simp add: getChatMessage_def exampleAiEdit_def)
  have run: "editMessage exampleEnv exampleUser exampleAiEdit ''meta'' exampleWorld
      = (Inr (), exampleWorld\<lparr>messageTable :=
                            map (\<lambda>m. if msg_id m = ''M3''
                                      then m\<lparr>msg_content := ''edited''\<rparr> else m)
                                (messageTable exampleWorld)\<rparr>)"
    using s m
    by (simp add: editMessage_def editMessage_transaction_def Let_def exampleSession_def
        messageRepository_updateChatMessage_def exampleAiEdit_def exampleMessage_def)
  show ?thesis
    unfolding run using exampleWorld_session
    by (simp add: exampleSession_def exampleWorld_def exampleMessage_def)
qed

theorem editMessage_ai_witness:
  "getChatSession exampleWorld exampleUser (ep_sessionId exampleAiEdit)
     = Some ((exampleSession ''S1'' N8n)\<lparr>ses_messages := Some (messageTable exampleWorld)\<rparr>)
   \<and> provider (ep_model exampleAiEdit) \<noteq> N8n
   \<and> fst (editMessage exampleEnv exampleUser exampleAiEdit ''meta'' exampleWorld) = Inr ()
   \<and> length (messageTable (snd (editMessage exampleEnv exampleUser exampleAiEdit ''meta'' exampleWorld))) = 3
   \<and> editMessage exampleEnv exampleUser (exampleAiEdit\<lparr>ep_model := N8nModel ''W1''\<rparr>) ''meta'' exampleWorld
       = (Inl (BadRequestError ''Editing AI messages with n8n workflow agents is not supported''),
          exampleWorld)"
proof -
  let ?session = "(exampleSession ''S1'' N8n)\<lparr>ses_messages := Some (messageTable exampleWorld)\<rparr>"
  let ?m3 = "(exampleMessage ''M3'' Ai ''hey'' (Some ''M1''))
           \<lparr>msg_executionId := Some 8,
            msg_execution := Some \<lparr>exec_id = ''8'', exec_workflowId = ''W1''\<rparr>\<rparr>"
  have s: "getChatSession exampleWorld exampleUser (ep_sessionId exampleAiEdit) = Some ?session"
    using exampleWorld_session by (simp add: exampleAiEdit_def)
  have m: "getChatMessage exampleWorld (ses_id ?session) (ep_editId exampleAiEdit) = Inr ?m3"
    using exampleWorld_lookup(3)
    by (simp add: getChatMessage_def exampleAiEdit_def exampleSession_def)
  have t: "msg_type ?m3 = Ai" by (simp add: exampleMessage_def)
  have p: "provider (ep_model exampleAiEdit) \<noteq> N8n" by (simp add: exampleAiEdit_def)
  have s': "getChatSession exampleWorld exampleUser
              (ep_sessionId (exampleAiEdit\<lparr>ep_model := N8nModel ''W1''\<rparr>)) = Some ?session"
    using s by simp
  have m': "getChatMessage exampleWorld (ses_id ?session)
              (ep_editId (exampleAiEdit\<lparr>ep_model := N8nModel ''W1''\<rparr>)) = Inr ?m3"
    using m by simp
  have len: "length (messageTable exampleWorld) = 3" by (simp add: exampleWorld_def)
  from editMessage_ai[OF s m t, of exampleEnv "''meta''"] p len
    editMessage_ai[OF s' m' t, of exampleEnv "''meta''"] s
  show ?thesis by simp
qed



section \<open>The messages of a session as a mapping\<close>

lemma foldl_fmupd_lookup:
  "fmlookup (foldl (\<lambda>acc (k, v). fmupd k v acc) init entries) k
   = (case map_of (rev entries) k of None \<Rightarrow> fmlookup init k | Some v \<Rightarrow> Some v)"
proof (induction entries arbitrary: init)
  case Nil
  then show ?case by simp
next
  case (Cons e es)
  obtain k' v' where e: "e = (k', v')" by (cases e)
  show ?case
    by (simp add: Cons.IH e map_add_def split: option.splits)
qed

lemma fromEntries_lookup: "fmlookup (fromEntries entries) k = map_of (rev entries) k"
  by (simp add: fromEntries_def foldl_fmupd_lookup split: option.splits)

lemma byId_lookup_Some:
  assumes "fmlookup (fromEntries (map (\<lambda>m. (msg_id m, m)) ms)) k = Some m"
  shows "msg_id m = k \<and> m \<in> set ms"
proof -
  from assms have "(k, m) \<in> set (rev (map (\<lambda>m. (msg_id m, m)) ms))"
    by (simp only: fromEntries_lookup) (rule map_of_SomeD)
  then show ?thesis by auto
qed

lemma byId_lookup_distinct:
  assumes "distinct (map msg_id ms)" and "m \<in> set ms"
  shows "fmlookup (fromEntries (map (\<lambda>m. (msg_id m, m)) ms)) (msg_id m) = Some m"
proof -
  have "distinct (map fst (rev (map (\<lambda>m. (msg_id m, m)) ms)))"
    using assms(1) by (simp add: rev_map[symmetric] comp_def)
  moreover have "(msg_id m, m) \<in> set (rev (map (\<lambda>m. (msg_id m, m)) ms))"
    using assms(2) by auto
  ultimately show ?thesis
    by (simp only: fromEntries_lookup) (rule map_of_is_SomeI)
qed

lemma sessionMessages_lookup_id:
  "fmlookup (sessionMessages session) k = Some m \<Longrightarrow> msg_id m = k"
  unfolding sessionMessages_def by (drule byId_lookup_Some) simp

section \<open>The history as a chain of the parent relation\<close>

lemma history_chain_facts:
  "distinct (historyIds messages t)
   \<and> parentLinked messages (historyIds messages t)
   \<and> (truthy t \<longrightarrow> historyIds messages t \<noteq> [] \<and> last (historyIds messages t) = the t)"
proof (cases "truthy t")
  case False
  then show ?thesis by (simp add: historyIds_def)
next
  case True
  have inv: "distinct (historyLoop messages {} [] t)
       \<and> parentLinked messages (historyLoop messages {} [] t)
       \<and> (\<exists>pre. historyLoop messages {} [] t = pre @ [])
       \<and> (historyLoop messages {} [] t \<noteq> [] \<longrightarrow>
            stopReason messages (historyLoop messages {} [] t) \<noteq> None)
       \<and> ([] = [] \<and> truthy t \<longrightarrow>
            historyLoop messages {} [] t \<noteq> []
            \<and> last (historyLoop messages {} [] t) = the t)"
    using historyLoop_invariant[of "{}" "[]" messages t] by simp
  have ids: "historyIds messages t = historyLoop messages {} [] t"
    using True by (simp add: historyIds_def)
  show ?thesis using inv True unfolding ids by simp
qed

lemma history_entries:
  "buildMessageHistory messages t
   = concat (map (\<lambda>i. case propertyLookup messages i of None \<Rightarrow> [] | Some v \<Rightarrow> [v])
               (historyIds messages t))"
  by (simp add: buildMessageHistory_def historyIds_def)

lemma history_members:
  assumes "MessageValue m \<in> set (buildMessageHistory messages t)"
  shows "\<exists>i \<in> set (historyIds messages t). fmlookup messages i = Some m"
  using assms unfolding history_entries
  by (auto simp: propertyLookup_def split: option.splits if_splits)

lemma parentLinked_reaches_last:
  "parentLinked messages ids \<Longrightarrow> x \<in> set ids \<Longrightarrow> (x, last ids) \<in> (parentRelation messages)\<^sup>*"
proof (induction messages ids arbitrary: x rule: parentLinked.induct)
  case (1 messages older newer rest)
  from "1.prems"(1) have step: "(older, newer) \<in> parentRelation messages"
    and pl: "parentLinked messages (newer # rest)"
    by (auto simp: parentRelation_def split: option.splits)
  have newer: "(newer, last (newer # rest)) \<in> (parentRelation messages)\<^sup>*"
    using "1.IH"[OF pl, of newer] by simp
  show ?case
  proof (cases "x = older")
    case True
    with step newer show ?thesis by (simp add: converse_rtrancl_into_rtrancl)
  next
    case False
    with "1.prems"(2) have "x \<in> set (newer # rest)" by simp
    from "1.IH"[OF pl this] show ?thesis by simp
  qed
next
  case (2 messages x)
  then show ?case by simp
next
  case (3 messages)
  then show ?case by simp
qed

lemma history_ids_are_ancestors:
  assumes "fmlookup messages tid = Some T"
    and "i \<in> set (historyIds messages (msg_previousMessageId T))"
  shows "(i, tid) \<in> (parentRelation messages)\<^sup>+"
proof -
  let ?t = "msg_previousMessageId T"
  from assms(2) have tr: "truthy ?t" by (auto simp: historyIds_def split: if_splits)
  then obtain p where p: "?t = Some p" by (auto simp: truthy_def split: option.splits)
  from history_chain_facts[of messages ?t] tr p
  have pl: "parentLinked messages (historyIds messages ?t)"
    and last: "last (historyIds messages ?t) = p" by simp_all
  from parentLinked_reaches_last[OF pl assms(2)] last
  have "(i, p) \<in> (parentRelation messages)\<^sup>*" by simp
  moreover have "(p, tid) \<in> parentRelation messages"
    using assms(1) p by (auto simp: parentRelation_def)
  ultimately show ?thesis by (rule rtrancl_into_trancl1)
qed

lemma history_excludes_descendants:
  assumes look: "fmlookup (sessionMessages session) (msg_id T) = Some T"
    and acyc: "acyclic (parentRelation (sessionMessages session))"
    and mem: "MessageValue m \<in> set (buildMessageHistory (sessionMessages session)
                                   (msg_previousMessageId T))"
  shows "msg_id m \<noteq> msg_id T
       \<and> (msg_id T, msg_id m) \<notin> (parentRelation (sessionMessages session))\<^sup>+"
proof -
  let ?R = "parentRelation (sessionMessages session)"
  from history_members[OF mem] obtain i where
    i: "i \<in> set (historyIds (sessionMessages session) (msg_previousMessageId T))"
    and li: "fmlookup (sessionMessages session) i = Some m" by blast
  from sessionMessages_lookup_id[OF li] have id: "msg_id m = i" .
  from history_ids_are_ancestors[OF look i] have anc: "(i, msg_id T) \<in> ?R\<^sup>+" .
  have "i \<noteq> msg_id T" using anc acyc by (auto simp: acyclic_def)
  moreover have "(msg_id T, i) \<notin> ?R\<^sup>+"
  proof
    assume "(msg_id T, i) \<in> ?R\<^sup>+"
    with anc have "(i, i) \<in> ?R\<^sup>+" by (rule trancl_trans)
    with acyc show False by (simp add: acyclic_def)
  qed
  ultimately show ?thesis using id by simp
qed

lemma session_message_lookup:
  assumes s: "getChatSession w user sessionId = Some session"
    and m: "getChatMessage w (ses_id session) messageId = Inr T"
    and d: "distinct (map msg_id (messageTable w))"
  shows "fmlookup (sessionMessages session) (msg_id T) = Some T"
proof -
  from s obtain row where row: "find (\<lambda>s. ses_id s = sessionId \<and> ses_ownerId s = user_id user)
        (sessionTable w) = Some row"
    and session: "session = row\<lparr>ses_messages :=
          Some (filter (\<lambda>m. msg_sessionId m = sessionId) (messageTable w))\<rparr>"
    by (auto simp: getChatSession_def sessionRepository_getOneById_def split: option.splits)
  from row have "ses_id row = sessionId" by (auto simp: find_Some_iff)
  with session have sid: "ses_id session = sessionId" by simp
  from m have "find (\<lambda>m. msg_id m = messageId \<and> msg_sessionId m = ses_id session) (messageTable w)
        = Some T"
    by (auto simp: getChatMessage_def messageRepository_getOneById_def split: option.splits)
  then have T: "T \<in> set (messageTable w)" "msg_sessionId T = sessionId"
    using sid by (auto simp: find_Some_iff)
  let ?ms = "filter (\<lambda>m. msg_sessionId m = sessionId) (messageTable w)"
  have "distinct (map msg_id ?ms)" using d by (rule distinct_map_filter)
  moreover have "T \<in> set ?ms" using T by simp
  ultimately have "fmlookup (fromEntries (map (\<lambda>m. (msg_id m, m)) ?ms)) (msg_id T) = Some T"
    by (rule byId_lookup_distinct)
  then show ?thesis using session by (simp add: sessionMessages_def)
qed



section \<open>Frame facts of the orchestrator's steps\<close>

lemma prepareReplyWorkflow_world:
  "snd (prepareReplyWorkflow env user sessionId credentials model history input tools tz meta w)
   = w\<lparr>replyPreparations := replyPreparations w @ [(model, history, input)]\<rparr>"
  by (simp add: prepareReplyWorkflow_def Let_def
      split: ChatHubConversationModel.splits option.splits sum.splits)

lemma storeMessageAttachments_cases:
  assumes "storeMessageAttachments env sessionId messageId attachments w = (r, w')"
  shows "(\<exists>e. r = Inl e \<and> w' = w) \<or>
   (\<exists>stored. r = Inr stored
       \<and> storeMessageAttachments_outcome env sessionId messageId attachments = Inr stored
       \<and> w' = w\<lparr>attachmentStore := attachmentStore w @ stored\<rparr>)"
proof (cases "storeMessageAttachments_outcome env sessionId messageId attachments")
  case (Inl e)
  have "storeMessageAttachments env sessionId messageId attachments w = (Inl e, w)"
    unfolding storeMessageAttachments_def Inl by simp
  with assms have "r = Inl e \<and> w' = w" by simp
  then show ?thesis by blast
next
  case (Inr stored)
  have "storeMessageAttachments env sessionId messageId attachments w
          = (Inr stored, w\<lparr>attachmentStore := attachmentStore w @ stored\<rparr>)"
    unfolding storeMessageAttachments_def Inr by simp
  with assms have "r = Inr stored \<and> w' = w\<lparr>attachmentStore := attachmentStore w @ stored\<rparr>"
    by simp
  with Inr show ?thesis by blast
qed

lemma createHumanMessage_cases:
  "messageRepository_createHumanMessage sessionId messageId message attachments prev revOf w = (r, w') \<Longrightarrow>
   (\<exists>e. r = Inl e \<and> w' = w) \<or>
   (r = Inr (newHumanMessage sessionId messageId message attachments prev revOf)
       \<and> w' = w\<lparr>messageTable := messageTable w @
                    [newHumanMessage sessionId messageId message attachments prev revOf]\<rparr>)"
  by (auto simp: messageRepository_createHumanMessage_def Let_def split: if_splits)

lemma cleanupAttachments_tables:
  "messageTable (cleanupAttachments env attachments w) = messageTable w"
  "sessionTable (cleanupAttachments env attachments w) = sessionTable w"
  "replyPreparations (cleanupAttachments env attachments w) = replyPreparations w"
  by (auto simp: cleanupAttachments_def deleteAttachments_def Let_def split: option.splits)

section \<open>Properties of editMessage on a human message\<close>

lemma human_edit_transaction:
  assumes s: "getChatSession w user (ep_sessionId payload) = Some session"
    and m: "getChatMessage w (ses_id session) (ep_editId payload) = Inr messageToEdit"
    and h: "msg_type messageToEdit = Human"
    and run: "editMessage_transaction env user payload tz meta w = (r, newStored, w')"
  shows "(\<exists>e. r = Inl e) \<or>
     ((if ep_newAttachments payload = [] then newStored = []
        else storeMessageAttachments_outcome env (ep_sessionId payload) (ep_messageId payload)
               (ep_newAttachments payload) = Inr newStored)
      \<and> (\<exists>workflow. r = Inr (Some workflow,
              keepAttachments (case msg_attachments messageToEdit of None \<Rightarrow> [] | Some as \<Rightarrow> as)
                 (ep_keepAttachmentIndices payload) @ newStored))
      \<and> messageTable w' = messageTable w @
           [newHumanMessage (ep_sessionId payload) (ep_messageId payload) (ep_message payload)
              (keepAttachments (case msg_attachments messageToEdit of None \<Rightarrow> [] | Some as \<Rightarrow> as)
                 (ep_keepAttachmentIndices payload) @ newStored)
              (msg_previousMessageId messageToEdit)
              (Some (case msg_revisionOfMessageId messageToEdit of
                       None \<Rightarrow> msg_id messageToEdit | Some r \<Rightarrow> r))]
      \<and> replyPreparations w' = replyPreparations w @
           [(ep_model payload,
             buildMessageHistory (sessionMessages session) (msg_previousMessageId messageToEdit),
             \<lparr>in_message = ep_message payload,
              in_attachments =
                keepAttachments (case msg_attachments messageToEdit of None \<Rightarrow> [] | Some as \<Rightarrow> as)
                  (ep_keepAttachmentIndices payload) @ newStored\<rparr>)])"
proof -
  let ?kept = "keepAttachments (case msg_attachments messageToEdit of None \<Rightarrow> [] | Some as \<Rightarrow> as)
                 (ep_keepAttachmentIndices payload)"
  let ?revOf = "Some (case msg_revisionOfMessageId messageToEdit of
                       None \<Rightarrow> msg_id messageToEdit | Some r \<Rightarrow> r)"
  let ?hist = "buildMessageHistory (sessionMessages session) (msg_previousMessageId messageToEdit)"
  obtain r1 w1 where st: "(if length (ep_newAttachments payload) > 0
                           then storeMessageAttachments env (ep_sessionId payload)
                                  (ep_messageId payload) (ep_newAttachments payload) w
                           else (Inr [], w)) = (r1, w1)"
    by (cases "(if length (ep_newAttachments payload) > 0
                           then storeMessageAttachments env (ep_sessionId payload)
                                  (ep_messageId payload) (ep_newAttachments payload) w
                           else (Inr [], w))") auto
  show ?thesis
  proof (cases r1)
    case (Inl e)
    with run s m h st have "r = Inl e"
      by (simp add: editMessage_transaction_def Let_def)
    then show ?thesis by blast
  next
    case (Inr stored)
    have stored: "(if ep_newAttachments payload = [] then stored = []
        else storeMessageAttachments_outcome env (ep_sessionId payload) (ep_messageId payload)
               (ep_newAttachments payload) = Inr stored)"
      and w1: "messageTable w1 = messageTable w" "replyPreparations w1 = replyPreparations w"
      using st Inr
        storeMessageAttachments_cases[of env "ep_sessionId payload" "ep_messageId payload"
          "ep_newAttachments payload" w r1 w1]
      by (auto split: if_splits)
    obtain r2 w2 where cr: "messageRepository_createHumanMessage (ep_sessionId payload)
          (ep_messageId payload) (ep_message payload) (?kept @ stored)
          (msg_previousMessageId messageToEdit) ?revOf w1 = (r2, w2)"
      by (cases "messageRepository_createHumanMessage (ep_sessionId payload)
          (ep_messageId payload) (ep_message payload) (?kept @ stored)
          (msg_previousMessageId messageToEdit) ?revOf w1") auto
    show ?thesis
    proof (cases r2)
      case (Inl e)
      with run s m h st Inr cr have "r = Inl e"
        by (simp add: editMessage_transaction_def Let_def)
      then show ?thesis by blast
    next
      case created: (Inr row)
      from createHumanMessage_cases[OF cr] created
      have w2: "w2 = w1\<lparr>messageTable := messageTable w1 @
                    [newHumanMessage (ep_sessionId payload) (ep_messageId payload)
                       (ep_message payload) (?kept @ stored)
                       (msg_previousMessageId messageToEdit) ?revOf]\<rparr>"
        by auto
      let ?input = "\<lparr>in_message = ep_message payload, in_attachments = ?kept @ stored\<rparr>"
      obtain r3 w3 where pr: "prepareReplyWorkflow env user (ep_sessionId payload)
            (ep_credentials payload) (ep_model payload) ?hist ?input (ses_tools session) tz meta w2
          = (r3, w3)"
        by (cases "prepareReplyWorkflow env user (ep_sessionId payload)
            (ep_credentials payload) (ep_model payload) ?hist ?input (ses_tools session) tz meta w2")
          auto
      have w3: "w3 = w2\<lparr>replyPreparations := replyPreparations w2 @ [(ep_model payload, ?hist, ?input)]\<rparr>"
        using prepareReplyWorkflow_world[of env user "ep_sessionId payload" "ep_credentials payload"
            "ep_model payload" ?hist ?input "ses_tools session" tz meta w2] pr by simp
      show ?thesis
      proof (cases r3)
        case (Inl e)
        with run s m h st Inr cr created pr have "r = Inl e"
          by (simp add: editMessage_transaction_def Let_def)
        then show ?thesis by blast
      next
        case wf: (Inr workflow)
        from run s m h st Inr cr created pr wf
        have res: "r = Inr (Some workflow, ?kept @ stored)" "newStored = stored" "w' = w3"
          by (auto simp add: editMessage_transaction_def Let_def)
        show ?thesis
          using res stored w1 w2 w3 by simp
      qed
    qed
  qed
qed


section \<open>The revision created by an edit of a human message\<close>


lemma human_edit_failure:
  assumes s: "getChatSession w user (ep_sessionId payload) = Some session"
    and m: "getChatMessage w (ses_id session) (ep_editId payload) = Inr messageToEdit"
    and h: "msg_type messageToEdit = Human"
    and f: "fst (editMessage env user payload executionMetadata w) \<noteq> Inr ()"
  shows "messageTable (snd (editMessage env user payload executionMetadata w)) = messageTable w"
proof -
  let ?tz = "case ep_timeZone payload of None \<Rightarrow> timezone env | Some z \<Rightarrow> z"
  obtain r newStored w' where run:
    "editMessage_transaction env user payload ?tz executionMetadata w = (r, newStored, w')"
    by (cases "editMessage_transaction env user payload ?tz executionMetadata w") auto
  show ?thesis
  proof (cases r)
    case (Inl e)
    then show ?thesis using run
      by (simp add: editMessage_def Let_def cleanupAttachments_tables rollback_def)
  next
    case (Inr res)
    then show ?thesis using run f
      by (cases res) (auto simp: editMessage_def Let_def split: option.splits)
  qed
qed

lemma human_edit_success:
  assumes s: "getChatSession w user (ep_sessionId payload) = Some session"
    and m: "getChatMessage w (ses_id session) (ep_editId payload) = Inr messageToEdit"
    and h: "msg_type messageToEdit = Human"
    and succ: "fst (editMessage env user payload executionMetadata w) = Inr ()"
  shows "(\<exists>newStored.
         (if ep_newAttachments payload = [] then newStored = []
          else storeMessageAttachments_outcome env (ep_sessionId payload) (ep_messageId payload)
                 (ep_newAttachments payload) = Inr newStored)
       \<and> messageTable (snd (editMessage env user payload executionMetadata w))
           = messageTable w @
             [newHumanMessage (ep_sessionId payload) (ep_messageId payload) (ep_message payload)
                (keepAttachments (case msg_attachments messageToEdit of None \<Rightarrow> [] | Some as \<Rightarrow> as)
                   (ep_keepAttachmentIndices payload) @ newStored)
                (msg_previousMessageId messageToEdit)
                (Some (case msg_revisionOfMessageId messageToEdit of
                         None \<Rightarrow> msg_id messageToEdit | Some r \<Rightarrow> r))]
       \<and> replyPreparations (snd (editMessage env user payload executionMetadata w))
           = replyPreparations w @
             [(ep_model payload,
               buildMessageHistory (sessionMessages session) (msg_previousMessageId messageToEdit),
               \<lparr>in_message = ep_message payload,
                in_attachments =
                  keepAttachments (case msg_attachments messageToEdit of None \<Rightarrow> [] | Some as \<Rightarrow> as)
                    (ep_keepAttachmentIndices payload) @ newStored\<rparr>)])"
proof -
  let ?tz = "case ep_timeZone payload of None \<Rightarrow> timezone env | Some z \<Rightarrow> z"
  obtain r newStored w' where run:
    "editMessage_transaction env user payload ?tz executionMetadata w = (r, newStored, w')"
    by (cases "editMessage_transaction env user payload ?tz executionMetadata w") auto
  note tr = human_edit_transaction[OF s m h run]
  have "\<not> (\<exists>e. r = Inl e)"
  proof
    assume "\<exists>e. r = Inl e"
    then obtain e where "r = Inl e" by blast
    with run have "fst (editMessage env user payload executionMetadata w) = Inl e"
      by (simp add: editMessage_def Let_def)
    with succ show False by simp
  qed
  with tr obtain workflow where
    st: "(if ep_newAttachments payload = [] then newStored = []
      else storeMessageAttachments_outcome env (ep_sessionId payload) (ep_messageId payload)
             (ep_newAttachments payload) = Inr newStored)"
    and r: "r = Inr (Some workflow,
            keepAttachments (case msg_attachments messageToEdit of None \<Rightarrow> [] | Some as \<Rightarrow> as)
               (ep_keepAttachmentIndices payload) @ newStored)"
    and mt: "messageTable w' = messageTable w @
         [newHumanMessage (ep_sessionId payload) (ep_messageId payload) (ep_message payload)
            (keepAttachments (case msg_attachments messageToEdit of None \<Rightarrow> [] | Some as \<Rightarrow> as)
               (ep_keepAttachmentIndices payload) @ newStored)
            (msg_previousMessageId messageToEdit)
            (Some (case msg_revisionOfMessageId messageToEdit of
                     None \<Rightarrow> msg_id messageToEdit | Some r \<Rightarrow> r))]"
    and rp: "replyPreparations w' = replyPreparations w @
         [(ep_model payload,
           buildMessageHistory (sessionMessages session) (msg_previousMessageId messageToEdit),
           \<lparr>in_message = ep_message payload,
            in_attachments =
              keepAttachments (case msg_attachments messageToEdit of None \<Rightarrow> [] | Some as \<Rightarrow> as)
                (ep_keepAttachmentIndices payload) @ newStored\<rparr>)]"
    by blast
  have tables: "messageTable (snd (editMessage env user payload executionMetadata w)) = messageTable w'"
    "replyPreparations (snd (editMessage env user payload executionMetadata w)) = replyPreparations w'"
    using run r by (simp_all add: editMessage_def Let_def)
  show ?thesis
    using st mt rp tables by (intro exI[of _ newStored]) simp
qed

text \<open>
  C6 (as amended): an edit of a human message that returns adds exactly one row to the
  message table, a human message whose \<^verbatim>\<open>revisionOfMessageId\<close> is the edited message's own
  \<^verbatim>\<open>revisionOfMessageId\<close> when that is set and the edited message's id otherwise, whose
  attachments are the original attachments selected by \<^verbatim>\<open>keepAttachmentIndices\<close> (an index
  outside the array selects nothing) followed by the newly stored ones, and whose parent is
  the edited message's parent; the reply is prepared once, from the history that
  \<^verbatim>\<open>buildMessageHistory\<close> builds from the edited message's \<^verbatim>\<open>previousMessageId\<close>. When
  the call fails, the table is as before. When message ids are unique and the parent links
  of the session are acyclic, no message of that history is the edited message or one of
  its descendants.
\<close>

theorem editMessage_human:
  assumes s: "getChatSession w user (ep_sessionId payload) = Some session"
    and m: "getChatMessage w (ses_id session) (ep_editId payload) = Inr messageToEdit"
    and h: "msg_type messageToEdit = Human"
  shows "(fst (editMessage env user payload executionMetadata w) = Inr () \<longrightarrow>
      (\<exists>newStored.
         (if ep_newAttachments payload = [] then newStored = []
          else storeMessageAttachments_outcome env (ep_sessionId payload) (ep_messageId payload)
                 (ep_newAttachments payload) = Inr newStored)
       \<and> messageTable (snd (editMessage env user payload executionMetadata w))
           = messageTable w @
             [newHumanMessage (ep_sessionId payload) (ep_messageId payload) (ep_message payload)
                (keepAttachments (case msg_attachments messageToEdit of None \<Rightarrow> [] | Some as \<Rightarrow> as)
                   (ep_keepAttachmentIndices payload) @ newStored)
                (msg_previousMessageId messageToEdit)
                (Some (case msg_revisionOfMessageId messageToEdit of
                         None \<Rightarrow> msg_id messageToEdit | Some r \<Rightarrow> r))]
       \<and> replyPreparations (snd (editMessage env user payload executionMetadata w))
           = replyPreparations w @
             [(ep_model payload,
               buildMessageHistory (sessionMessages session) (msg_previousMessageId messageToEdit),
               \<lparr>in_message = ep_message payload,
                in_attachments =
                  keepAttachments (case msg_attachments messageToEdit of None \<Rightarrow> [] | Some as \<Rightarrow> as)
                    (ep_keepAttachmentIndices payload) @ newStored\<rparr>)]))
    \<and> (fst (editMessage env user payload executionMetadata w) \<noteq> Inr () \<longrightarrow>
         messageTable (snd (editMessage env user payload executionMetadata w)) = messageTable w)
    \<and> (distinct (map msg_id (messageTable w))
        \<and> acyclic (parentRelation (sessionMessages session)) \<longrightarrow>
         (\<forall>x. MessageValue x \<in> set (buildMessageHistory (sessionMessages session)
                                       (msg_previousMessageId messageToEdit)) \<longrightarrow>
            msg_id x \<noteq> msg_id messageToEdit
            \<and> (msg_id messageToEdit, msg_id x) \<notin> (parentRelation (sessionMessages session))\<^sup>+))"
proof -
  have fail: "fst (editMessage env user payload executionMetadata w) \<noteq> Inr () \<longrightarrow>
         messageTable (snd (editMessage env user payload executionMetadata w)) = messageTable w"
    using human_edit_failure[OF s m h] by blast
  have ok: "fst (editMessage env user payload executionMetadata w) = Inr () \<longrightarrow>
      (\<exists>newStored.
         (if ep_newAttachments payload = [] then newStored = []
          else storeMessageAttachments_outcome env (ep_sessionId payload) (ep_messageId payload)
                 (ep_newAttachments payload) = Inr newStored)
       \<and> messageTable (snd (editMessage env user payload executionMetadata w))
           = messageTable w @
             [newHumanMessage (ep_sessionId payload) (ep_messageId payload) (ep_message payload)
                (keepAttachments (case msg_attachments messageToEdit of None \<Rightarrow> [] | Some as \<Rightarrow> as)
                   (ep_keepAttachmentIndices payload) @ newStored)
                (msg_previousMessageId messageToEdit)
                (Some (case msg_revisionOfMessageId messageToEdit of
                         None \<Rightarrow> msg_id messageToEdit | Some r \<Rightarrow> r))]
       \<and> replyPreparations (snd (editMessage env user payload executionMetadata w))
           = replyPreparations w @
             [(ep_model payload,
               buildMessageHistory (sessionMessages session) (msg_previousMessageId messageToEdit),
               \<lparr>in_message = ep_message payload,
                in_attachments =
                  keepAttachments (case msg_attachments messageToEdit of None \<Rightarrow> [] | Some as \<Rightarrow> as)
                    (ep_keepAttachmentIndices payload) @ newStored\<rparr>)])"
    using human_edit_success[OF s m h] by blast
  have anc: "distinct (map msg_id (messageTable w))
        \<and> acyclic (parentRelation (sessionMessages session)) \<longrightarrow>
         (\<forall>x. MessageValue x \<in> set (buildMessageHistory (sessionMessages session)
                                       (msg_previousMessageId messageToEdit)) \<longrightarrow>
            msg_id x \<noteq> msg_id messageToEdit
            \<and> (msg_id messageToEdit, msg_id x) \<notin> (parentRelation (sessionMessages session))\<^sup>+)"
    using history_excludes_descendants[OF session_message_lookup[OF s m]] by blast
  show ?thesis by (rule conjI[OF ok conjI[OF fail anc]])
qed


lemma conversation_lookup:
  "fmlookup (sessionMessages conversationSession) k = map_of (rev (map (\<lambda>m. (msg_id m, m)) conversationMessages)) k"
  by (simp add: sessionMessages_def conversationSession_def fromEntries_lookup)

lemma conversation_lookups:
  "fmlookup (sessionMessages conversationSession) ''M1'' = Some (exampleMessage ''M1'' Human ''hello'' None)"
  "fmlookup (sessionMessages conversationSession) ''M2'' = Some (exampleMessage ''M2'' Ai ''hi'' (Some ''M1''))"
  "fmlookup (sessionMessages conversationSession) ''M3''
     = Some ((exampleMessage ''M3'' Human ''question'' (Some ''M2''))
        \<lparr>msg_attachments := Some [exampleAttachment ''a.txt'' ''text/plain'',
                                  exampleAttachment ''b.txt'' ''text/plain'']\<rparr>)"
  "fmlookup (sessionMessages conversationSession) ''M4''
     = Some ((exampleMessage ''M4'' Ai ''failed'' (Some ''M3''))\<lparr>msg_status := Error\<rparr>)"
  by (simp_all add: conversation_lookup conversationMessages_def exampleMessage_def)

lemma conversation_session:
  "getChatSession conversationWorld exampleUser ''S1'' = Some conversationSession"
  by (simp add: getChatSession_def sessionRepository_getOneById_def conversationWorld_def
      conversationSession_def exampleSession_def exampleUser_def conversationMessages_def
      exampleMessage_def)

lemma conversation_history_M2:
  "buildMessageHistory (sessionMessages conversationSession) (Some ''M2'')
   = [MessageValue (exampleMessage ''M1'' Human ''hello'' None),
      MessageValue (exampleMessage ''M2'' Ai ''hi'' (Some ''M1''))]"
proof -
  have "historyLoop (sessionMessages conversationSession) {} [] (Some ''M2'') = [''M1'', ''M2'']"
    by (simp add: historyLoop.simps conversation_lookups exampleMessage_def
        previousMessageIdOf_lookup)
  then show ?thesis
    by (simp add: buildMessageHistory_def truthy_def conversation_lookups propertyLookup_def)
qed

lemma conversation_acyclic: "acyclic (parentRelation (sessionMessages conversationSession))"
proof (rule acyclicI_order[where f="\<lambda>i. if i = ''M1'' then (5::nat) else if i = ''M2'' then 4
      else if i = ''M3'' then 3 else if i = ''M4'' then 2 else if i = ''M5'' then 1 else 0"])
  fix a b
  assume "(a, b) \<in> parentRelation (sessionMessages conversationSession)"
  then obtain m where "map_of (rev (map (\<lambda>m. (msg_id m, m)) conversationMessages)) b = Some m"
    and "msg_previousMessageId m = Some a"
    by (auto simp: parentRelation_def conversation_lookup)
  then show "(if b = ''M1'' then (5::nat) else if b = ''M2'' then 4
      else if b = ''M3'' then 3 else if b = ''M4'' then 2 else if b = ''M5'' then 1 else 0)
     < (if a = ''M1'' then (5::nat) else if a = ''M2'' then 4
      else if a = ''M3'' then 3 else if a = ''M4'' then 2 else if a = ''M5'' then 1 else 0)"
    by (auto simp: conversationMessages_def exampleMessage_def split: if_splits)
qed


lemma conversation_message_M3:
  "getChatMessage conversationWorld ''S1'' ''M3''
     = Inr ((exampleMessage ''M3'' Human ''question'' (Some ''M2''))
        \<lparr>msg_attachments := Some [exampleAttachment ''a.txt'' ''text/plain'',
                                  exampleAttachment ''b.txt'' ''text/plain'']\<rparr>)"
  by (simp add: getChatMessage_def messageRepository_getOneById_def conversationWorld_def
      conversationMessages_def exampleMessage_def)

lemma exampleEnv_history:
  "buildConversationHistory exampleEnv
     [MessageValue (exampleMessage ''M1'' Human ''hello'' None),
      MessageValue (exampleMessage ''M2'' Ai ''hi'' (Some ''M1''))]
     \<lparr>llm_provider = ''openai'', llm_model = ''gpt-4''\<rparr> []
   = Inr [\<lparr>rec_type = UserRole, rec_message = PlainText ''hello'', rec_hideFromUI = False\<rparr>,
          \<lparr>rec_type = AiRole, rec_message = PlainText ''hi'', rec_hideFromUI = False\<rparr>]"
  by (simp add: buildConversationHistory_def Let_def exampleMessage_def)

lemma exampleMessage_fields:
  "msg_id (exampleMessage i ty txt prev) = i"
  "msg_sessionId (exampleMessage i ty txt prev) = ''S1''"
  "msg_type (exampleMessage i ty txt prev) = ty"
  "msg_content (exampleMessage i ty txt prev) = txt"
  "msg_previousMessageId (exampleMessage i ty txt prev) = prev"
  "msg_retryOfMessageId (exampleMessage i ty txt prev) = None"
  "msg_revisionOfMessageId (exampleMessage i ty txt prev) = None"
  "msg_attachments (exampleMessage i ty txt prev) = None"
  by (simp_all add: exampleMessage_def)

lemma conversationSession_fields:
  "ses_id conversationSession = ''S1''"
  "ses_tools conversationSession = []"
  by (simp_all add: conversationSession_def exampleSession_def)

lemma exampleHumanEdit_succeeds:
  "fst (editMessage exampleEnv exampleUser exampleHumanEdit ''meta'' conversationWorld) = Inr ()"
proof -
  have store: "storeMessageAttachments exampleEnv ''S1'' ''M6'' [exampleAttachment ''c.txt'' ''text/plain'']
        conversationWorld
      = (Inr [(exampleAttachment ''c.txt'' ''text/plain'')\<lparr>bin_id := Some ''M6/c.txt''\<rparr>],
         conversationWorld\<lparr>attachmentStore := attachmentStore conversationWorld @
            [(exampleAttachment ''c.txt'' ''text/plain'')\<lparr>bin_id := Some ''M6/c.txt''\<rparr>]\<rparr>)"
    by (simp add: storeMessageAttachments_def exampleEnv_def exampleAttachment_fields)
  have nodup: "\<not> list_ex (\<lambda>m. msg_id m = ''M6'') (messageTable conversationWorld)"
    by (simp add: conversationWorld_def conversationMessages_def exampleMessage_def)
  have base: "prepareBaseChatWorkflow exampleEnv = (\<lambda>user sessionId credentials model conversation
        input systemPrompt tools meta. Inr exampleWorkflow)"
    by (simp add: exampleEnv_def)
  have prep: "\<And>input tools tz w. prepareReplyWorkflow exampleEnv exampleUser ''S1'' []
        (BaseLLMModel ''openai'' ''gpt-4'')
        [MessageValue (exampleMessage ''M1'' Human ''hello'' None),
         MessageValue (exampleMessage ''M2'' Ai ''hi'' (Some ''M1''))]
        input tools tz ''meta'' w
      = (Inr exampleWorkflow,
         w\<lparr>replyPreparations := replyPreparations w @
            [(BaseLLMModel ''openai'' ''gpt-4'',
              [MessageValue (exampleMessage ''M1'' Human ''hello'' None),
               MessageValue (exampleMessage ''M2'' Ai ''hi'' (Some ''M1''))],
              input)]\<rparr>)"
    by (simp add: prepareReplyWorkflow_def Let_def exampleEnv_history base)
  have tr: "fst (editMessage_transaction exampleEnv exampleUser exampleHumanEdit ''UTC'' ''meta''
        conversationWorld)
      = Inr (Some exampleWorkflow,
             [exampleAttachment ''b.txt'' ''text/plain'',
              (exampleAttachment ''c.txt'' ''text/plain'')\<lparr>bin_id := Some ''M6/c.txt''\<rparr>])"
    using conversation_session conversation_message_M3 prep
    by (simp add: editMessage_transaction_def Let_def exampleHumanEdit_def
        conversationSession_fields exampleMessage_fields store conversation_history_M2
        messageRepository_createHumanMessage_def nodup keepAttachments_def)
  have tz: "(case ep_timeZone exampleHumanEdit of None \<Rightarrow> timezone exampleEnv | Some z \<Rightarrow> z) = ''UTC''"
    by (simp add: exampleEnv_def exampleHumanEdit_def)
  obtain stored w' where "editMessage_transaction exampleEnv exampleUser exampleHumanEdit ''UTC'' ''meta''
        conversationWorld
      = (Inr (Some exampleWorkflow,
             [exampleAttachment ''b.txt'' ''text/plain'',
              (exampleAttachment ''c.txt'' ''text/plain'')\<lparr>bin_id := Some ''M6/c.txt''\<rparr>]),
         stored, w')"
    using tr
    by (cases "editMessage_transaction exampleEnv exampleUser exampleHumanEdit ''UTC'' ''meta''
        conversationWorld") auto
  then show ?thesis
    unfolding editMessage_def tz by (simp add: Let_def)
qed


lemma cyclic_session:
  "getChatSession cyclicWorld exampleUser ''S1'' = Some cyclicSession"
  by (simp add: getChatSession_def sessionRepository_getOneById_def cyclicWorld_def
      conversationWorld_def cyclicSession_def exampleSession_def exampleUser_def
      cyclicConversation_def exampleMessage_def)

lemma cyclic_message_A:
  "getChatMessage cyclicWorld ''S1'' ''A'' = Inr (exampleMessage ''A'' Human ''hello'' (Some ''B''))"
  by (simp add: getChatMessage_def messageRepository_getOneById_def cyclicWorld_def
      conversationWorld_def cyclicConversation_def exampleMessage_def)

lemma cyclic_session_lookups:
  "fmlookup (sessionMessages cyclicSession) ''A'' = Some (exampleMessage ''A'' Human ''hello'' (Some ''B''))"
  "fmlookup (sessionMessages cyclicSession) ''B'' = Some (exampleMessage ''B'' Ai ''hi'' (Some ''A''))"
  by (simp_all add: sessionMessages_def cyclicSession_def fromEntries_lookup cyclicConversation_def
      exampleMessage_def)

lemma cyclic_history_B:
  "buildMessageHistory (sessionMessages cyclicSession) (Some ''B'')
   = [MessageValue (exampleMessage ''A'' Human ''hello'' (Some ''B'')),
      MessageValue (exampleMessage ''B'' Ai ''hi'' (Some ''A''))]"
proof -
  have "historyLoop (sessionMessages cyclicSession) {} [] (Some ''B'') = [''A'', ''B'']"
    by (simp add: historyLoop.simps cyclic_session_lookups exampleMessage_def
        previousMessageIdOf_lookup)
  then show ?thesis
    by (simp add: buildMessageHistory_def truthy_def cyclic_session_lookups propertyLookup_def)
qed

lemma cyclicSession_fields:
  "ses_id cyclicSession = ''S1''"
  "ses_tools cyclicSession = []"
  by (simp_all add: cyclicSession_def exampleSession_def)

lemma exampleCyclicEdit_succeeds:
  "fst (editMessage exampleEnv exampleUser exampleCyclicEdit ''meta'' cyclicWorld) = Inr ()"
proof -
  have nodup: "\<not> list_ex (\<lambda>m. msg_id m = ''C'') (messageTable cyclicWorld)"
    by (simp add: cyclicWorld_def cyclicConversation_def exampleMessage_def)
  have base: "prepareBaseChatWorkflow exampleEnv = (\<lambda>user sessionId credentials model conversation
        input systemPrompt tools meta. Inr exampleWorkflow)"
    by (simp add: exampleEnv_def)
  have conv: "buildConversationHistory exampleEnv
     [MessageValue (exampleMessage ''A'' Human ''hello'' (Some ''B'')),
      MessageValue (exampleMessage ''B'' Ai ''hi'' (Some ''A''))]
     \<lparr>llm_provider = ''openai'', llm_model = ''gpt-4''\<rparr> []
   = Inr [\<lparr>rec_type = UserRole, rec_message = PlainText ''hello'', rec_hideFromUI = False\<rparr>,
          \<lparr>rec_type = AiRole, rec_message = PlainText ''hi'', rec_hideFromUI = False\<rparr>]"
    by (simp add: buildConversationHistory_def Let_def exampleMessage_def)
  have prep: "\<And>input tools tz w. prepareReplyWorkflow exampleEnv exampleUser ''S1'' []
        (BaseLLMModel ''openai'' ''gpt-4'')
        [MessageValue (exampleMessage ''A'' Human ''hello'' (Some ''B'')),
         MessageValue (exampleMessage ''B'' Ai ''hi'' (Some ''A''))]
        input tools tz ''meta'' w
      = (Inr exampleWorkflow,
         w\<lparr>replyPreparations := replyPreparations w @
            [(BaseLLMModel ''openai'' ''gpt-4'',
              [MessageValue (exampleMessage ''A'' Human ''hello'' (Some ''B'')),
               MessageValue (exampleMessage ''B'' Ai ''hi'' (Some ''A''))],
              input)]\<rparr>)"
    by (simp add: prepareReplyWorkflow_def Let_def conv base)
  have tr: "fst (editMessage_transaction exampleEnv exampleUser exampleCyclicEdit ''UTC'' ''meta''
        cyclicWorld)
      = Inr (Some exampleWorkflow, [])"
    using cyclic_session cyclic_message_A prep
    by (simp add: editMessage_transaction_def Let_def exampleCyclicEdit_def
        cyclicSession_fields exampleMessage_fields cyclic_history_B
        messageRepository_createHumanMessage_def nodup keepAttachments_def)
  have tz: "(case ep_timeZone exampleCyclicEdit of None \<Rightarrow> timezone exampleEnv | Some z \<Rightarrow> z) = ''UTC''"
    by (simp add: exampleEnv_def exampleCyclicEdit_def)
  obtain stored w' where "editMessage_transaction exampleEnv exampleUser exampleCyclicEdit ''UTC'' ''meta''
        cyclicWorld
      = (Inr (Some exampleWorkflow, []), stored, w')"
    using tr
    by (cases "editMessage_transaction exampleEnv exampleUser exampleCyclicEdit ''UTC'' ''meta''
        cyclicWorld") auto
  then show ?thesis
    unfolding editMessage_def tz by (simp add: Let_def)
qed

text \<open>
  C6 as stated fails: in a session whose messages A and B name each other as previous
  message, the edit of the human message A succeeds and the history handed to the reply
  preparation contains A, the edited message itself (and B, which descends from it).
\<close>

theorem cyclic_edit_sees_edited_message:
  "getChatMessage cyclicWorld ''S1'' (ep_editId exampleCyclicEdit)
     = Inr (exampleMessage ''A'' Human ''hello'' (Some ''B''))
   \<and> fst (editMessage exampleEnv exampleUser exampleCyclicEdit ''meta'' cyclicWorld) = Inr ()
   \<and> replyPreparations (snd (editMessage exampleEnv exampleUser exampleCyclicEdit ''meta'' cyclicWorld))
       = [(BaseLLMModel ''openai'' ''gpt-4'',
           [MessageValue (exampleMessage ''A'' Human ''hello'' (Some ''B'')),
            MessageValue (exampleMessage ''B'' Ai ''hi'' (Some ''A''))],
           \<lparr>in_message = ''hello again'', in_attachments = []\<rparr>)]"
proof -
  let ?A = "exampleMessage ''A'' Human ''hello'' (Some ''B'')"
  have s: "getChatSession cyclicWorld exampleUser (ep_sessionId exampleCyclicEdit) = Some cyclicSession"
    using cyclic_session by (simp add: exampleCyclicEdit_def)
  have m: "getChatMessage cyclicWorld (ses_id cyclicSession) (ep_editId exampleCyclicEdit) = Inr ?A"
    using cyclic_message_A by (simp add: exampleCyclicEdit_def cyclicSession_fields)
  have h: "msg_type ?A = Human" by (simp add: exampleMessage_fields)
  from human_edit_success[OF s m h exampleCyclicEdit_succeeds] obtain newStored where
    st: "(if ep_newAttachments exampleCyclicEdit = [] then newStored = []
          else storeMessageAttachments_outcome exampleEnv (ep_sessionId exampleCyclicEdit)
                 (ep_messageId exampleCyclicEdit) (ep_newAttachments exampleCyclicEdit) = Inr newStored)"
    and rp: "replyPreparations (snd (editMessage exampleEnv exampleUser exampleCyclicEdit ''meta'' cyclicWorld))
           = replyPreparations cyclicWorld @
             [(ep_model exampleCyclicEdit,
               buildMessageHistory (sessionMessages cyclicSession) (msg_previousMessageId ?A),
               \<lparr>in_message = ep_message exampleCyclicEdit,
                in_attachments =
                  keepAttachments (case msg_attachments ?A of None \<Rightarrow> [] | Some as \<Rightarrow> as)
                    (ep_keepAttachmentIndices exampleCyclicEdit) @ newStored\<rparr>)]"
    by blast
  from st have ns: "newStored = []" by (simp add: exampleCyclicEdit_def)
  have preps: "replyPreparations (snd (editMessage exampleEnv exampleUser exampleCyclicEdit ''meta'' cyclicWorld))
       = [(BaseLLMModel ''openai'' ''gpt-4'',
           [MessageValue ?A, MessageValue (exampleMessage ''B'' Ai ''hi'' (Some ''A''))],
           \<lparr>in_message = ''hello again'', in_attachments = []\<rparr>)]"
    unfolding rp ns
    by (simp add: exampleMessage_fields cyclic_history_B cyclicWorld_def conversationWorld_def
        exampleCyclicEdit_def keepAttachments_def)
  from m preps exampleCyclicEdit_succeeds show ?thesis
    by (simp add: cyclicSession_fields)
qed

theorem editMessage_human_witness:
  "getChatSession conversationWorld exampleUser (ep_sessionId exampleHumanEdit) = Some conversationSession
   \<and> fst (editMessage exampleEnv exampleUser exampleHumanEdit ''meta'' conversationWorld) = Inr ()
   \<and> distinct (map msg_id (messageTable conversationWorld))
   \<and> acyclic (parentRelation (sessionMessages conversationSession))
   \<and> messageTable (snd (editMessage exampleEnv exampleUser exampleHumanEdit ''meta'' conversationWorld))
       = conversationMessages @
         [newHumanMessage ''S1'' ''M6'' ''question?''
            [exampleAttachment ''b.txt'' ''text/plain'',
             (exampleAttachment ''c.txt'' ''text/plain'')\<lparr>bin_id := Some ''M6/c.txt''\<rparr>]
            (Some ''M2'') (Some ''M3'')]
   \<and> replyPreparations (snd (editMessage exampleEnv exampleUser exampleHumanEdit ''meta''
            conversationWorld))
       = [(BaseLLMModel ''openai'' ''gpt-4'',
           [MessageValue (exampleMessage ''M1'' Human ''hello'' None),
            MessageValue (exampleMessage ''M2'' Ai ''hi'' (Some ''M1''))],
           \<lparr>in_message = ''question?'',
            in_attachments =
              [exampleAttachment ''b.txt'' ''text/plain'',
               (exampleAttachment ''c.txt'' ''text/plain'')\<lparr>bin_id := Some ''M6/c.txt''\<rparr>]\<rparr>)]
   \<and> MessageValue ((exampleMessage ''M3'' Human ''question'' (Some ''M2''))
        \<lparr>msg_attachments := Some [exampleAttachment ''a.txt'' ''text/plain'',
                                  exampleAttachment ''b.txt'' ''text/plain'']\<rparr>)
       \<notin> set (buildMessageHistory (sessionMessages conversationSession) (Some ''M2''))"
proof -
  let ?m3 = "(exampleMessage ''M3'' Human ''question'' (Some ''M2''))
        \<lparr>msg_attachments := Some [exampleAttachment ''a.txt'' ''text/plain'',
                                  exampleAttachment ''b.txt'' ''text/plain'']\<rparr>"
  have s: "getChatSession conversationWorld exampleUser (ep_sessionId exampleHumanEdit)
             = Some conversationSession"
    using conversation_session by (simp add: exampleHumanEdit_def)
  have m: "getChatMessage conversationWorld (ses_id conversationSession) (ep_editId exampleHumanEdit)
             = Inr ?m3"
    using conversation_message_M3 by (simp add: exampleHumanEdit_def conversationSession_fields)
  have h: "msg_type ?m3 = Human" by (simp add: exampleMessage_fields)
  have d: "distinct (map msg_id (messageTable conversationWorld))"
    by (simp add: conversationWorld_def conversationMessages_def exampleMessage_def)
  note inst = editMessage_human[OF s m h, of exampleEnv "''meta''"]
  from inst exampleHumanEdit_succeeds obtain newStored where
    st: "(if ep_newAttachments exampleHumanEdit = [] then newStored = []
          else storeMessageAttachments_outcome exampleEnv (ep_sessionId exampleHumanEdit)
                 (ep_messageId exampleHumanEdit) (ep_newAttachments exampleHumanEdit) = Inr newStored)"
    and mt: "messageTable (snd (editMessage exampleEnv exampleUser exampleHumanEdit ''meta'' conversationWorld))
           = messageTable conversationWorld @
             [newHumanMessage (ep_sessionId exampleHumanEdit) (ep_messageId exampleHumanEdit)
                (ep_message exampleHumanEdit)
                (keepAttachments (case msg_attachments ?m3 of None \<Rightarrow> [] | Some as \<Rightarrow> as)
                   (ep_keepAttachmentIndices exampleHumanEdit) @ newStored)
                (msg_previousMessageId ?m3)
                (Some (case msg_revisionOfMessageId ?m3 of None \<Rightarrow> msg_id ?m3 | Some r \<Rightarrow> r))]"
    and rp: "replyPreparations (snd (editMessage exampleEnv exampleUser exampleHumanEdit ''meta'' conversationWorld))
           = replyPreparations conversationWorld @
             [(ep_model exampleHumanEdit,
               buildMessageHistory (sessionMessages conversationSession) (msg_previousMessageId ?m3),
               \<lparr>in_message = ep_message exampleHumanEdit,
                in_attachments =
                  keepAttachments (case msg_attachments ?m3 of None \<Rightarrow> [] | Some as \<Rightarrow> as)
                    (ep_keepAttachmentIndices exampleHumanEdit) @ newStored\<rparr>)]"
    by blast
  from st have ns: "newStored = [(exampleAttachment ''c.txt'' ''text/plain'')\<lparr>bin_id := Some ''M6/c.txt''\<rparr>]"
    by (simp add: exampleHumanEdit_def exampleEnv_def exampleAttachment_fields)
  have kept: "keepAttachments (case msg_attachments ?m3 of None \<Rightarrow> [] | Some as \<Rightarrow> as)
                   (ep_keepAttachmentIndices exampleHumanEdit) = [exampleAttachment ''b.txt'' ''text/plain'']"
    by (simp add: keepAttachments_def exampleHumanEdit_def)
  have table: "messageTable (snd (editMessage exampleEnv exampleUser exampleHumanEdit ''meta'' conversationWorld))
       = conversationMessages @
         [newHumanMessage ''S1'' ''M6'' ''question?''
            [exampleAttachment ''b.txt'' ''text/plain'',
             (exampleAttachment ''c.txt'' ''text/plain'')\<lparr>bin_id := Some ''M6/c.txt''\<rparr>]
            (Some ''M2'') (Some ''M3'')]"
    unfolding mt kept ns
    by (simp add: exampleHumanEdit_def exampleMessage_fields conversationWorld_def)
  have preps: "replyPreparations (snd (editMessage exampleEnv exampleUser exampleHumanEdit ''meta''
            conversationWorld))
       = [(BaseLLMModel ''openai'' ''gpt-4'',
           [MessageValue (exampleMessage ''M1'' Human ''hello'' None),
            MessageValue (exampleMessage ''M2'' Ai ''hi'' (Some ''M1''))],
           \<lparr>in_message = ''question?'',
            in_attachments =
              [exampleAttachment ''b.txt'' ''text/plain'',
               (exampleAttachment ''c.txt'' ''text/plain'')\<lparr>bin_id := Some ''M6/c.txt''\<rparr>]\<rparr>)]"
    unfolding rp kept ns
    by (simp add: exampleMessage_fields conversation_history_M2 conversationWorld_def
        exampleHumanEdit_def)
  from inst d conversation_acyclic
  have "\<forall>x. MessageValue x \<in> set (buildMessageHistory (sessionMessages conversationSession)
                                     (msg_previousMessageId ?m3)) \<longrightarrow>
          msg_id x \<noteq> msg_id ?m3" by blast
  then have notin: "MessageValue ?m3
       \<notin> set (buildMessageHistory (sessionMessages conversationSession) (Some ''M2''))"
    by (auto simp: exampleMessage_fields)
  from s exampleHumanEdit_succeeds d conversation_acyclic table preps notin
  show ?thesis by blast
qed



section \<open>The history passed on by regenerateAIMessage\<close>





















section \<open>Cleanup of stored attachments\<close>

















end
